theory Spec2Isabelle
  imports Main "HOL-Library.Word"
begin

section \<open>The rados plugin (plugins/rados/rados.c): data model\<close>

text \<open>
  The plugin serves a Ceph/RADOS pool over HTTP/WebDAV. The embedding keeps the C structs
  as records, threads one \<open>world\<close> record through every function (the plugin's globals,
  the kernel's descriptors and pipes, the object store, the unread request body and the
  trace of every external call), and makes a NULL or out-of-bounds dereference an
  explicit outcome.
\<close>

type_synonym u64 = "64 word"

text \<open>\<open>rados_ioctx_t\<close>: an opaque handle; the model keeps the pool it was opened on.\<close>

datatype rados_ioctx = Ioctx (ioctx_id: nat) (ioctx_pool: string)

text \<open>\<open>struct uwsgi_rados_cb\<close>: allocated for each async transaction. \<open>cb_urio\<close> is the
  pointer into \<open>urados.urio\<close>, kept as the index of the slot.\<close>

record uwsgi_rados_cb =
  cb_rid :: u64
  cb_urio :: nat

text \<open>What an object-store operation hands back: its return value and its out-parameters.\<close>

record rados_reply =
  reply_ret :: int
  reply_size :: nat
  reply_mtime :: int
  reply_data :: string

text \<open>\<open>rados_completion_t\<close>: the record the callback is bound to, the reply of the
  operation once it has completed, and whether it is safe and called back.\<close>

record rados_completion =
  comp_arg :: uwsgi_rados_cb
  comp_reply :: rados_reply
  comp_safe_and_cb :: bool
  comp_released :: bool

text \<open>\<open>struct uwsgi_rados_io\<close>: preallocated, one per async core.\<close>

record uwsgi_rados_io =
  fds :: "int \<times> int"
  rid :: u64
  completion :: "rados_completion option"

text \<open>\<open>struct uwsgi_rados_mountpoint\<close>. A \<open>char *\<close> that may be NULL is a \<open>string option\<close>.\<close>

record uwsgi_rados_mountpoint =
  cluster :: nat
  mountpoint :: "string option"
  config :: "string option"
  pool :: "string option"
  str_timeout :: "string option"
  timeout :: int
  allow_put :: "string option"
  allow_delete :: "string option"
  allow_mkcol :: "string option"
  allow_propfind :: "string option"

text \<open>\<open>ua->responder0\<close> is a \<open>void *\<close>: one context, or the array of one context per thread.\<close>

datatype ctx_ptr = Ctx_single rados_ioctx | Ctx_array "rados_ioctx list"

record uwsgi_app =
  app_modifier1 :: nat
  app_mountpoint :: string
  responder0 :: ctx_ptr
  responder1 :: uwsgi_rados_mountpoint

text \<open>The fields of \<open>struct wsgi_request\<close> that the plugin reads (\<open>req_method\<close> is the field
  \<open>method\<close>).\<close>

record wsgi_request =
  len :: nat
  req_method :: string
  path_info :: string
  appid :: string
  post_cl :: nat
  if_modified_since :: string
  async_id :: nat
  http_depth :: "string option"

record rados_object =
  obj_data :: string
  obj_mtime :: int

datatype rados_op =
    Op_stat rados_ioctx string
  | Op_remove rados_ioctx string
  | Op_write_full rados_ioctx string string
  | Op_read rados_ioctx string nat nat

datatype response_call =
    Prepare_headers string
  | Add_header string string
  | Add_content_type string
  | Add_last_modified u64
  | Add_content_length nat
  | Write_body string
  | Write_headers
  | Uwsgi_403
  | Uwsgi_404
  | Uwsgi_405
  | Uwsgi_500

text \<open>Every call that leaves the plugin, in the order the code makes it.\<close>

datatype event =
    Mutex_lock nat
  | Mutex_unlock nat
  | Malloc_cb uwsgi_rados_cb
  | Free_cb uwsgi_rados_cb
  | Log string
  | Log_too_late u64
  | Sys_pipe "(int \<times> int) option"
  | Sys_close int
  | Sys_write int int
  | Sys_read int int
  | Wait_read_hook int int int
  | Rados_sync rados_op
  | Rados_aio rados_op uwsgi_rados_cb
  | Rados_aio_create_completion uwsgi_rados_cb
  | Rados_aio_release nat
  | Rados_pool_create nat string
  | Rados_objects_list_open rados_ioctx
  | Rados_ioctx_create nat string
  | Body_read nat
  | Resp response_call

record world =
  urio :: "uwsgi_rados_io list"
  heap :: "uwsgi_rados_cb list"
  in_flight :: "(uwsgi_rados_cb \<times> rados_op) list"
  objects :: "((string \<times> string) \<times> rados_object) list"
  pools :: "string list"
  open_fds :: "int list"
  kpipes :: "(int \<times> int \<times> nat) list"
  req_body :: string
  now :: int
  uwsgi_apps :: "uwsgi_app list"
  next_ioctx :: nat
  trace :: "event list"

text \<open>The globals of \<open>struct uwsgi_server\<close> the plugin reads.\<close>

record uwsgi_server =
  async :: int
  threads :: int
  no_default_app :: bool
  default_app :: int
  socket_timeout :: int

text \<open>
  The host runtime and the librados client are not part of the plugin. Whatever the code
  branches on and the plugin does not decide is a field here: the return value of each
  host call as a function of the call, and for the object store a fault code per operation
  (negative: the operation fails with it and has no effect), the return value of the
  submission of an AIO, and whether its completion arrives before the wait times out.
\<close>

record host =
  uwsgi :: uwsgi_server
  urados_timeout :: int
  parse_vars :: "wsgi_request \<Rightarrow> int"
  get_app_id :: "wsgi_request \<Rightarrow> int"
  new_pipe :: "int list \<Rightarrow> (int \<times> int) option"
  response :: "response_call \<Rightarrow> int"
  buffer_append :: "string \<Rightarrow> string \<Rightarrow> int"
  get_mime_type :: "string \<Rightarrow> string option"
  parse_http_date :: "string \<Rightarrow> int"
  str_num :: "string \<Rightarrow> nat"
  body_read_fails :: "string \<Rightarrow> bool"
  multistatus_new :: "string option"
  propfind_item_add :: "string \<Rightarrow> string \<Rightarrow> nat \<Rightarrow> int \<Rightarrow> string option \<Rightarrow> string option"
  multistatus_close :: "string \<Rightarrow> string option"
  rados_fault :: "rados_op \<Rightarrow> int"
  pool_create_fault :: "string \<Rightarrow> int"
  list_open_fault :: "rados_ioctx \<Rightarrow> int"
  ioctx_create_fault :: "string \<Rightarrow> nat \<Rightarrow> int"
  cluster_fault :: "string \<Rightarrow> int"
  add_app_fails :: "string \<Rightarrow> bool"
  atoi :: "string \<Rightarrow> int"
  create_completion_ret :: "uwsgi_rados_cb \<Rightarrow> int"
  aio_submit_ret :: "uwsgi_rados_cb \<Rightarrow> int"
  aio_in_time :: "uwsgi_rados_cb \<Rightarrow> bool"

text \<open>A call either returns a value in a new world, or dereferences a NULL or
  out-of-bounds pointer (undefined behaviour in C: the worker dies).\<close>

datatype 'a outcome = Returned 'a world | Crashed world

definition ENOENT :: int where
  "ENOENT = 2"

definition EEXIST :: int where
  "EEXIST = 17"

definition PATH_MAX :: nat where
  "PATH_MAX = 4096"

definition UWSGI_OK :: int where
  "UWSGI_OK = 0"

definition UMIN :: "nat \<Rightarrow> nat \<Rightarrow> nat" where
  "UMIN a b = (if a < b then a else b)"

definition emit :: "event \<Rightarrow> world \<Rightarrow> world" where
  "emit e w = w\<lparr>trace := trace w @ [e]\<rparr>"

section \<open>The kernel: descriptors and pipes\<close>

text \<open>A pipe is \<open>(read end, write end, bytes buffered)\<close>. A descriptor is usable while it
  is in \<open>open_fds\<close>.\<close>

definition sys_pipe :: "host \<Rightarrow> world \<Rightarrow> (int \<times> int) option \<times> world" where
  "sys_pipe h w =
     (case new_pipe h (open_fds w) of
        None \<Rightarrow> (None, emit (Sys_pipe None) w)
      | Some (r, x) \<Rightarrow>
          (Some (r, x),
           emit (Sys_pipe (Some (r, x)))
             (w\<lparr>open_fds := r # x # open_fds w,
                kpipes := (r, x, 0) #
                  filter (\<lambda>(a, b, n). a \<noteq> r \<and> a \<noteq> x \<and> b \<noteq> r \<and> b \<noteq> x) (kpipes w)\<rparr>)))"

definition sys_close :: "int \<Rightarrow> world \<Rightarrow> world" where
  "sys_close fd w = emit (Sys_close fd) (w\<lparr>open_fds := removeAll fd (open_fds w)\<rparr>)"

text \<open>\<open>write(fd, "\1", 1)\<close>: one byte into the pipe whose write end is \<open>fd\<close>, when both of
  its ends are open; \<open>-1\<close> otherwise.\<close>

definition sys_write :: "int \<Rightarrow> world \<Rightarrow> int \<times> world" where
  "sys_write fd w =
     (if fd \<in> set (open_fds w) \<and>
         (\<exists>p \<in> set (kpipes w). fst (snd p) = fd \<and> fst p \<in> set (open_fds w))
      then (1, emit (Sys_write fd 1)
                 (w\<lparr>kpipes := map (\<lambda>(a, b, n). if b = fd then (a, b, Suc n) else (a, b, n))
                                  (kpipes w)\<rparr>))
      else (- 1, emit (Sys_write fd (- 1)) w))"

definition readable :: "int \<Rightarrow> world \<Rightarrow> bool" where
  "readable fd w \<longleftrightarrow>
     fd \<in> set (open_fds w) \<and> (\<exists>p \<in> set (kpipes w). fst p = fd \<and> 0 < snd (snd p))"

text \<open>\<open>read(fd, &ack, 1)\<close>: one byte out of the pipe whose read end is \<open>fd\<close>. The code reads
  only after the wait has said readable; a read that would block, or on a descriptor that
  is not open, is \<open>-1\<close> here.\<close>

definition sys_read :: "int \<Rightarrow> world \<Rightarrow> int \<times> world" where
  "sys_read fd w =
     (if readable fd w
      then (1, emit (Sys_read fd 1)
                 (w\<lparr>kpipes := map (\<lambda>(a, b, n). if a = fd then (a, b, n - 1) else (a, b, n))
                                  (kpipes w)\<rparr>))
      else (- 1, emit (Sys_read fd (- 1)) w))"

text \<open>\<open>uwsgi.wait_read_hook(fd, timeout)\<close>: positive when the descriptor is readable,
  0 on timeout, negative on a descriptor that is not open.\<close>

definition wait_read_hook :: "int \<Rightarrow> int \<Rightarrow> world \<Rightarrow> int \<times> world" where
  "wait_read_hook fd tmo w =
     (let r = (if readable fd w then 1 else if fd \<in> set (open_fds w) then 0 else - 1)
      in (r, emit (Wait_read_hook fd tmo r) w))"

section \<open>The object store\<close>

text \<open>
  librados is an external library. Its operations follow its documentation: \<open>stat\<close> and
  \<open>read\<close> and \<open>remove\<close> fail with \<open>-ENOENT\<close> on a missing object; \<open>write_full\<close> replaces
  the whole object with the buffer; \<open>read\<close> returns the bytes from the offset on, at most
  the length asked for.
\<close>

definition reply :: "int \<Rightarrow> rados_reply" where
  "reply r = \<lparr>reply_ret = r, reply_size = 0, reply_mtime = 0, reply_data = []\<rparr>"

fun rados_exec :: "rados_op \<Rightarrow> world \<Rightarrow> rados_reply \<times> world" where
  "rados_exec (Op_stat ctx key) w =
     (case map_of (objects w) (ioctx_pool ctx, key) of
        None \<Rightarrow> (reply (- ENOENT), w)
      | Some ob \<Rightarrow>
          (\<lparr>reply_ret = 0, reply_size = length (obj_data ob), reply_mtime = obj_mtime ob,
            reply_data = []\<rparr>, w))"
| "rados_exec (Op_remove ctx key) w =
     (case map_of (objects w) (ioctx_pool ctx, key) of
        None \<Rightarrow> (reply (- ENOENT), w)
      | Some ob \<Rightarrow>
          (reply 0, w\<lparr>objects := filter (\<lambda>p. fst p \<noteq> (ioctx_pool ctx, key)) (objects w)\<rparr>))"
| "rados_exec (Op_write_full ctx key buf) w =
     (reply 0,
      w\<lparr>objects := ((ioctx_pool ctx, key), \<lparr>obj_data = buf, obj_mtime = now w\<rparr>) #
                    filter (\<lambda>p. fst p \<noteq> (ioctx_pool ctx, key)) (objects w)\<rparr>)"
| "rados_exec (Op_read ctx key n off) w =
     (case map_of (objects w) (ioctx_pool ctx, key) of
        None \<Rightarrow> (reply (- ENOENT), w)
      | Some ob \<Rightarrow>
          (let d = take n (drop off (obj_data ob))
           in (\<lparr>reply_ret = int (length d), reply_size = 0, reply_mtime = 0, reply_data = d\<rparr>, w)))"

text \<open>The synchronous calls \<open>rados_stat\<close>, \<open>rados_remove\<close>, \<open>rados_write_full\<close>, \<open>rados_read\<close>.\<close>

definition rados_sync :: "host \<Rightarrow> rados_op \<Rightarrow> world \<Rightarrow> rados_reply \<times> world" where
  "rados_sync h op w =
     (let w1 = emit (Rados_sync op) w
      in if rados_fault h op < 0 then (reply (rados_fault h op), w1) else rados_exec op w1)"

section \<open>The completion bridge\<close>

definition slot_update :: "nat \<Rightarrow> (uwsgi_rados_io \<Rightarrow> uwsgi_rados_io) \<Rightarrow> world \<Rightarrow> world" where
  "slot_update i f w = w\<lparr>urio := (urio w)[i := f (urio w ! i)]\<rparr>"

definition free_cb :: "uwsgi_rados_cb \<Rightarrow> world \<Rightarrow> world" where
  "free_cb urcb w = emit (Free_cb urcb) (w\<lparr>heap := remove1 urcb (heap w)\<rparr>)"

text \<open>\<open>uwsgi_rados_async_cb\<close>: the callback the store runs when an AIO completes.\<close>

definition uwsgi_rados_async_cb :: "uwsgi_rados_cb \<Rightarrow> world \<Rightarrow> world" where
  "uwsgi_rados_async_cb urcb w =
     (let i = cb_urio urcb;
          w1 = emit (Mutex_lock i) w;
          w2 = (if cb_rid urcb \<noteq> rid (urio w1 ! i)
                then emit (Log_too_late (cb_rid urcb)) w1
                else (case sys_write (snd (fds (urio w1 ! i))) w1 of
                        (n, w') \<Rightarrow>
                          if n \<le> 0 then emit (Log ''uwsgi_rados_async_cb()/write()'') w'
                          else w'));
          w3 = emit (Mutex_unlock i) w2
      in free_cb urcb w3)"

text \<open>\<open>uwsgi_rados_set_completion\<close>. \<open>&urados.urio[async_id]\<close> outside the array is a crash.\<close>

definition uwsgi_rados_set_completion ::
    "host \<Rightarrow> nat \<Rightarrow> world \<Rightarrow> uwsgi_rados_cb option outcome" where
  "uwsgi_rados_set_completion h aid w =
     (if length (urio w) \<le> aid then Crashed w
      else
        let w1 = emit (Mutex_lock aid) w;
            w2 = slot_update aid (\<lambda>u. u\<lparr>rid := rid u + 1\<rparr>) w1;
            w3 = emit (Mutex_unlock aid) w2;
            urcb = \<lparr>cb_rid = rid (urio w3 ! aid), cb_urio = aid\<rparr>;
            w4 = emit (Malloc_cb urcb) (w3\<lparr>heap := urcb # heap w3\<rparr>);
            w5 = emit (Rados_aio_create_completion urcb) w4
        in if create_completion_ret h urcb < 0
           then Returned None (free_cb urcb w5)
           else Returned (Some urcb)
                  (slot_update aid
                     (\<lambda>u. u\<lparr>completion :=
                              Some \<lparr>comp_arg = urcb, comp_reply = reply 0,
                                    comp_safe_and_cb = False, comp_released = False\<rparr>\<rparr>) w5))"

definition rados_aio_release :: "nat \<Rightarrow> world \<Rightarrow> world" where
  "rados_aio_release i w =
     emit (Rados_aio_release i)
       (slot_update i (\<lambda>u. u\<lparr>completion := map_option (\<lambda>c. c\<lparr>comp_released := True\<rparr>)
                                              (completion u)\<rparr>) w)"

text \<open>The store completes an operation: it runs it, fills the completion when that is
  still the one bound to the record, and calls back.\<close>

definition rados_aio_complete :: "host \<Rightarrow> rados_op \<Rightarrow> uwsgi_rados_cb \<Rightarrow> world \<Rightarrow> world" where
  "rados_aio_complete h op urcb w =
     (case (if rados_fault h op < 0 then (reply (rados_fault h op), w) else rados_exec op w) of
        (rep, w1) \<Rightarrow>
          uwsgi_rados_async_cb urcb
            (slot_update (cb_urio urcb)
               (\<lambda>u. u\<lparr>completion :=
                        map_option (\<lambda>c. if comp_arg c = urcb \<and> \<not> comp_released c
                                         then c\<lparr>comp_reply := rep, comp_safe_and_cb := True\<rparr>
                                         else c) (completion u)\<rparr>) w1))"

text \<open>\<open>rados_aio_stat\<close>, \<open>rados_aio_remove\<close>, \<open>rados_aio_write_full\<close>, \<open>rados_aio_read\<close>:
  the submission. A negative return value queues nothing; otherwise the operation is in
  flight, bound to its record.\<close>

definition rados_aio :: "host \<Rightarrow> rados_op \<Rightarrow> uwsgi_rados_cb \<Rightarrow> world \<Rightarrow> int \<times> world" where
  "rados_aio h op urcb w =
     (let w1 = emit (Rados_aio op urcb) w
      in if aio_submit_ret h urcb < 0 then (aio_submit_ret h urcb, w1)
         else (0, w1\<lparr>in_flight := (urcb, op) # in_flight w1\<rparr>))"

text \<open>The store finishes an operation that is in flight.\<close>

definition rados_aio_deliver :: "host \<Rightarrow> uwsgi_rados_cb \<times> rados_op \<Rightarrow> world \<Rightarrow> world" where
  "rados_aio_deliver h p w =
     rados_aio_complete h (snd p) (fst p) (w\<lparr>in_flight := remove1 p (in_flight w)\<rparr>)"

text \<open>While the core waits on the pipe the store works: the operation last submitted with
  \<open>urcb\<close> is finished when it is in time. An operation that is not stays in flight and may
  be finished at any later moment.\<close>

definition rados_aio_progress :: "host \<Rightarrow> uwsgi_rados_cb \<Rightarrow> world \<Rightarrow> world" where
  "rados_aio_progress h urcb w =
     (case find (\<lambda>p. fst p = urcb) (in_flight w) of
        None \<Rightarrow> w
      | Some p \<Rightarrow> if aio_in_time h urcb then rados_aio_deliver h p w else w)"

text \<open>\<open>uwsgi_rados_wait_completion\<close>; the result is paired with the reply of the
  completion (the out-parameters of the operation). \<open>urcb->urio\<close> is read on entry; the
  callback, which frees \<open>urcb\<close>, runs while the core waits.\<close>

definition uwsgi_rados_wait_completion ::
    "host \<Rightarrow> int \<Rightarrow> uwsgi_rados_cb \<Rightarrow> int \<Rightarrow> world \<Rightarrow> (int \<times> rados_reply) \<times> world" where
  "uwsgi_rados_wait_completion h ret urcb tmo w =
     (let i = cb_urio urcb in
      if ret < 0 then ((- 1, reply (- 1)), free_cb urcb (rados_aio_release i w))
      else
        (case wait_read_hook (fst (fds (urio w ! i))) tmo (rados_aio_progress h urcb w) of
           (r, w1) \<Rightarrow>
             if r \<le> 0 then ((- 1, reply (- 1)), rados_aio_release i w1)
             else
               (case sys_read (fst (fds (urio w1 ! i))) w1 of
                  (n, w2) \<Rightarrow>
                    if n \<noteq> 1
                    then ((- 1, reply (- 1)),
                          emit (Log ''uwsgi_rados_wait_completion()/read()'')
                            (rados_aio_release i w2))
                    else
                      (case completion (urio w2 ! i) of
                         Some c \<Rightarrow>
                           if comp_safe_and_cb c
                           then ((reply_ret (comp_reply c), comp_reply c),
                                 rados_aio_release i w2)
                           else ((- 1, reply (- 1)), rados_aio_release i w2)
                       | None \<Rightarrow> ((- 1, reply (- 1)), rados_aio_release i w2)))))"

section \<open>The operation primitives\<close>

datatype body_chunk = Body_null | Body_empty | Body_chunk string

text \<open>
  Modelled from the spec: \<open>uwsgi_request_body_read\<close> (the host's \<open>read_body(n)\<close>) is not
  under the plugin's source. It hands out the next bytes of the unread body, at most \<open>n\<close>
  of them; \<open>uwsgi.empty\<close> once the body is exhausted; NULL on a read error.
\<close>

definition uwsgi_request_body_read :: "host \<Rightarrow> nat \<Rightarrow> world \<Rightarrow> body_chunk \<times> world" where
  "uwsgi_request_body_read h hint w =
     (let w1 = emit (Body_read hint) w
      in if req_body w = [] then (Body_empty, w1)
         else if body_read_fails h (req_body w) then (Body_null, w1)
         else (Body_chunk (take hint (req_body w)), w1\<lparr>req_body := drop hint (req_body w)\<rparr>))"

text \<open>\<open>uwsgi_rados_delete\<close>.\<close>

definition uwsgi_rados_delete ::
    "host \<Rightarrow> wsgi_request \<Rightarrow> rados_ioctx \<Rightarrow> string \<Rightarrow> int \<Rightarrow> world \<Rightarrow> int outcome" where
  "uwsgi_rados_delete h req ctx key tmo w =
     (if async (uwsgi h) < 1
      then (case rados_sync h (Op_remove ctx key) w of (rep, w1) \<Rightarrow> Returned (reply_ret rep) w1)
      else
        (case uwsgi_rados_set_completion h (async_id req) w of
           Crashed w1 \<Rightarrow> Crashed w1
         | Returned None w1 \<Rightarrow> Returned (- 1) w1
         | Returned (Some urcb) w1 \<Rightarrow>
             (case rados_aio h (Op_remove ctx key) urcb w1 of
                (r, w2) \<Rightarrow>
                  (case uwsgi_rados_wait_completion h r urcb tmo w2 of
                     ((ret, rep), w3) \<Rightarrow> Returned ret w3))))"

text \<open>\<open>uwsgi_rados_put\<close>: the loop, with \<open>remains\<close> and \<open>off\<close> as arguments. In the async
  branch \<open>urcb->urio->comp\<close> is read with no test of \<open>urcb\<close>: a NULL record is a crash.\<close>

function uwsgi_rados_put_loop ::
    "host \<Rightarrow> wsgi_request \<Rightarrow> rados_ioctx \<Rightarrow> string \<Rightarrow> int \<Rightarrow> nat \<Rightarrow> u64 \<Rightarrow> world \<Rightarrow> int outcome"
where
  "uwsgi_rados_put_loop h req ctx key tmo remains off w =
     (if 0 < remains then
        (case uwsgi_request_body_read h (UMIN remains 32768) w of
           (Body_null, w1) \<Rightarrow> Returned (- 1) w1
         | (Body_empty, w1) \<Rightarrow> Returned (- 1) w1
         | (Body_chunk body, w1) \<Rightarrow>
             if async (uwsgi h) < 1 then
               (case rados_sync h (Op_write_full ctx key body) w1 of
                  (rep, w2) \<Rightarrow>
                    if reply_ret rep < 0 then Returned (- 1) w2
                    else uwsgi_rados_put_loop h req ctx key tmo (remains - length body)
                           (off + of_nat (length body)) w2)
             else
               (case uwsgi_rados_set_completion h (async_id req) w1 of
                  Crashed w2 \<Rightarrow> Crashed w2
                | Returned None w2 \<Rightarrow> Crashed w2
                | Returned (Some urcb) w2 \<Rightarrow>
                    (case rados_aio h (Op_write_full ctx key body) urcb w2 of
                       (r, w3) \<Rightarrow>
                         (case uwsgi_rados_wait_completion h r urcb tmo w3 of
                            ((ret, rep), w4) \<Rightarrow>
                              if ret < 0 then Returned (- 1) w4
                              else uwsgi_rados_put_loop h req ctx key tmo (remains - length body)
                                     (off + of_nat (length body)) w4))))
      else Returned 0 w)"
  by pat_completeness auto

lemma body_chunk_nonempty:
  "uwsgi_request_body_read h hint w = (Body_chunk body, w1) \<Longrightarrow> 0 < hint \<Longrightarrow> 0 < length body"
  by (auto simp: uwsgi_request_body_read_def Let_def split: if_splits)

lemma UMIN_pos: "0 < a \<Longrightarrow> 0 < b \<Longrightarrow> 0 < UMIN a b"
  by (simp add: UMIN_def)

termination uwsgi_rados_put_loop
  by (relation "measure (\<lambda>(h, req, ctx, key, tmo, remains, off, w). remains)")
     (auto dest!: body_chunk_nonempty [OF sym] simp: UMIN_pos)

declare uwsgi_rados_put_loop.simps [simp del]

definition uwsgi_rados_put ::
    "host \<Rightarrow> wsgi_request \<Rightarrow> rados_ioctx \<Rightarrow> string \<Rightarrow> int \<Rightarrow> world \<Rightarrow> int outcome" where
  "uwsgi_rados_put h req ctx key tmo w = uwsgi_rados_put_loop h req ctx key tmo (post_cl req) 0 w"

text \<open>\<open>uwsgi_rados_async_stat\<close>: no test of \<open>urcb\<close> before \<open>urcb->urio->comp\<close>.\<close>

definition uwsgi_rados_async_stat ::
    "host \<Rightarrow> nat \<Rightarrow> rados_ioctx \<Rightarrow> string \<Rightarrow> int \<Rightarrow> world \<Rightarrow> (int \<times> rados_reply) outcome" where
  "uwsgi_rados_async_stat h aid ctx key tmo w =
     (case uwsgi_rados_set_completion h aid w of
        Crashed w1 \<Rightarrow> Crashed w1
      | Returned None w1 \<Rightarrow> Crashed w1
      | Returned (Some urcb) w1 \<Rightarrow>
          (case rados_aio h (Op_stat ctx key) urcb w1 of
             (r, w2) \<Rightarrow>
               (case uwsgi_rados_wait_completion h r urcb tmo w2 of
                  (res, w3) \<Rightarrow> Returned res w3)))"

text \<open>The stat as the request handler and PROPFIND make it: async or synchronous.\<close>

definition stat_either ::
    "host \<Rightarrow> nat \<Rightarrow> rados_ioctx \<Rightarrow> string \<Rightarrow> int \<Rightarrow> world \<Rightarrow> (int \<times> rados_reply) outcome" where
  "stat_either h aid ctx key tmo w =
     (if 0 < async (uwsgi h) then uwsgi_rados_async_stat h aid ctx key tmo w
      else (case rados_sync h (Op_stat ctx key) w of
              (rep, w1) \<Rightarrow> Returned (reply_ret rep, rep) w1))"

definition resp :: "host \<Rightarrow> response_call \<Rightarrow> world \<Rightarrow> int \<times> world" where
  "resp h c w = (response h c, emit (Resp c) w)"

text \<open>\<open>uwsgi_rados_read\<close>, the synchronous loop.\<close>

function uwsgi_rados_read_sync ::
    "host \<Rightarrow> rados_ioctx \<Rightarrow> string \<Rightarrow> nat \<Rightarrow> u64 \<Rightarrow> world \<Rightarrow> int \<times> world" where
  "uwsgi_rados_read_sync h ctx key remains off w =
     (if 0 < remains then
        (case rados_sync h (Op_read ctx key (UMIN remains 8192) (unat off)) w of
           (rep, w1) \<Rightarrow>
             if reply_ret rep \<le> 0 then (- 1, w1)
             else
               (case resp h (Write_body (reply_data rep)) w1 of
                  (e, w2) \<Rightarrow>
                    if e \<noteq> 0 then (- 1, w2)
                    else uwsgi_rados_read_sync h ctx key (remains - nat (reply_ret rep))
                           (off + of_int (reply_ret rep)) w2))
      else (0, w))"
  by pat_completeness auto
termination
  by (relation "measure (\<lambda>(h, ctx, key, remains, off, w). remains)") auto

declare uwsgi_rados_read_sync.simps [simp del]

text \<open>\<open>uwsgi_rados_read\<close>, the async loop: it leaves by \<open>break\<close> and answers on \<open>remains\<close>.\<close>

function uwsgi_rados_read_async ::
    "host \<Rightarrow> nat \<Rightarrow> rados_ioctx \<Rightarrow> string \<Rightarrow> int \<Rightarrow> nat \<Rightarrow> u64 \<Rightarrow> world \<Rightarrow> int outcome" where
  "uwsgi_rados_read_async h aid ctx key tmo remains off w =
     (if 0 < remains then
        (case uwsgi_rados_set_completion h aid w of
           Crashed w1 \<Rightarrow> Crashed w1
         | Returned None w1 \<Rightarrow> Crashed w1
         | Returned (Some urcb) w1 \<Rightarrow>
             (case rados_aio h (Op_read ctx key (UMIN remains 8192) (unat off)) urcb w1 of
                (r, w2) \<Rightarrow>
                  (case uwsgi_rados_wait_completion h r urcb tmo w2 of
                     ((rlen, rep), w3) \<Rightarrow>
                       if rlen \<le> 0 then Returned (- 1) w3
                       else
                         (case resp h (Write_body (reply_data rep)) w3 of
                            (e, w4) \<Rightarrow>
                              if e \<noteq> 0 then Returned (- 1) w4
                              else uwsgi_rados_read_async h aid ctx key tmo (remains - nat rlen)
                                     (off + of_int rlen) w4))))
      else Returned 0 w)"
  by pat_completeness auto
termination
  by (relation "measure (\<lambda>(h, aid, ctx, key, tmo, remains, off, w). remains)") auto

declare uwsgi_rados_read_async.simps [simp del]

definition uwsgi_rados_read ::
    "host \<Rightarrow> wsgi_request \<Rightarrow> rados_ioctx \<Rightarrow> string \<Rightarrow> nat \<Rightarrow> int \<Rightarrow> world \<Rightarrow> int outcome" where
  "uwsgi_rados_read h req ctx key remains tmo w =
     (if async (uwsgi h) < 1
      then (case uwsgi_rados_read_sync h ctx key remains 0 w of (r, w1) \<Rightarrow> Returned r w1)
      else uwsgi_rados_read_async h (async_id req) ctx key tmo remains 0 w)"

section \<open>PROPFIND\<close>

text \<open>The loop of \<open>uwsgi_rados_propfind\<close> that consumes the request body.\<close>

function propfind_consume_body :: "host \<Rightarrow> nat \<Rightarrow> world \<Rightarrow> world" where
  "propfind_consume_body h remains w =
     (if 0 < remains then
        (case uwsgi_request_body_read h (UMIN remains 32768) w of
           (Body_null, w1) \<Rightarrow> w1
         | (Body_empty, w1) \<Rightarrow> w1
         | (Body_chunk body, w1) \<Rightarrow> propfind_consume_body h (remains - length body) w1)
      else w)"
  by pat_completeness auto
termination
  by (relation "measure (\<lambda>(h, remains, w). remains)")
     (auto dest!: body_chunk_nonempty [OF sym] simp: UMIN_pos)

declare propfind_consume_body.simps [simp del]

text \<open>\<open>rados_objects_list_open\<close> and the names \<open>rados_objects_list_next\<close> then yields.\<close>

definition rados_objects_list_open :: "host \<Rightarrow> rados_ioctx \<Rightarrow> world \<Rightarrow> (int \<times> string list) \<times> world" where
  "rados_objects_list_open h ctx w =
     (let w1 = emit (Rados_objects_list_open ctx) w
      in if list_open_fault h ctx < 0 then ((list_open_fault h ctx, []), w1)
         else ((0, map (\<lambda>p. snd (fst p)) (filter (\<lambda>p. fst (fst p) = ioctx_pool ctx) (objects w))),
               w1))"

text \<open>The loop over the listed objects. \<open>Some ub\<close>: the list is exhausted; \<open>None\<close>: the code
  has jumped to \<open>end\<close>.\<close>

fun propfind_entries ::
    "host \<Rightarrow> nat \<Rightarrow> rados_ioctx \<Rightarrow> int \<Rightarrow> string \<Rightarrow> string list \<Rightarrow> world \<Rightarrow> string option outcome"
where
  "propfind_entries h aid ctx tmo ub [] w = Returned (Some ub) w"
| "propfind_entries h aid ctx tmo ub (entry # es) w =
     (case stat_either h aid ctx entry tmo w of
        Crashed w1 \<Rightarrow> Crashed w1
      | Returned (ret, rep) w1 \<Rightarrow>
          if ret < 0 then Returned None w1
          else
            (case propfind_item_add h ub (''/'' @ entry) (reply_size rep) (reply_mtime rep)
                    (get_mime_type h entry) of
               None \<Rightarrow> Returned None w1
             | Some ub1 \<Rightarrow>
                 (case resp h (Write_body ub1) w1 of
                    (e, w2) \<Rightarrow>
                      if e \<noteq> 0 then Returned None w2
                      else propfind_entries h aid ctx tmo [] es w2)))"

text \<open>The multistatus buffer is its content; the WebDAV builders of the host return the
  new content, or \<open>None\<close> when they fail.\<close>

text \<open>The tail the three branches of \<open>uwsgi_rados_propfind\<close> share (lines 239 to 240,
  255 to 256, 289 to 290): close the multistatus, write it.\<close>

definition propfind_finish :: "host \<Rightarrow> string \<Rightarrow> world \<Rightarrow> world" where
  "propfind_finish h ub w =
     (case multistatus_close h ub of
        None \<Rightarrow> w
      | Some ub2 \<Rightarrow> snd (resp h (Write_body ub2) w))"

text \<open>The request for one key (lines 230 to 242).\<close>

definition propfind_key :: "host \<Rightarrow> string \<Rightarrow> nat \<Rightarrow> int \<Rightarrow> string \<Rightarrow> world \<Rightarrow> world" where
  "propfind_key h k sz mtime ub w =
     (case propfind_item_add h ub (''/'' @ k) sz mtime (get_mime_type h k) of
        None \<Rightarrow> w
      | Some ub1 \<Rightarrow> propfind_finish h ub1 w)"

text \<open>The request for \<open>/\<close> (lines 243 to 290).\<close>

definition propfind_root ::
    "host \<Rightarrow> wsgi_request \<Rightarrow> rados_ioctx \<Rightarrow> int \<Rightarrow> string \<Rightarrow> world \<Rightarrow> unit outcome" where
  "propfind_root h req ctx tmo ub w =
     (let depth = (case http_depth req of None \<Rightarrow> 0 | Some d \<Rightarrow> str_num h d) in
      if depth = 0 then
        Returned ()
          (case propfind_item_add h ub ''/'' 0 0 None of
             None \<Rightarrow> w
           | Some ub1 \<Rightarrow> propfind_finish h ub1 w)
      else
        (case rados_objects_list_open h ctx w of
           ((r, entries), w3) \<Rightarrow>
             if r < 0 then Returned () w3
             else
               (case propfind_entries h (async_id req) ctx tmo ub entries w3 of
                  Crashed w4 \<Rightarrow> Crashed w4
                | Returned None w4 \<Rightarrow> Returned () w4
                | Returned (Some ub1) w4 \<Rightarrow> Returned () (propfind_finish h ub1 w4))))"

text \<open>\<open>uwsgi_rados_propfind\<close>.\<close>

definition uwsgi_rados_propfind ::
    "host \<Rightarrow> wsgi_request \<Rightarrow> rados_ioctx \<Rightarrow> string option \<Rightarrow> nat \<Rightarrow> int \<Rightarrow> int \<Rightarrow> world
      \<Rightarrow> unit outcome" where
  "uwsgi_rados_propfind h req ctx key sz mtime tmo w =
     (let w0 = propfind_consume_body h (post_cl req) w in
      case resp h (Prepare_headers ''207 Multi-Status'') w0 of
        (e1, w1) \<Rightarrow>
          if e1 \<noteq> 0 then Returned () w1
          else
            (case resp h (Add_content_type
                            (''text/xml; charset='' @ [CHR 0x22] @ ''utf-8'' @ [CHR 0x22])) w1 of
               (e2, w2) \<Rightarrow>
                 if e2 \<noteq> 0 then Returned () w2
                 else
                   (case multistatus_new h of
                      None \<Rightarrow> Returned () w2
                    | Some ub \<Rightarrow>
                        (case key of
                           Some k \<Rightarrow> Returned () (propfind_key h k sz mtime ub w2)
                         | None \<Rightarrow> propfind_root h req ctx tmo ub w2))))"

section \<open>Mounting\<close>

text \<open>\<open>exit(1)\<close> ends the process: the left summand, with the message logged.\<close>

text \<open>The loop of \<open>uwsgi_rados_add_mountpoint\<close> that opens one I/O context per thread:
  \<open>n\<close> contexts still to open, \<open>ctxes\<close> those opened so far.\<close>

fun ioctx_create_loop ::
    "host \<Rightarrow> nat \<Rightarrow> string \<Rightarrow> nat \<Rightarrow> rados_ioctx list \<Rightarrow> world \<Rightarrow> string + (rados_ioctx list \<times> world)"
where
  "ioctx_create_loop h cl p 0 ctxes w = Inr (ctxes, w)"
| "ioctx_create_loop h cl p (Suc n) ctxes w =
     (let w1 = emit (Rados_ioctx_create cl p) w
      in if ioctx_create_fault h p (next_ioctx w) < 0 then Inl ''can't open rados pool''
         else ioctx_create_loop h cl p n (ctxes @ [Ioctx (next_ioctx w) p])
                (w1\<lparr>next_ioctx := Suc (next_ioctx w)\<rparr>))"

text \<open>\<open>uwsgi_rados_add_mountpoint\<close>, from the parsed key-value list on
  (\<open>uwsgi_kvlist_parse\<close> is the host's). \<open>cl\<close> is the handle \<open>rados_create\<close> returns.\<close>

definition uwsgi_rados_add_mountpoint ::
    "host \<Rightarrow> nat \<Rightarrow> uwsgi_rados_mountpoint \<Rightarrow> world \<Rightarrow> string + world" where
  "uwsgi_rados_add_mountpoint h cl urmp0 w =
     (case (mountpoint urmp0, pool urmp0) of
        (Some mp, Some p) \<Rightarrow>
          (let urmp1 = (case str_timeout urmp0 of
                          None \<Rightarrow> urmp0
                        | Some t \<Rightarrow> urmp0\<lparr>timeout := atoi h t\<rparr>)
           in if cluster_fault h ''rados_create'' < 0 then Inl ''can't create Ceph cluster handle''
              else
                let urmp = urmp1\<lparr>cluster := cl\<rparr>
                in if cluster_fault h ''rados_conf_read_file'' < 0
                   then Inl ''can't configure Ceph cluster handle''
                   else if cluster_fault h ''rados_connect'' < 0
                   then Inl ''can't connect with Ceph cluster''
                   else
                     (case (if 1 < threads (uwsgi h)
                            then (case ioctx_create_loop h cl p (nat (threads (uwsgi h))) [] w of
                                    Inl e \<Rightarrow> Inl e
                                  | Inr (ctxes, w1) \<Rightarrow> Inr (Ctx_array ctxes, w1))
                            else (case ioctx_create_loop h cl p 1 [] w of
                                    Inl e \<Rightarrow> Inl e
                                  | Inr (ctxes, w1) \<Rightarrow> Inr (Ctx_single (hd ctxes), w1))) of
                        Inl e \<Rightarrow> Inl e
                      | Inr (ctx_ptr, w1) \<Rightarrow>
                          if add_app_fails h mp then Inl ''[rados] unable to mount''
                          else Inr (w1\<lparr>uwsgi_apps := uwsgi_apps w1 @
                                        [\<lparr>app_modifier1 = 28, app_mountpoint = mp,
                                          responder0 = ctx_ptr, responder1 = urmp\<rparr>]\<rparr>)))
      | _ \<Rightarrow> Inl ''[rados] mount requires a mountpoint, and a pool name.'')"

text \<open>The slots \<open>uwsgi_rados_setup\<close> allocates when async is on: \<open>uwsgi_calloc\<close> zeroes the
  memory, then both descriptors are set to \<open>-1\<close>.\<close>

definition setup_urio :: "uwsgi_server \<Rightarrow> uwsgi_rados_io list" where
  "setup_urio u =
     (if 0 < async u
      then replicate (nat (async u)) \<lparr>fds = (- 1, - 1), rid = 0, completion = None\<rparr>
      else [])"

section \<open>The request handler\<close>

text \<open>
  Modelled from the spec: \<open>uwsgi_strncmp\<close> is the host's comparison of two counted
  strings, 0 exactly when they are equal (method dispatch is a case-sensitive exact match).
\<close>

definition uwsgi_strncmp :: "string \<Rightarrow> string \<Rightarrow> int" where
  "uwsgi_strncmp src dst = (if src = dst then 0 else 1)"

definition rados_modifier1 :: nat where
  "rados_modifier1 = 28"

definition uwsgi_403 :: "world \<Rightarrow> world" where
  "uwsgi_403 w = emit (Resp Uwsgi_403) w"

definition uwsgi_404 :: "world \<Rightarrow> world" where
  "uwsgi_404 w = emit (Resp Uwsgi_404) w"

definition uwsgi_405 :: "world \<Rightarrow> world" where
  "uwsgi_405 w = emit (Resp Uwsgi_405) w"

definition uwsgi_500 :: "world \<Rightarrow> world" where
  "uwsgi_500 w = emit (Resp Uwsgi_500) w"

text \<open>How the code leaves the method ladder: \<open>goto end\<close>, a \<open>return\<close> of its own, or a crash.\<close>

datatype leave = Goto_end world | Return_now int world | Crash_at world

text \<open>\<open>wsgi_req->app_id\<close> (lines 444 to 449). \<open>None\<close>: \<open>uwsgi_apps[uwsgi.default_app]\<close> is
  outside the table.\<close>

definition request_app_id :: "host \<Rightarrow> wsgi_request \<Rightarrow> world \<Rightarrow> int option" where
  "request_app_id h req w =
     (let a = get_app_id h req in
      if a = - 1 \<and> \<not> no_default_app (uwsgi h) \<and> - 1 < default_app (uwsgi h) then
        (if nat (default_app (uwsgi h)) < length (uwsgi_apps w)
         then Some (if app_modifier1 (uwsgi_apps w ! nat (default_app (uwsgi h))) = rados_modifier1
                    then default_app (uwsgi h) else a)
         else None)
      else Some a)"

text \<open>What a \<open>char *\<close> to these bytes and their terminator denotes: the bytes before the
  first NUL.\<close>

definition c_string :: "string \<Rightarrow> string" where
  "c_string s = takeWhile (\<lambda>c. c \<noteq> CHR 0x00) s"

text \<open>\<open>filename\<close> (lines 457 to 466): the bytes of the path are copied and terminated, and
  every later use takes the buffer as a C string.\<close>

definition request_filename :: "wsgi_request \<Rightarrow> uwsgi_app \<Rightarrow> string" where
  "request_filename req ua =
     c_string
       (if length (app_mountpoint ua) < length (path_info req) \<and>
           take (length (app_mountpoint ua)) (path_info req) = app_mountpoint ua
        then drop (length (app_mountpoint ua)) (path_info req)
        else path_info req)"

text \<open>\<open>ctx\<close> (lines 468 to 475). \<open>None\<close>: the array is read out of bounds, or
  \<open>responder0\<close> is not what the cast takes it for.\<close>

definition request_ctx :: "uwsgi_server \<Rightarrow> uwsgi_app \<Rightarrow> nat \<Rightarrow> rados_ioctx option" where
  "request_ctx u ua aid =
     (if 1 < threads u then
        (case responder0 ua of
           Ctx_array ctxes \<Rightarrow> if aid < length ctxes then Some (ctxes ! aid) else None
         | Ctx_single c \<Rightarrow> None)
      else
        (case responder0 ua of
           Ctx_single c \<Rightarrow> Some c
         | Ctx_array ctxes \<Rightarrow> None))"

text \<open>The pipe of the slot (lines 482 to 489). \<open>Returned True\<close>: go on; \<open>Returned False\<close>:
  \<open>pipe()\<close> failed.\<close>

definition request_pipe :: "host \<Rightarrow> wsgi_request \<Rightarrow> world \<Rightarrow> bool outcome" where
  "request_pipe h req w =
     (if 0 < async (uwsgi h) then
        (if length (urio w) \<le> async_id req then Crashed w
         else
           (case sys_pipe h w of
              (None, w1) \<Rightarrow> Returned False (emit (Log ''uwsgi_rados_read_async()/pipe()'') w1)
            | (Some p, w1) \<Rightarrow> Returned True (slot_update (async_id req) (\<lambda>u. u\<lparr>fds := p\<rparr>) w1)))
      else Returned True w)"

text \<open>The buffer of the \<open>Allow\<close> header: one \<open>uwsgi_buffer_append\<close>, made when \<open>c\<close> holds.
  \<open>None\<close>: an append has failed.\<close>

fun allow_append :: "host \<Rightarrow> bool \<Rightarrow> string \<Rightarrow> string option \<Rightarrow> string option" where
  "allow_append h c s None = None"
| "allow_append h c s (Some ub) =
     (if c then (if buffer_append h ub s \<noteq> 0 then None else Some (ub @ s)) else Some ub)"

definition allow_buffer :: "host \<Rightarrow> uwsgi_rados_mountpoint \<Rightarrow> string option" where
  "allow_buffer h urmp =
     allow_append h (allow_propfind urmp \<noteq> None) '', PROPFIND''
       (allow_append h (allow_mkcol urmp \<noteq> None) '', MKCOL''
          (allow_append h (allow_delete urmp \<noteq> None) '', DELETE''
             (allow_append h (allow_put urmp \<noteq> None) '', PUT''
                (allow_append h True ''OPTIONS, GET, HEAD'' (Some [])))))"

text \<open>OPTIONS (lines 494 to 530).\<close>

definition request_options :: "host \<Rightarrow> uwsgi_rados_mountpoint \<Rightarrow> world \<Rightarrow> world" where
  "request_options h urmp w =
     (case resp h (Prepare_headers ''200 OK'') w of
        (e1, w1) \<Rightarrow>
          if e1 \<noteq> 0 then w1
          else
            (case resp h (Add_header ''Dav'' ''1'') w1 of
               (e2, w2) \<Rightarrow>
                 if e2 \<noteq> 0 then w2
                 else
                   (case allow_buffer h urmp of
                      None \<Rightarrow> w2
                    | Some ub \<Rightarrow> snd (resp h (Add_header ''Allow'' ub) w2))))"

text \<open>\<open>rados_pool_create\<close>.\<close>

definition rados_pool_create :: "host \<Rightarrow> nat \<Rightarrow> string \<Rightarrow> world \<Rightarrow> int \<times> world" where
  "rados_pool_create h cl name w =
     (let w1 = emit (Rados_pool_create cl name) w
      in if pool_create_fault h name < 0 then (pool_create_fault h name, w1)
         else if name \<in> set (pools w) then (- EEXIST, w1)
         else (0, w1\<lparr>pools := name # pools w\<rparr>))"

text \<open>HEAD and GET (lines 632 to 646). \<open>(uint64_t) stat_mtime\<close> is the conversion of the
  signed \<open>time_t\<close> to 64 bits.\<close>

definition request_get ::
    "host \<Rightarrow> wsgi_request \<Rightarrow> rados_ioctx \<Rightarrow> string \<Rightarrow> int \<Rightarrow> rados_reply \<Rightarrow> world \<Rightarrow> leave" where
  "request_get h req ctx filename tmo st w =
     (case resp h (Prepare_headers ''200 OK'') w of
        (e1, w1) \<Rightarrow>
          if e1 \<noteq> 0 then Goto_end w1
          else
            (case (case get_mime_type h (path_info req) of
                     None \<Rightarrow> (0, w1)
                   | Some m \<Rightarrow> resp h (Add_content_type m) w1) of
               (e2, w2) \<Rightarrow>
                 if e2 \<noteq> 0 then Goto_end w2
                 else
                   (case resp h (Add_last_modified (word_of_int (reply_mtime st))) w2 of
                      (e3, w3) \<Rightarrow>
                        if e3 \<noteq> 0 then Goto_end w3
                        else
                          (case resp h (Add_content_length (reply_size st)) w3 of
                             (e4, w4) \<Rightarrow>
                               if e4 \<noteq> 0 then Goto_end w4
                               else if uwsgi_strncmp (req_method req) ''HEAD'' \<noteq> 0 then
                                 (case uwsgi_rados_read h req ctx filename (reply_size st) tmo w4 of
                                    Crashed w5 \<Rightarrow> Crash_at w5
                                  | Returned r w5 \<Rightarrow> Goto_end w5)
                               else Goto_end w4))))"

text \<open>The body of a PUT once the old object is out of the way (lines 579 to 584).\<close>

definition request_put ::
    "host \<Rightarrow> wsgi_request \<Rightarrow> rados_ioctx \<Rightarrow> string \<Rightarrow> int \<Rightarrow> world \<Rightarrow> leave" where
  "request_put h req ctx filename tmo w =
     (case uwsgi_rados_put h req ctx filename tmo w of
        Crashed w1 \<Rightarrow> Crash_at w1
      | Returned p w1 \<Rightarrow>
          if p \<noteq> 0 then Goto_end (uwsgi_500 w1)
          else Goto_end (snd (resp h (Prepare_headers ''201 Created'') w1)))"

text \<open>From the result of the stat on (lines 567 to 646): \<open>ret\<close> is its return value,
  \<open>st\<close> holds \<open>stat_size\<close> and \<open>stat_mtime\<close>.\<close>

definition request_after_stat ::
    "host \<Rightarrow> wsgi_request \<Rightarrow> uwsgi_rados_mountpoint \<Rightarrow> rados_ioctx \<Rightarrow> string \<Rightarrow> int \<Rightarrow> int
      \<Rightarrow> rados_reply \<Rightarrow> world \<Rightarrow> leave" where
  "request_after_stat h req urmp ctx filename tmo ret st w =
     (if uwsgi_strncmp (req_method req) ''PUT'' = 0 then
        (if allow_put urmp = None then Goto_end (uwsgi_405 w)
         else if ret = 0 then
           (case uwsgi_rados_delete h req ctx filename tmo w of
              Crashed w1 \<Rightarrow> Crash_at w1
            | Returned d w1 \<Rightarrow>
                if d \<noteq> 0 then Goto_end (uwsgi_500 w1)
                else request_put h req ctx filename tmo w1)
         else request_put h req ctx filename tmo w)
      else if ret < 0 then
        (if ret = - ENOENT then Goto_end (uwsgi_404 w) else Goto_end (uwsgi_403 w))
      else if uwsgi_strncmp (req_method req) ''DELETE'' = 0 then
        (if allow_delete urmp = None then Goto_end (uwsgi_405 w)
         else
           (case uwsgi_rados_delete h req ctx filename tmo w of
              Crashed w1 \<Rightarrow> Crash_at w1
            | Returned d w1 \<Rightarrow>
                if d \<noteq> 0 then Goto_end (uwsgi_403 w1)
                else Goto_end (snd (resp h (Prepare_headers ''200 OK'') w1))))
      else if if_modified_since req \<noteq> [] \<and>
              reply_mtime st \<le> parse_http_date h (if_modified_since req) then
        (case resp h (Prepare_headers ''304 Not Modified'') w of
           (e, w1) \<Rightarrow>
             if e \<noteq> 0 then Return_now (- 1) w1
             else (case resp h Write_headers w1 of (r, w2) \<Rightarrow> Return_now r w2))
      else if uwsgi_strncmp (req_method req) ''PROPFIND'' = 0 then
        (if allow_propfind urmp = None then Goto_end (uwsgi_405 w)
         else
           (case uwsgi_rados_propfind h req ctx (Some filename) (reply_size st) (reply_mtime st)
                   tmo w of
              Crashed w1 \<Rightarrow> Crash_at w1
            | Returned u w1 \<Rightarrow> Goto_end w1))
      else if uwsgi_strncmp (req_method req) ''HEAD'' \<noteq> 0 \<and> uwsgi_strncmp (req_method req) ''GET'' \<noteq> 0
      then Goto_end (uwsgi_405 w)
      else request_get h req ctx filename tmo st w)"

text \<open>The method ladder (lines 494 to 646).\<close>

definition request_dispatch ::
    "host \<Rightarrow> wsgi_request \<Rightarrow> uwsgi_rados_mountpoint \<Rightarrow> rados_ioctx \<Rightarrow> string \<Rightarrow> int \<Rightarrow> world
      \<Rightarrow> leave" where
  "request_dispatch h req urmp ctx filename tmo w =
     (if uwsgi_strncmp (req_method req) ''OPTIONS'' = 0 then Goto_end (request_options h urmp w)
      else if path_info req = ''/'' then
        (if allow_propfind urmp \<noteq> None \<and> uwsgi_strncmp (req_method req) ''PROPFIND'' = 0 then
           (case uwsgi_rados_propfind h req ctx None 0 0 tmo w of
              Crashed w1 \<Rightarrow> Crash_at w1
            | Returned u w1 \<Rightarrow> Goto_end w1)
         else Goto_end (uwsgi_405 w))
      else if uwsgi_strncmp (req_method req) ''MKCOL'' = 0 then
        (if allow_mkcol urmp = None then Goto_end (uwsgi_405 w)
         else
           (case rados_pool_create h (cluster urmp) filename w of
              (ret, w1) \<Rightarrow>
                if ret < 0 then
                  (if ret = - EEXIST then Goto_end (uwsgi_405 w1) else Goto_end (uwsgi_500 w1))
                else Goto_end (snd (resp h (Prepare_headers ''201 Created'') w1))))
      else
        (case stat_either h (async_id req) ctx filename tmo w of
           Crashed w1 \<Rightarrow> Crash_at w1
         | Returned (ret, st) w1 \<Rightarrow> request_after_stat h req urmp ctx filename tmo ret st w1))"

text \<open>The label \<open>end\<close> (lines 648 to 653).\<close>

definition request_end :: "host \<Rightarrow> wsgi_request \<Rightarrow> world \<Rightarrow> world" where
  "request_end h req w =
     (if 0 < async (uwsgi h)
      then sys_close (snd (fds (urio w ! async_id req)))
             (sys_close (fst (fds (urio w ! async_id req))) w)
      else w)"

text \<open>\<open>timeout\<close> (line 492).\<close>

definition request_timeout :: "host \<Rightarrow> uwsgi_rados_mountpoint \<Rightarrow> int" where
  "request_timeout h urmp = (if timeout urmp \<noteq> 0 then timeout urmp else urados_timeout h)"

text \<open>\<open>uwsgi_rados_request\<close>. An \<open>app_id\<close> outside \<open>uwsgi_apps\<close>, a context array read out of
  bounds and a slot outside \<open>urados.urio\<close> are reads through a wild pointer: \<open>Crashed\<close>.\<close>

definition uwsgi_rados_request :: "host \<Rightarrow> wsgi_request \<Rightarrow> world \<Rightarrow> int outcome" where
  "uwsgi_rados_request h req w =
     (if len req = 0 then Returned (- 1) (emit (Log ''Empty request. skip.'') w)
      else if parse_vars h req \<noteq> 0 then Returned (- 1) w
      else if length (path_info req) = 0 \<or> PATH_MAX < length (path_info req)
      then Returned UWSGI_OK (uwsgi_403 w)
      else
        (case request_app_id h req w of
           None \<Rightarrow> Crashed w
         | Some app_id \<Rightarrow>
             if app_id = - 1 then Returned UWSGI_OK (uwsgi_404 w)
             else if app_id < 0 \<or> length (uwsgi_apps w) \<le> nat app_id then Crashed w
             else
               (let ua = uwsgi_apps w ! nat app_id;
                    filename = request_filename req ua
                in case request_ctx (uwsgi h) ua (async_id req) of
                     None \<Rightarrow> Crashed w
                   | Some ctx \<Rightarrow>
                       (let urmp = responder1 ua
                        in case request_pipe h req w of
                             Crashed w1 \<Rightarrow> Crashed w1
                           | Returned False w1 \<Rightarrow> Returned UWSGI_OK (uwsgi_500 w1)
                           | Returned True w1 \<Rightarrow>
                               (let tmo = request_timeout h urmp
                                in case request_dispatch h req urmp ctx filename tmo w1 of
                                     Crash_at w2 \<Rightarrow> Crashed w2
                                   | Return_now r w2 \<Rightarrow> Returned r w2
                                   | Goto_end w2 \<Rightarrow> Returned UWSGI_OK (request_end h req w2))))))"

section \<open>Vocabulary of the properties\<close>

text \<open>The request is routed: it passes the checks of lines 429 to 442, resolves to the
  application \<open>a\<close> of the table and to the I/O context \<open>ctx\<close>, and the pipe of its slot is
  in place in the world \<open>wp\<close> (lines 444 to 489).\<close>

definition routed :: "host \<Rightarrow> wsgi_request \<Rightarrow> world \<Rightarrow> nat \<Rightarrow> rados_ioctx \<Rightarrow> world \<Rightarrow> bool" where
  "routed h req w a ctx wp \<longleftrightarrow>
     len req \<noteq> 0 \<and> parse_vars h req = 0 \<and> path_info req \<noteq> [] \<and>
     length (path_info req) \<le> PATH_MAX \<and>
     request_app_id h req w = Some (int a) \<and> a < length (uwsgi_apps w) \<and>
     request_ctx (uwsgi h) (uwsgi_apps w ! a) (async_id req) = Some ctx \<and>
     request_pipe h req w = Returned True wp"

text \<open>The calls that reach the object store.\<close>

fun is_store_op :: "event \<Rightarrow> bool" where
  "is_store_op (Rados_sync op) = True"
| "is_store_op (Rados_aio op urcb) = True"
| "is_store_op (Rados_pool_create cl name) = True"
| "is_store_op (Rados_objects_list_open ctx) = True"
| "is_store_op e = False"

definition store_ops :: "event list \<Rightarrow> event list" where
  "store_ops evs = filter is_store_op evs"

fun is_resp :: "event \<Rightarrow> bool" where
  "is_resp (Resp c) = True"
| "is_resp e = False"

text \<open>The calls to the response writer, in order.\<close>

definition answers :: "event list \<Rightarrow> response_call list" where
  "answers evs = concat (map (\<lambda>e. case e of Resp c \<Rightarrow> [c] | _ \<Rightarrow> []) evs)"

text \<open>The \<open>Allow\<close> header in the words of the specification: \<open>OPTIONS, GET, HEAD\<close> extended by
  those of PUT, DELETE, MKCOL, PROPFIND that the mount permits, in that order.\<close>

definition allow_header :: "uwsgi_rados_mountpoint \<Rightarrow> string" where
  "allow_header urmp =
     ''OPTIONS, GET, HEAD'' @
     (if allow_put urmp \<noteq> None then '', PUT'' else []) @
     (if allow_delete urmp \<noteq> None then '', DELETE'' else []) @
     (if allow_mkcol urmp \<noteq> None then '', MKCOL'' else []) @
     (if allow_propfind urmp \<noteq> None then '', PROPFIND'' else [])"

section \<open>Concrete hosts, mounts and requests\<close>

definition host_sync :: host where
  "host_sync =
     \<lparr>uwsgi = \<lparr>async = 0, threads = 1, no_default_app = False, default_app = 0,
               socket_timeout = 30\<rparr>,
      urados_timeout = 30, parse_vars = (\<lambda>r. 0), get_app_id = (\<lambda>r. 0),
      new_pipe = (\<lambda>fds. Some (3, 4)), response = (\<lambda>c. 0), buffer_append = (\<lambda>a b. 0),
      get_mime_type = (\<lambda>s. None), parse_http_date = (\<lambda>s. 100), str_num = (\<lambda>s. 0),
      body_read_fails = (\<lambda>s. False), multistatus_new = Some ''<multistatus>'',
      propfind_item_add = (\<lambda>ub href sz mt mime. Some (ub @ href)),
      multistatus_close = (\<lambda>ub. Some (ub @ ''</multistatus>'')), rados_fault = (\<lambda>c. 0),
      pool_create_fault = (\<lambda>s. 0), list_open_fault = (\<lambda>c. 0),
      ioctx_create_fault = (\<lambda>s n. 0), cluster_fault = (\<lambda>s. 0), add_app_fails = (\<lambda>s. False),
      atoi = (\<lambda>s. 0), create_completion_ret = (\<lambda>c. 0), aio_submit_ret = (\<lambda>c. 0),
      aio_in_time = (\<lambda>c. True)\<rparr>"

definition host_async :: host where
  "host_async = host_sync\<lparr>uwsgi := (uwsgi host_sync)\<lparr>async := 1\<rparr>\<rparr>"

definition host_threads :: host where
  "host_threads = host_sync\<lparr>uwsgi := (uwsgi host_sync)\<lparr>threads := 3\<rparr>\<rparr>"

definition mount_rw :: uwsgi_rados_mountpoint where
  "mount_rw =
     \<lparr>cluster = 0, mountpoint = Some ''/r'', config = None, pool = Some ''p1'',
      str_timeout = None, timeout = 0, allow_put = Some ''1'', allow_delete = Some ''1'',
      allow_mkcol = None, allow_propfind = None\<rparr>"

definition mount_ro :: uwsgi_rados_mountpoint where
  "mount_ro = mount_rw\<lparr>allow_put := None, allow_delete := None\<rparr>"

definition world_init :: "host \<Rightarrow> world" where
  "world_init h =
     \<lparr>urio = setup_urio (uwsgi h), heap = [], in_flight = [], objects = [], pools = [''p1''],
      open_fds = [], kpipes = [], req_body = [], now = 50, uwsgi_apps = [], next_ioctx = 0,
      trace = []\<rparr>"

definition mounted :: "host \<Rightarrow> uwsgi_rados_mountpoint \<Rightarrow> world" where
  "mounted h urmp =
     (case uwsgi_rados_add_mountpoint h 0 urmp (world_init h) of
        Inr w \<Rightarrow> w\<lparr>trace := []\<rparr>
      | Inl e \<Rightarrow> world_init h)"

definition http_request :: "string \<Rightarrow> string \<Rightarrow> nat \<Rightarrow> wsgi_request" where
  "http_request m p cl =
     \<lparr>len = 1, req_method = m, path_info = p, appid = [], post_cl = cl, if_modified_since = [],
      async_id = 0, http_depth = None\<rparr>"

definition ctx1 :: rados_ioctx where "ctx1 = Ioctx 0 ''p1''"

text \<open>An async host on which \<open>rados_aio_create_completion\<close> fails with \<open>-ENOMEM\<close>.\<close>

definition host_nomem :: host where
  "host_nomem = host_async\<lparr>create_completion_ret := (\<lambda>c. - 12)\<rparr>"

text \<open>A slot whose \<open>rid\<close> has moved on to 5 while the record of request 3 is still pending.\<close>

definition world_late :: world where
  "world_late =
     \<lparr>urio = [\<lparr>fds = (3, 4), rid = 5, completion = None\<rparr>],
      heap = [\<lparr>cb_rid = 3, cb_urio = 0\<rparr>], in_flight = [], objects = [], pools = [],
      open_fds = [3, 4], kpipes = [(3, 4, 0)], req_body = [], now = 0, uwsgi_apps = [],
      next_ioctx = 0, trace = []\<rparr>"

text \<open>A host whose object store fails every operation with \<open>-EIO\<close>.\<close>

definition host_eio :: host where
  "host_eio = host_sync\<lparr>rados_fault := (\<lambda>op. - 5)\<rparr>"

text \<open>An async host whose object store completes no operation before the wait times out.\<close>

definition host_slow :: host where
  "host_slow = host_async\<lparr>aio_in_time := (\<lambda>c. False)\<rparr>"

text \<open>A request body of 32 KiB and one byte.\<close>

definition big_body :: string where
  "big_body = replicate 32768 CHR ''a'' @ ''b''"

section \<open>Relations between worlds\<close>

text \<open>What a function leaves alone: the objects, the pools, the store calls and the answers.\<close>

definition same_store :: "world \<Rightarrow> world \<Rightarrow> bool" where
  "same_store w w' \<longleftrightarrow>
     objects w' = objects w \<and> pools w' = pools w \<and>
     store_ops (trace w') = store_ops (trace w) \<and> answers (trace w') = answers (trace w)"

text \<open>The event is a stat of \<open>key\<close> on \<open>ctx\<close>, synchronous or AIO.\<close>

fun is_stat_of :: "rados_ioctx \<Rightarrow> string \<Rightarrow> event \<Rightarrow> bool" where
  "is_stat_of ctx key (Rados_sync (Op_stat c k)) \<longleftrightarrow> c = ctx \<and> k = key"
| "is_stat_of ctx key (Rados_aio (Op_stat c k) urcb) \<longleftrightarrow> c = ctx \<and> k = key"
| "is_stat_of ctx key e \<longleftrightarrow> False"

text \<open>The method is one of PUT, DELETE, MKCOL, PROPFIND and the mount does not permit it.\<close>

definition method_refused :: "uwsgi_rados_mountpoint \<Rightarrow> string \<Rightarrow> bool" where
  "method_refused urmp m \<longleftrightarrow>
     m = ''PUT'' \<and> allow_put urmp = None \<or> m = ''DELETE'' \<and> allow_delete urmp = None \<or>
     m = ''MKCOL'' \<and> allow_mkcol urmp = None \<or> m = ''PROPFIND'' \<and> allow_propfind urmp = None"

text \<open>The world a call leaves behind, returned or crashed.\<close>

fun world_of :: "'a outcome \<Rightarrow> world" where
  "world_of (Returned r w) = w"
| "world_of (Crashed w) = w"

text \<open>An arming of slot \<open>i\<close>: \<open>uwsgi_rados_set_completion\<close> alone allocates a pending record.\<close>

fun arms :: "nat \<Rightarrow> event \<Rightarrow> bool" where
  "arms i (Malloc_cb urcb) \<longleftrightarrow> cb_urio urcb = i"
| "arms i e \<longleftrightarrow> False"

text \<open>The number of armings of slot \<open>i\<close> among the events.\<close>

definition armed :: "nat \<Rightarrow> event list \<Rightarrow> nat" where
  "armed i evs = length (filter (arms i) evs)"

text \<open>From \<open>w\<close> to \<open>w'\<close> the trace has only grown, the slots are the same in number, and the
  \<open>rid\<close> of each has advanced by the number of its armings in between, in 64-bit arithmetic.\<close>

definition advances :: "world \<Rightarrow> world \<Rightarrow> bool" where
  "advances w w' \<longleftrightarrow>
     (\<exists>evs. trace w' = trace w @ evs \<and> length (urio w') = length (urio w) \<and>
        (\<forall>i < length (urio w). rid (urio w' ! i) = rid (urio w ! i) + of_nat (armed i evs)))"

text \<open>The value a call returns, if it returns.\<close>

fun returned :: "'a outcome \<Rightarrow> 'a option" where
  "returned (Returned r w) = Some r"
| "returned (Crashed w) = None"

text \<open>The world in which the method ladder is left.\<close>

fun leave_world :: "leave \<Rightarrow> world" where
  "leave_world (Goto_end w) = w"
| "leave_world (Return_now r w) = w"
| "leave_world (Crash_at w) = w"

text \<open>What happens to the slots over the life of the process: requests are served, the
  primitives are issued, a slot is armed, the store calls back or completes an operation
  late, in any order.\<close>

datatype process_step =
    Serve wsgi_request
  | Prim_delete wsgi_request rados_ioctx string int
  | Prim_put wsgi_request rados_ioctx string int
  | Prim_stat nat rados_ioctx string int
  | Prim_read wsgi_request rados_ioctx string nat int
  | Arm nat
  | Callback uwsgi_rados_cb
  | Complete_late "uwsgi_rados_cb \<times> rados_op"

fun do_step :: "host \<Rightarrow> process_step \<Rightarrow> world \<Rightarrow> world" where
  "do_step h (Serve req) w = world_of (uwsgi_rados_request h req w)"
| "do_step h (Prim_delete req ctx key tmo) w = world_of (uwsgi_rados_delete h req ctx key tmo w)"
| "do_step h (Prim_put req ctx key tmo) w = world_of (uwsgi_rados_put h req ctx key tmo w)"
| "do_step h (Prim_stat aid ctx key tmo) w = world_of (uwsgi_rados_async_stat h aid ctx key tmo w)"
| "do_step h (Prim_read req ctx key remains tmo) w =
     world_of (uwsgi_rados_read h req ctx key remains tmo w)"
| "do_step h (Arm aid) w = world_of (uwsgi_rados_set_completion h aid w)"
| "do_step h (Callback urcb) w = uwsgi_rados_async_cb urcb w"
| "do_step h (Complete_late p) w = rados_aio_deliver h p w"

fun run_steps :: "host \<Rightarrow> process_step list \<Rightarrow> world \<Rightarrow> world" where
  "run_steps h [] w = w"
| "run_steps h (s # ss) w = run_steps h ss (do_step h s w)"

text \<open>The pipe of the slot is in place: both descriptors open, nothing buffered.\<close>

definition pipe_ready :: "nat \<Rightarrow> world \<Rightarrow> bool" where
  "pipe_ready aid w \<longleftrightarrow>
     aid < length (urio w) \<and>
     fst (fds (urio w ! aid)) \<in> set (open_fds w) \<and>
     snd (fds (urio w ! aid)) \<in> set (open_fds w) \<and>
     (fst (fds (urio w ! aid)), snd (fds (urio w ! aid)), 0) \<in> set (kpipes w)"

text \<open>The store accepts every completion and every submission, and completes in time.\<close>

definition bridge_delivers :: "host \<Rightarrow> bool" where
  "bridge_delivers h \<longleftrightarrow>
     (\<forall>urcb. 0 \<le> create_completion_ret h urcb \<and> 0 \<le> aio_submit_ret h urcb \<and> aio_in_time h urcb)"

text \<open>The reply of an operation on the store, faults included.\<close>

definition exec_reply :: "host \<Rightarrow> rados_op \<Rightarrow> world \<Rightarrow> rados_reply" where
  "exec_reply h op w = (if rados_fault h op < 0 then reply (rados_fault h op) else fst (rados_exec op w))"

text \<open>No operation of the store fails by fault, and with async on the bridge delivers.\<close>

definition store_works :: "host \<Rightarrow> bool" where
  "store_works h \<longleftrightarrow>
     (\<forall>op. 0 \<le> rados_fault h op) \<and> (0 < async (uwsgi h) \<longrightarrow> bridge_delivers h)"

text \<open>With async on, the pipe of the slot is in place.\<close>

definition slot_ready :: "host \<Rightarrow> nat \<Rightarrow> world \<Rightarrow> bool" where
  "slot_ready h aid w \<longleftrightarrow> (0 < async (uwsgi h) \<longrightarrow> pipe_ready aid w)"

text \<open>The event is a removal of \<open>key\<close> on \<open>ctx\<close>, synchronous or AIO.\<close>

fun is_remove_of :: "rados_ioctx \<Rightarrow> string \<Rightarrow> event \<Rightarrow> bool" where
  "is_remove_of ctx key (Rados_sync (Op_remove c k)) \<longleftrightarrow> c = ctx \<and> k = key"
| "is_remove_of ctx key (Rados_aio (Op_remove c k) urcb) \<longleftrightarrow> c = ctx \<and> k = key"
| "is_remove_of ctx key e \<longleftrightarrow> False"

text \<open>The I/O context an operation is issued on.\<close>

fun op_ctx :: "rados_op \<Rightarrow> rados_ioctx" where
  "op_ctx (Op_stat c k) = c"
| "op_ctx (Op_remove c k) = c"
| "op_ctx (Op_write_full c k buf) = c"
| "op_ctx (Op_read c k n off) = c"

text \<open>The I/O context a call to the store takes, if it takes one.\<close>

fun event_ctx :: "event \<Rightarrow> rados_ioctx option" where
  "event_ctx (Rados_sync op) = Some (op_ctx op)"
| "event_ctx (Rados_aio op urcb) = Some (op_ctx op)"
| "event_ctx (Rados_objects_list_open c) = Some c"
| "event_ctx e = None"

text \<open>The events from \<open>w\<close> to \<open>w'\<close>.\<close>

definition new_events :: "world \<Rightarrow> world \<Rightarrow> event list" where
  "new_events w w' = drop (length (trace w)) (trace w')"

text \<open>From \<open>w\<close> to \<open>w'\<close> the trace has only grown, and every call in between that takes an
  I/O context takes \<open>ctx\<close>.\<close>

definition uses_only :: "rados_ioctx \<Rightarrow> world \<Rightarrow> world \<Rightarrow> bool" where
  "uses_only ctx w w' \<longleftrightarrow>
     (\<exists>evs. trace w' = trace w @ evs \<and>
        (\<forall>e \<in> set evs. event_ctx e = None \<or> event_ctx e = Some ctx))"

section \<open>Frame lemmas\<close>

lemma emit_simps [simp]:
  "trace (emit e w) = trace w @ [e]"
  "urio (emit e w) = urio w"
  "heap (emit e w) = heap w"
  "in_flight (emit e w) = in_flight w"
  "objects (emit e w) = objects w"
  "pools (emit e w) = pools w"
  "open_fds (emit e w) = open_fds w"
  "kpipes (emit e w) = kpipes w"
  "req_body (emit e w) = req_body w"
  "now (emit e w) = now w"
  "uwsgi_apps (emit e w) = uwsgi_apps w"
  "next_ioctx (emit e w) = next_ioctx w"
  by (simp_all add: emit_def)

lemma store_ops_append [simp]: "store_ops (xs @ ys) = store_ops xs @ store_ops ys"
  by (simp add: store_ops_def)

lemma store_ops_Nil [simp]: "store_ops [] = []"
  by (simp add: store_ops_def)

lemma store_ops_Cons [simp]: "store_ops (e # es) = (if is_store_op e then e # store_ops es else store_ops es)"
  by (simp add: store_ops_def)

lemma answers_append [simp]: "answers (xs @ ys) = answers xs @ answers ys"
  by (simp add: answers_def)

lemma answers_Nil [simp]: "answers [] = []"
  by (simp add: answers_def)

lemma answers_Cons [simp]:
  "answers (e # es) = (case e of Resp c \<Rightarrow> [c] | _ \<Rightarrow> []) @ answers es"
  by (simp add: answers_def)

lemma request_pipe_frame:
  assumes "request_pipe h req w = Returned b wp"
  shows "same_store w wp"
  using assms
  by (auto simp: request_pipe_def sys_pipe_def slot_update_def same_store_def
           split: if_splits option.splits prod.splits)

lemma request_end_frame: "same_store w (request_end h req w)"
  by (simp add: request_end_def sys_close_def same_store_def)

lemma async_cb_frame:
  "objects (uwsgi_rados_async_cb urcb w) = objects w \<and> pools (uwsgi_rados_async_cb urcb w) = pools w \<and>
   store_ops (trace (uwsgi_rados_async_cb urcb w)) = store_ops (trace w) \<and>
   answers (trace (uwsgi_rados_async_cb urcb w)) = answers (trace w)"
  by (simp add: uwsgi_rados_async_cb_def Let_def sys_write_def free_cb_def split: prod.splits)

lemma wait_completion_frame:
  assumes "uwsgi_rados_wait_completion h ret urcb tmo w = (res, w')"
  shows "same_store (if ret < 0 then w else rados_aio_progress h urcb w) w'"
  using assms
  by (auto simp: uwsgi_rados_wait_completion_def Let_def wait_read_hook_def sys_read_def
        rados_aio_release_def free_cb_def slot_update_def same_store_def
        split: if_splits prod.splits option.splits)

lemma stat_progress_frame:
  "same_store w (rados_aio_progress h urcb (w\<lparr>in_flight := (urcb, Op_stat ctx key) # fl\<rparr>))"
  by (simp add: rados_aio_progress_def rados_aio_deliver_def rados_aio_complete_def
        async_cb_frame slot_update_def same_store_def split: option.split)

lemma stat_either_frame:
  assumes "stat_either h aid ctx key tmo w = Returned res w1"
  shows "objects w1 = objects w \<and> pools w1 = pools w \<and> answers (trace w1) = answers (trace w) \<and>
         (\<exists>e. store_ops (trace w1) = store_ops (trace w) @ [e] \<and> is_stat_of ctx key e)"
proof (cases "0 < async (uwsgi h)")
  case False
  with assms show ?thesis
    by (auto simp: stat_either_def rados_sync_def Let_def reply_def split: if_splits option.splits)
next
  case True
  with assms obtain urcb wa r wb where
    a: "uwsgi_rados_set_completion h aid w = Returned (Some urcb) wa"
    and b: "rados_aio h (Op_stat ctx key) urcb wa = (r, wb)"
    and c: "uwsgi_rados_wait_completion h r urcb tmo wb = (res, w1)"
    by (auto simp: stat_either_def uwsgi_rados_async_stat_def split: outcome.splits option.splits prod.splits)
  from a have fa: "same_store w wa"
    by (auto simp: uwsgi_rados_set_completion_def Let_def slot_update_def free_cb_def same_store_def
          split: if_splits)
  define wm where "wm = (if r < 0 then wb else rados_aio_progress h urcb wb)"
  from b have fb: "objects wm = objects wa \<and> pools wm = pools wa \<and> answers (trace wm) = answers (trace wa) \<and>
      store_ops (trace wm) = store_ops (trace wa) @ [Rados_aio (Op_stat ctx key) urcb]"
    using stat_progress_frame [of "emit (Rados_aio (Op_stat ctx key) urcb) wa" h urcb ctx key
        "in_flight wa"]
    by (auto simp: wm_def rados_aio_def Let_def same_store_def split: if_splits)
  from c have fc: "same_store wm w1" unfolding wm_def by (rule wait_completion_frame)
  from fa fb fc show ?thesis by (auto simp: same_store_def)
qed

lemma request_routed:
  assumes "routed h req w a ctx wp"
  shows "uwsgi_rados_request h req w =
           (case request_dispatch h req (responder1 (uwsgi_apps w ! a)) ctx
                   (request_filename req (uwsgi_apps w ! a))
                   (request_timeout h (responder1 (uwsgi_apps w ! a))) wp of
              Crash_at w2 \<Rightarrow> Crashed w2
            | Return_now r w2 \<Rightarrow> Returned r w2
            | Goto_end w2 \<Rightarrow> Returned UWSGI_OK (request_end h req w2))"
  using assms by (simp add: routed_def uwsgi_rados_request_def Let_def)

lemma routed_frame: "routed h req w a ctx wp \<Longrightarrow> same_store w wp"
  by (auto simp: routed_def dest: request_pipe_frame)

lemma refused_dispatch:
  assumes "method_refused urmp (req_method req)"
  shows "request_dispatch h req urmp ctx filename tmo w =
           (if path_info req = ''/'' \<or> req_method req = ''MKCOL'' then Goto_end (uwsgi_405 w)
            else case stat_either h (async_id req) ctx filename tmo w of
                   Crashed w1 \<Rightarrow> Crash_at w1
                 | Returned (ret, st) w1 \<Rightarrow>
                     if req_method req = ''PUT'' then Goto_end (uwsgi_405 w1)
                     else if ret < 0 then
                       Goto_end (if ret = - ENOENT then uwsgi_404 w1 else uwsgi_403 w1)
                     else if req_method req = ''DELETE'' then Goto_end (uwsgi_405 w1)
                     else if if_modified_since req \<noteq> [] \<and>
                             reply_mtime st \<le> parse_http_date h (if_modified_since req) then
                       (if response h (Prepare_headers ''304 Not Modified'') \<noteq> 0
                        then Return_now (- 1) (emit (Resp (Prepare_headers ''304 Not Modified'')) w1)
                        else Return_now (response h Write_headers)
                               (emit (Resp Write_headers)
                                  (emit (Resp (Prepare_headers ''304 Not Modified'')) w1)))
                     else Goto_end (uwsgi_405 w1))"
proof -
  consider (put) "req_method req = ''PUT''" "allow_put urmp = None"
    | (delete) "req_method req = ''DELETE''" "allow_delete urmp = None"
    | (mkcol) "req_method req = ''MKCOL''" "allow_mkcol urmp = None"
    | (propfind) "req_method req = ''PROPFIND''" "allow_propfind urmp = None"
    using assms unfolding method_refused_def by (elim disjE conjE) auto
  then show ?thesis
  proof cases
    case put
    then show ?thesis
      by (simp add: request_dispatch_def request_after_stat_def uwsgi_strncmp_def
            split: outcome.split prod.split)
  next
    case delete
    then show ?thesis
      by (simp add: request_dispatch_def request_after_stat_def uwsgi_strncmp_def
            split: outcome.split prod.split)
  next
    case mkcol
    then show ?thesis
      by (simp add: request_dispatch_def uwsgi_strncmp_def)
  next
    case propfind
    then show ?thesis
      by (simp add: request_dispatch_def request_after_stat_def uwsgi_strncmp_def resp_def
            split: outcome.split prod.split)
  qed
qed

lemma allow_buffer_ok:
  assumes "\<forall>ub s. buffer_append h ub s = 0"
  shows "allow_buffer h urmp = Some (allow_header urmp)"
  using assms by (simp add: allow_buffer_def allow_header_def)

lemma request_options_frame:
  "objects (request_options h urmp w) = objects w \<and> pools (request_options h urmp w) = pools w \<and>
   store_ops (trace (request_options h urmp w)) = store_ops (trace w)"
  by (simp add: request_options_def resp_def split: option.split)

lemma request_options_ok:
  assumes "response h (Prepare_headers ''200 OK'') = 0" and "response h (Add_header ''Dav'' ''1'') = 0"
    and "\<forall>ub s. buffer_append h ub s = 0"
  shows "answers (trace (request_options h urmp w)) =
           answers (trace w) @ [Prepare_headers ''200 OK'', Add_header ''Dav'' ''1'',
                                Add_header ''Allow'' (allow_header urmp)]"
  using assms by (simp add: request_options_def resp_def allow_buffer_ok)

section \<open>The store and the handler in synchronous mode\<close>

lemma ioctx_create_loop_result:
  assumes "ioctx_create_loop h cl p n ctxes w = Inr (ctxes', w')"
  shows "ctxes' = ctxes @ map (\<lambda>i. Ioctx (next_ioctx w + i) p) [0..<n] \<and>
         next_ioctx w' = next_ioctx w + n \<and> uwsgi_apps w' = uwsgi_apps w"
  using assms
proof (induction n arbitrary: ctxes w)
  case 0
  then show ?case by simp
next
  case (Suc n)
  from Suc.prems have ok: "\<not> ioctx_create_fault h p (next_ioctx w) < 0"
    by (auto simp: Let_def split: if_splits)
  with Suc.prems have
    "ioctx_create_loop h cl p n (ctxes @ [Ioctx (next_ioctx w) p])
       ((emit (Rados_ioctx_create cl p) w)\<lparr>next_ioctx := Suc (next_ioctx w)\<rparr>) = Inr (ctxes', w')"
    by (simp add: Let_def)
  from Suc.IH [OF this] show ?case
    by (simp add: upt_rec [of 0 "Suc n"] map_Suc_upt [symmetric] del: upt_Suc)
qed

lemma distinct_ioctx_range: "distinct (map (\<lambda>i. Ioctx (b + i) p) [0..<n])"
  by (simp add: distinct_map inj_on_def)

lemma put_no_body: "post_cl req = 0 \<Longrightarrow> uwsgi_rados_put h req ctx key tmo w = Returned 0 w"
  by (simp add: uwsgi_rados_put_def uwsgi_rados_put_loop.simps)

lemma stat_either_sync:
  assumes "async (uwsgi h) < 1" and "\<forall>op. 0 \<le> rados_fault h op"
  shows "stat_either h aid ctx key tmo w =
           Returned (case map_of (objects w) (ioctx_pool ctx, key) of
                       None \<Rightarrow> (- ENOENT, reply (- ENOENT))
                     | Some ob \<Rightarrow> (0, \<lparr>reply_ret = 0, reply_size = length (obj_data ob),
                                        reply_mtime = obj_mtime ob, reply_data = []\<rparr>))
             (emit (Rados_sync (Op_stat ctx key)) w)"
proof -
  have "\<not> rados_fault h (Op_stat ctx key) < 0" using assms(2) by (simp add: not_less)
  then show ?thesis using assms(1)
    by (simp add: stat_either_def rados_sync_def Let_def reply_def split: option.split)
qed

lemma delete_sync:
  assumes "async (uwsgi h) < 1" and "\<forall>op. 0 \<le> rados_fault h op"
    and "map_of (objects w) (ioctx_pool ctx, key) = Some ob"
  shows "uwsgi_rados_delete h req ctx key tmo w =
           Returned 0 ((emit (Rados_sync (Op_remove ctx key)) w)
                         \<lparr>objects := filter (\<lambda>p. fst p \<noteq> (ioctx_pool ctx, key)) (objects w)\<rparr>)"
proof -
  have "\<not> rados_fault h (Op_remove ctx key) < 0" using assms(2) by (simp add: not_less)
  then show ?thesis using assms(1,3)
    by (simp add: uwsgi_rados_delete_def rados_sync_def Let_def reply_def)
qed

lemma map_of_filter_out: "map_of (filter (\<lambda>p. fst p \<noteq> k) xs) k = None"
  by (induction xs) auto

lemma stat_failed_answer:
  assumes "routed h req w a ctx wp"
    and "req_method req \<noteq> ''PUT''" and "req_method req \<noteq> ''OPTIONS''" and "req_method req \<noteq> ''MKCOL''"
    and "path_info req \<noteq> ''/''"
    and "stat_either h (async_id req) ctx (request_filename req (uwsgi_apps w ! a))
           (request_timeout h (responder1 (uwsgi_apps w ! a))) wp = Returned (ret, st) w1"
    and "ret < 0"
  shows "uwsgi_rados_request h req w =
           Returned UWSGI_OK
             (request_end h req (if ret = - ENOENT then uwsgi_404 w1 else uwsgi_403 w1)) \<and>
         answers (trace (request_end h req (if ret = - ENOENT then uwsgi_404 w1 else uwsgi_403 w1))) =
           answers (trace w) @ [if ret = - ENOENT then Uwsgi_404 else Uwsgi_403]"
proof -
  have f0: "same_store w wp" using assms(1) by (rule routed_frame)
  have f1: "answers (trace w1) = answers (trace wp)"
    using stat_either_frame [OF assms(6)] by simp
  have f2: "\<And>x. same_store x (request_end h req x)" by (rule request_end_frame)
  have "request_after_stat h req (responder1 (uwsgi_apps w ! a)) ctx
          (request_filename req (uwsgi_apps w ! a))
          (request_timeout h (responder1 (uwsgi_apps w ! a))) ret st w1 =
        Goto_end (if ret = - ENOENT then uwsgi_404 w1 else uwsgi_403 w1)"
    using assms(2,7) by (simp add: request_after_stat_def uwsgi_strncmp_def)
  then show ?thesis
    using assms f0 f1 f2 [of "uwsgi_404 w1"] f2 [of "uwsgi_403 w1"]
    by (simp add: request_routed request_dispatch_def uwsgi_strncmp_def same_store_def
          uwsgi_404_def uwsgi_403_def)
qed

section \<open>The round trip through the bridge\<close>

lemma exec_frame:
  "trace (snd (rados_exec op w)) = trace w \<and> urio (snd (rados_exec op w)) = urio w \<and>
   open_fds (snd (rados_exec op w)) = open_fds w \<and> kpipes (snd (rados_exec op w)) = kpipes w \<and>
   pools (snd (rados_exec op w)) = pools w \<and> uwsgi_apps (snd (rados_exec op w)) = uwsgi_apps w \<and>
   heap (snd (rados_exec op w)) = heap w"
  by (cases op) (auto simp: Let_def split: option.split)

lemma exec_objects_irrelevant:
  "objects w' = objects w \<Longrightarrow> now w' = now w \<Longrightarrow>
   fst (rados_exec op w') = fst (rados_exec op w) \<and>
   objects (snd (rados_exec op w')) = objects (snd (rados_exec op w))"
  by (cases op) (auto simp: Let_def split: option.split)

lemma sys_write_ready:
  assumes "r \<in> set (open_fds w)" and "x \<in> set (open_fds w)" and "(r, x, n) \<in> set (kpipes w)"
  shows "fst (sys_write x w) = 1"
    and "(r, x, Suc n) \<in> set (kpipes (snd (sys_write x w)))"
    and "open_fds (snd (sys_write x w)) = open_fds w"
    and "urio (snd (sys_write x w)) = urio w"
    and "objects (snd (sys_write x w)) = objects w"
    and "trace (snd (sys_write x w)) = trace w @ [Sys_write x 1]"
proof -
  have ex: "\<exists>p \<in> set (kpipes w). fst (snd p) = x \<and> fst p \<in> set (open_fds w)"
    using assms by force
  have m: "(r, x, Suc n) \<in> set (map (\<lambda>(a, b, n). if b = x then (a, b, Suc n) else (a, b, n)) (kpipes w))"
    using assms(3) by force
  show "fst (sys_write x w) = 1" using assms(2) ex by (simp add: sys_write_def)
  show "(r, x, Suc n) \<in> set (kpipes (snd (sys_write x w)))"
    using assms(2) ex m by (simp add: sys_write_def)
  show "open_fds (snd (sys_write x w)) = open_fds w" by (simp add: sys_write_def)
  show "urio (snd (sys_write x w)) = urio w" by (simp add: sys_write_def)
  show "objects (snd (sys_write x w)) = objects w" by (simp add: sys_write_def)
  show "trace (snd (sys_write x w)) = trace w @ [Sys_write x 1]"
    using assms(2) ex by (simp add: sys_write_def)
qed

lemma readable_ready:
  assumes "r \<in> set (open_fds w)" and "(r, x, Suc n) \<in> set (kpipes w)"
  shows "readable r w"
  using assms by (force simp: readable_def)

lemma sys_read_ready:
  assumes "r \<in> set (open_fds w)" and "(r, x, Suc n) \<in> set (kpipes w)"
  shows "fst (sys_read r w) = 1"
    and "(r, x, n) \<in> set (kpipes (snd (sys_read r w)))"
    and "open_fds (snd (sys_read r w)) = open_fds w"
    and "urio (snd (sys_read r w)) = urio w"
    and "objects (snd (sys_read r w)) = objects w"
    and "trace (snd (sys_read r w)) = trace w @ [Sys_read r 1]"
proof -
  have rd: "readable r w" using assms by (rule readable_ready)
  have m: "(r, x, n) \<in> set (map (\<lambda>(a, b, n). if a = r then (a, b, n - 1) else (a, b, n)) (kpipes w))"
    using assms(2) by force
  show "fst (sys_read r w) = 1" using rd by (simp add: sys_read_def)
  show "(r, x, n) \<in> set (kpipes (snd (sys_read r w)))" using rd m by (simp add: sys_read_def)
  show "open_fds (snd (sys_read r w)) = open_fds w" by (simp add: sys_read_def)
  show "urio (snd (sys_read r w)) = urio w" by (simp add: sys_read_def)
  show "objects (snd (sys_read r w)) = objects w" by (simp add: sys_read_def)
  show "trace (snd (sys_read r w)) = trace w @ [Sys_read r 1]" using rd by (simp add: sys_read_def)
qed

lemma async_round_trip:
  assumes rdy: "pipe_ready aid w" and br: "bridge_delivers h"
  shows "\<exists>urcb w1 w2 w3.
           uwsgi_rados_set_completion h aid w = Returned (Some urcb) w1 \<and>
           rados_aio h op urcb w1 = (0, w2) \<and>
           uwsgi_rados_wait_completion h 0 urcb tmo w2 =
             ((reply_ret (exec_reply h op w), exec_reply h op w), w3) \<and>
           objects w3 = (if rados_fault h op < 0 then objects w else objects (snd (rados_exec op w))) \<and>
           pools w3 = pools w \<and> now w3 = now w \<and> uwsgi_apps w3 = uwsgi_apps w \<and>
           req_body w3 = req_body w \<and>
           answers (trace w3) = answers (trace w) \<and>
           store_ops (trace w3) = store_ops (trace w) @ [Rados_aio op urcb] \<and>
           pipe_ready aid w3"
proof -
  define u where "u = urio w ! aid"
  define r where "r = fst (fds u)"
  define x where "x = snd (fds u)"
  define urcb where "urcb = \<lparr>cb_rid = rid u + 1, cb_urio = aid\<rparr>"
  define c0 where "c0 = \<lparr>comp_arg = urcb, comp_reply = reply 0, comp_safe_and_cb = False,
                          comp_released = False\<rparr>"
  from rdy have len: "aid < length (urio w)" and ro: "r \<in> set (open_fds w)"
    and xo: "x \<in> set (open_fds w)" and kp: "(r, x, 0) \<in> set (kpipes w)"
    by (simp_all add: pipe_ready_def u_def r_def x_def)
  from br have cr: "\<not> create_completion_ret h urcb < 0" and sb: "\<not> aio_submit_ret h urcb < 0"
    and it: "aio_in_time h urcb"
    by (simp_all add: bridge_delivers_def not_less)
  \<comment> \<open>arming\<close>
  define w1 where "w1 = world_of (uwsgi_rados_set_completion h aid w)"
  have s1: "uwsgi_rados_set_completion h aid w = Returned (Some urcb) w1"
    using len cr unfolding w1_def
    by (simp add: uwsgi_rados_set_completion_def Let_def slot_update_def urcb_def u_def)
  have u1: "urio w1 = (urio w)[aid := u\<lparr>rid := rid u + 1, completion := Some c0\<rparr>]"
    using len cr unfolding w1_def
    by (simp add: uwsgi_rados_set_completion_def Let_def slot_update_def urcb_def u_def c0_def)
  have f1: "open_fds w1 = open_fds w" "kpipes w1 = kpipes w" "objects w1 = objects w"
    "pools w1 = pools w" "now w1 = now w" "uwsgi_apps w1 = uwsgi_apps w" "req_body w1 = req_body w"
    "answers (trace w1) = answers (trace w)" "store_ops (trace w1) = store_ops (trace w)"
    using len cr unfolding w1_def
    by (simp_all add: uwsgi_rados_set_completion_def Let_def slot_update_def urcb_def u_def)
  \<comment> \<open>the operation runs\<close>
  define wa where "wa = emit (Rados_aio op urcb) w1"
  define rep where "rep = exec_reply h op wa"
  define we where "we = (if rados_fault h op < 0 then wa else snd (rados_exec op wa))"
  have ex: "(if rados_fault h op < 0 then (reply (rados_fault h op), wa) else rados_exec op wa) = (rep, we)"
    by (simp add: rep_def we_def exec_reply_def)
  have ef: "trace we = trace wa" "urio we = urio wa" "open_fds we = open_fds wa"
    "kpipes we = kpipes wa" "pools we = pools wa" "uwsgi_apps we = uwsgi_apps wa"
    using exec_frame [of op wa] by (simp_all add: we_def)
  have en: "now we = now wa" "req_body we = req_body wa"
    unfolding we_def by (cases op; simp add: Let_def split: option.split)+
  have rep_w: "rep = exec_reply h op w"
    using exec_objects_irrelevant [of wa w op] f1 by (simp add: rep_def exec_reply_def wa_def)
  have obj_e: "objects we = (if rados_fault h op < 0 then objects w else objects (snd (rados_exec op w)))"
    using exec_objects_irrelevant [of wa w op] f1 by (simp add: we_def wa_def)
  \<comment> \<open>the completion is filled, the callback writes the byte\<close>
  define c1 where "c1 = c0\<lparr>comp_reply := rep, comp_safe_and_cb := True\<rparr>"
  define ws where "ws = slot_update aid
      (\<lambda>u. u\<lparr>completion := map_option (\<lambda>c. if comp_arg c = urcb \<and> \<not> comp_released c
                                 then c\<lparr>comp_reply := rep, comp_safe_and_cb := True\<rparr> else c)
                               (completion u)\<rparr>) we"
  have us: "urio ws = (urio w)[aid := u\<lparr>rid := rid u + 1, completion := Some c1\<rparr>]"
    using len by (simp add: ws_def slot_update_def ef wa_def u1 c0_def c1_def)
  have us_aid: "urio ws ! aid = u\<lparr>rid := rid u + 1, completion := Some c1\<rparr>"
    using len by (simp add: us)
  have fs: "open_fds ws = open_fds w" "kpipes ws = kpipes w" "objects ws = objects we"
    "pools ws = pools w" "now ws = now w" "uwsgi_apps ws = uwsgi_apps w" "req_body ws = req_body w"
    "trace ws = trace w1 @ [Rados_aio op urcb]"
    by (simp_all add: ws_def slot_update_def ef en wa_def f1)
  define wl where "wl = emit (Mutex_lock aid) ws"
  have wr: "fst (sys_write x wl) = 1" "(r, x, Suc 0) \<in> set (kpipes (snd (sys_write x wl)))"
    "open_fds (snd (sys_write x wl)) = open_fds wl" "urio (snd (sys_write x wl)) = urio wl"
    "objects (snd (sys_write x wl)) = objects wl"
    "trace (snd (sys_write x wl)) = trace wl @ [Sys_write x 1]"
    using sys_write_ready [of r wl x 0] ro xo kp by (simp_all add: wl_def fs)
  define wc where "wc = uwsgi_rados_async_cb urcb ws"
  have wc_eq: "wc = free_cb urcb (emit (Mutex_unlock aid) (snd (sys_write x wl)))"
    using wr(1) unfolding wc_def uwsgi_rados_async_cb_def Let_def
    by (simp add: urcb_def us_aid x_def wl_def split_def)
  have cu: "cb_urio urcb = aid" by (simp add: urcb_def)
  define w2 where "w2 = wa\<lparr>in_flight := (urcb, op) # in_flight wa\<rparr>"
  have s2: "rados_aio h op urcb w1 = (0, w2)"
    using sb by (simp add: rados_aio_def Let_def wa_def w2_def)
  have rst: "w2\<lparr>in_flight := in_flight wa\<rparr> = wa" by (simp add: w2_def)
  have qd: "in_flight w2 = (urcb, op) # in_flight wa" by (simp add: w2_def)
  have pg: "rados_aio_progress h urcb w2 = wc"
    using it ex
    by (simp add: rados_aio_progress_def rados_aio_deliver_def qd rst rados_aio_complete_def
          ws_def wc_def cu)
  have uq: "urio w2 = urio w1" by (simp add: w2_def wa_def)
  have f2: "urio wc = urio ws" "open_fds wc = open_fds w" "(r, x, Suc 0) \<in> set (kpipes wc)"
    "objects wc = objects we"
    "trace wc = trace w1 @ [Rados_aio op urcb, Mutex_lock aid, Sys_write x 1, Mutex_unlock aid,
                            Free_cb urcb]"
    using wr by (simp_all add: wc_eq free_cb_def wl_def fs)
  have g2: "pools wc = pools w" "now wc = now w" "uwsgi_apps wc = uwsgi_apps w"
    "req_body wc = req_body w"
    by (simp_all add: wc_eq free_cb_def sys_write_def wl_def fs)
  \<comment> \<open>the wait\<close>
  have fd2: "fst (fds (urio wc ! aid)) = r" "snd (fds (urio wc ! aid)) = x"
    by (simp_all add: f2 us_aid r_def x_def)
  define ww where "ww = snd (wait_read_hook r tmo wc)"
  have rd2: "readable r wc" using readable_ready [of r wc x 0] ro f2 by simp
  have wh: "wait_read_hook r tmo wc = (1, ww)" "ww = emit (Wait_read_hook r tmo 1) wc"
    using rd2 by (simp_all add: ww_def wait_read_hook_def Let_def)
  have rr: "fst (sys_read r ww) = 1" "(r, x, 0) \<in> set (kpipes (snd (sys_read r ww)))"
    "open_fds (snd (sys_read r ww)) = open_fds ww" "urio (snd (sys_read r ww)) = urio ww"
    "objects (snd (sys_read r ww)) = objects ww"
    "trace (snd (sys_read r ww)) = trace ww @ [Sys_read r 1]"
    using sys_read_ready [of r ww x 0] ro f2 by (simp_all add: wh(2))
  define wr where "wr = snd (sys_read r ww)"
  define w3 where "w3 = rados_aio_release aid wr"
  have uww: "urio ww = urio wc" by (simp add: wh(2))
  have sr: "sys_read r ww = (1, wr)" using rr(1) by (simp add: wr_def prod_eq_iff)
  have uwr: "urio wr = urio wc" by (simp add: wr_def rr(4) uww)
  have cmp: "completion (urio wr ! aid) = Some c1" by (simp add: uwr f2(1) us_aid)
  have fdw: "fst (fds (urio ww ! aid)) = r" by (simp add: uww fd2)
  have sf: "comp_safe_and_cb c1" "comp_reply c1 = rep" by (simp_all add: c1_def)
  have fdq: "fst (fds (urio w2 ! aid)) = r"
    using len by (simp add: uq u1 r_def)
  have s3: "uwsgi_rados_wait_completion h 0 urcb tmo w2 = ((reply_ret rep, rep), w3)"
    unfolding uwsgi_rados_wait_completion_def Let_def cu
    by (simp add: pg fdq wh(1) fdw sr cmp sf w3_def)
  have f3: "objects w3 = objects we" "pools w3 = pools w" "now w3 = now w"
    "uwsgi_apps w3 = uwsgi_apps w" "req_body w3 = req_body w"
    using rr(5)
    by (simp_all add: w3_def wr_def rados_aio_release_def slot_update_def wh(2) f2 g2
          sys_read_def)
  have t3: "trace w3 = trace wc @ [Wait_read_hook r tmo 1, Sys_read r 1, Rados_aio_release aid]"
    using rr(6) by (simp add: w3_def wr_def rados_aio_release_def slot_update_def wh(2))
  have p3: "pipe_ready aid w3"
    using len rr(2,3,4) ro xo
    by (simp add: pipe_ready_def w3_def wr_def rados_aio_release_def slot_update_def
          wh(2) f2 us r_def x_def)
  have a3: "answers (trace w3) = answers (trace w)"
    "store_ops (trace w3) = store_ops (trace w) @ [Rados_aio op urcb]"
    by (simp_all add: t3 f2 f1)
  show ?thesis
    apply (rule exI [of _ urcb], rule exI [of _ w1], rule exI [of _ w2], rule exI [of _ w3])
    using s1 s2 s3 f3 obj_e a3 p3 rep_w by simp
qed

lemma request_pipe_ready:
  assumes "request_pipe h req w = Returned True wp"
  shows "slot_ready h (async_id req) wp"
  using assms
  by (auto simp: request_pipe_def slot_ready_def pipe_ready_def sys_pipe_def slot_update_def
        split: if_splits option.splits prod.splits)

lemma stat_either_works:
  assumes wk: "store_works h" and rdy: "slot_ready h aid w"
  shows "\<exists>w1 e. stat_either h aid ctx key tmo w =
             Returned (case map_of (objects w) (ioctx_pool ctx, key) of
                         None \<Rightarrow> (- ENOENT, reply (- ENOENT))
                       | Some ob \<Rightarrow> (0, \<lparr>reply_ret = 0, reply_size = length (obj_data ob),
                                          reply_mtime = obj_mtime ob, reply_data = []\<rparr>)) w1 \<and>
           objects w1 = objects w \<and> pools w1 = pools w \<and> uwsgi_apps w1 = uwsgi_apps w \<and>
           answers (trace w1) = answers (trace w) \<and>
           store_ops (trace w1) = store_ops (trace w) @ [e] \<and> is_stat_of ctx key e \<and>
           slot_ready h aid w1"
proof (cases "0 < async (uwsgi h)")
  case False
  then have sync: "async (uwsgi h) < 1" by simp
  from wk have nf: "\<forall>op. 0 \<le> rados_fault h op" by (simp add: store_works_def)
  show ?thesis
    using sync False
    by (simp add: stat_either_sync [OF sync nf] slot_ready_def)
next
  case True
  with wk rdy have br: "bridge_delivers h" and pr: "pipe_ready aid w"
    by (simp_all add: store_works_def slot_ready_def)
  from wk have nf: "\<not> rados_fault h (Op_stat ctx key) < 0" by (simp add: store_works_def not_less)
  from async_round_trip [OF pr br, of "Op_stat ctx key" tmo] obtain urcb w1 w2 w3 where
    s: "uwsgi_rados_set_completion h aid w = Returned (Some urcb) w1"
      "rados_aio h (Op_stat ctx key) urcb w1 = (0, w2)"
      "uwsgi_rados_wait_completion h 0 urcb tmo w2 =
         ((reply_ret (exec_reply h (Op_stat ctx key) w), exec_reply h (Op_stat ctx key) w), w3)"
    and f: "objects w3 = (if rados_fault h (Op_stat ctx key) < 0 then objects w
                          else objects (snd (rados_exec (Op_stat ctx key) w)))"
      "pools w3 = pools w" "uwsgi_apps w3 = uwsgi_apps w"
      "answers (trace w3) = answers (trace w)"
      "store_ops (trace w3) = store_ops (trace w) @ [Rados_aio (Op_stat ctx key) urcb]"
      "pipe_ready aid w3"
    by blast
  have eq: "stat_either h aid ctx key tmo w =
              Returned (reply_ret (exec_reply h (Op_stat ctx key) w), exec_reply h (Op_stat ctx key) w) w3"
    using True s by (simp add: stat_either_def uwsgi_rados_async_stat_def)
  have rp: "(reply_ret (exec_reply h (Op_stat ctx key) w), exec_reply h (Op_stat ctx key) w) =
            (case map_of (objects w) (ioctx_pool ctx, key) of
                         None \<Rightarrow> (- ENOENT, reply (- ENOENT))
                       | Some ob \<Rightarrow> (0, \<lparr>reply_ret = 0, reply_size = length (obj_data ob),
                                          reply_mtime = obj_mtime ob, reply_data = []\<rparr>))"
    using nf by (simp add: exec_reply_def reply_def split: option.split)
  have ob: "objects w3 = objects w" using f(1) nf by (simp split: option.split)
  show ?thesis
    apply (rule exI [of _ w3], rule exI [of _ "Rados_aio (Op_stat ctx key) urcb"])
    using eq rp ob f by (simp add: slot_ready_def)
qed

lemma delete_works:
  assumes wk: "store_works h" and rdy: "slot_ready h (async_id req) w"
    and ex: "map_of (objects w) (ioctx_pool ctx, key) = Some ob"
  shows "\<exists>w1 e. uwsgi_rados_delete h req ctx key tmo w = Returned 0 w1 \<and>
           objects w1 = filter (\<lambda>p. fst p \<noteq> (ioctx_pool ctx, key)) (objects w) \<and>
           pools w1 = pools w \<and> uwsgi_apps w1 = uwsgi_apps w \<and>
           answers (trace w1) = answers (trace w) \<and>
           store_ops (trace w1) = store_ops (trace w) @ [e] \<and> is_remove_of ctx key e \<and>
           slot_ready h (async_id req) w1"
proof (cases "0 < async (uwsgi h)")
  case False
  then have sync: "async (uwsgi h) < 1" by simp
  from wk have nf: "\<forall>op. 0 \<le> rados_fault h op" by (simp add: store_works_def)
  show ?thesis
    using sync False
    by (simp add: delete_sync [OF sync nf ex] slot_ready_def)
next
  case True
  with wk rdy have br: "bridge_delivers h" and pr: "pipe_ready (async_id req) w"
    by (simp_all add: store_works_def slot_ready_def)
  from wk have nf: "\<not> rados_fault h (Op_remove ctx key) < 0" by (simp add: store_works_def not_less)
  from async_round_trip [OF pr br, of "Op_remove ctx key" tmo] obtain urcb w1 w2 w3 where
    s: "uwsgi_rados_set_completion h (async_id req) w = Returned (Some urcb) w1"
      "rados_aio h (Op_remove ctx key) urcb w1 = (0, w2)"
      "uwsgi_rados_wait_completion h 0 urcb tmo w2 =
         ((reply_ret (exec_reply h (Op_remove ctx key) w), exec_reply h (Op_remove ctx key) w), w3)"
    and f: "objects w3 = (if rados_fault h (Op_remove ctx key) < 0 then objects w
                          else objects (snd (rados_exec (Op_remove ctx key) w)))"
      "pools w3 = pools w" "uwsgi_apps w3 = uwsgi_apps w"
      "answers (trace w3) = answers (trace w)"
      "store_ops (trace w3) = store_ops (trace w) @ [Rados_aio (Op_remove ctx key) urcb]"
      "pipe_ready (async_id req) w3"
    by blast
  have rp: "reply_ret (exec_reply h (Op_remove ctx key) w) = 0"
    using nf ex by (simp add: exec_reply_def reply_def)
  have eq: "uwsgi_rados_delete h req ctx key tmo w = Returned 0 w3"
    using True s rp by (simp add: uwsgi_rados_delete_def)
  have ob: "objects w3 = filter (\<lambda>p. fst p \<noteq> (ioctx_pool ctx, key)) (objects w)"
    using f(1) nf ex by simp
  show ?thesis
    apply (rule exI [of _ w3], rule exI [of _ "Rados_aio (Op_remove ctx key) urcb"])
    using eq ob f by (simp add: slot_ready_def)
qed

lemma routed_ready: "routed h req w a ctx wp \<Longrightarrow> slot_ready h (async_id req) wp"
  by (auto simp: routed_def dest: request_pipe_ready)

lemma get_missing_works:
  assumes rt: "routed h req w a ctx wp" and get: "req_method req = ''GET''"
    and path: "path_info req \<noteq> ''/''" and wk: "store_works h"
    and missing: "map_of (objects w) (ioctx_pool ctx, request_filename req (uwsgi_apps w ! a)) = None"
  shows "answers (trace (world_of (uwsgi_rados_request h req w))) = answers (trace w) @ [Uwsgi_404]"
proof -
  from rt have ob: "objects wp = objects w" using routed_frame by (simp add: same_store_def)
  from rt have rdy: "slot_ready h (async_id req) wp"
    by (rule routed_ready)
  from stat_either_works [OF wk rdy, of ctx "request_filename req (uwsgi_apps w ! a)"
      "request_timeout h (responder1 (uwsgi_apps w ! a))"] ob missing
  obtain w1 where st: "stat_either h (async_id req) ctx (request_filename req (uwsgi_apps w ! a))
           (request_timeout h (responder1 (uwsgi_apps w ! a))) wp =
         Returned (- ENOENT, reply (- ENOENT)) w1"
    by auto
  have neg: "- ENOENT < 0" by (simp add: ENOENT_def)
  from stat_failed_answer [OF rt _ _ _ path st neg] get show ?thesis by simp
qed

section \<open>The request counter\<close>

lemma armed_simps [simp]:
  "armed i [] = 0"
  "armed i (xs @ ys) = armed i xs + armed i ys"
  "armed i (e # es) = (if arms i e then 1 else 0) + armed i es"
  by (simp_all add: armed_def)

lemma advances_refl [simp]: "advances w w"
  by (simp add: advances_def)

lemma advances_trans: "advances w0 w1 \<Longrightarrow> advances w1 w2 \<Longrightarrow> advances w0 w2"
  unfolding advances_def
  apply (elim exE conjE)
  subgoal for evs1 evs2
    by (rule exI [of _ "evs1 @ evs2"]) (simp add: add.assoc)
  done

lemma advances_fields [simp]:
  "advances w (w0\<lparr>heap := a\<rparr>) = advances w w0"
  "advances w (w0\<lparr>in_flight := b\<rparr>) = advances w w0"
  "advances w (w0\<lparr>objects := c\<rparr>) = advances w w0"
  "advances w (w0\<lparr>pools := d\<rparr>) = advances w w0"
  "advances w (w0\<lparr>open_fds := e\<rparr>) = advances w w0"
  "advances w (w0\<lparr>kpipes := f\<rparr>) = advances w w0"
  "advances w (w0\<lparr>req_body := g\<rparr>) = advances w w0"
  "advances w (w0\<lparr>now := k\<rparr>) = advances w w0"
  "advances w (w0\<lparr>uwsgi_apps := l\<rparr>) = advances w w0"
  "advances w (w0\<lparr>next_ioctx := m\<rparr>) = advances w w0"
  by (simp_all add: advances_def)

lemma adv_emit: "advances w w0 \<Longrightarrow> \<forall>i. \<not> arms i e \<Longrightarrow> advances w (emit e w0)"
  unfolding advances_def
  apply (elim exE conjE)
  subgoal for evs by (rule exI [of _ "evs @ [e]"]) simp
  done

lemma rid_nth_update:
  "(\<And>u. rid (f u) = rid u) \<Longrightarrow> rid (xs[i := f (xs ! i)] ! j) = rid (xs ! j)"
  by (cases "i < length xs") (auto simp: nth_list_update list_update_beyond)

lemma adv_slot_update:
  assumes "advances w w0" and "\<And>u. rid (f u) = rid u"
  shows "advances w (slot_update i f w0)"
proof -
  have "advances w0 (slot_update i f w0)"
    unfolding advances_def
    by (rule exI [of _ "[]"]) (simp add: slot_update_def rid_nth_update assms(2))
  with assms(1) show ?thesis by (rule advances_trans)
qed

lemma outcome_case_proj:
  "(case x of Returned r w \<Rightarrow> f r w | Crashed w \<Rightarrow> g w) =
     (case returned x of Some r \<Rightarrow> f r (world_of x) | None \<Rightarrow> g (world_of x))"
  by (cases x) simp_all

lemma adv_sys_close: "advances w w0 \<Longrightarrow> advances w (sys_close fd w0)"
  unfolding sys_close_def by (auto intro!: adv_emit)

lemma adv_sys_write: "advances w w0 \<Longrightarrow> advances w (snd (sys_write fd w0))"
  unfolding sys_write_def by (auto intro!: adv_emit)

lemma adv_sys_read: "advances w w0 \<Longrightarrow> advances w (snd (sys_read fd w0))"
  unfolding sys_read_def by (auto intro!: adv_emit)

lemma adv_wait_read_hook: "advances w w0 \<Longrightarrow> advances w (snd (wait_read_hook fd tmo w0))"
  unfolding wait_read_hook_def by (auto simp: Let_def intro!: adv_emit)

lemma adv_sys_pipe: "advances w w0 \<Longrightarrow> advances w (snd (sys_pipe h w0))"
  unfolding sys_pipe_def by (auto split: option.split intro!: adv_emit)

lemma adv_free_cb: "advances w w0 \<Longrightarrow> advances w (free_cb urcb w0)"
  unfolding free_cb_def by (auto intro!: adv_emit)

lemma adv_async_cb: "advances w w0 \<Longrightarrow> advances w (uwsgi_rados_async_cb urcb w0)"
  unfolding uwsgi_rados_async_cb_def Let_def
  by (auto simp: split_def intro!: adv_free_cb adv_emit adv_sys_write)

lemma adv_release: "advances w w0 \<Longrightarrow> advances w (rados_aio_release i w0)"
  unfolding rados_aio_release_def by (auto intro!: adv_emit adv_slot_update)

lemma adv_exec: "advances w w0 \<Longrightarrow> advances w (snd (rados_exec op w0))"
  by (cases op) (auto simp: Let_def split: option.split)

lemma adv_sync: "advances w w0 \<Longrightarrow> advances w (snd (rados_sync h op w0))"
  unfolding rados_sync_def by (auto simp: Let_def intro!: adv_emit adv_exec)

lemma adv_complete: "advances w w0 \<Longrightarrow> advances w (rados_aio_complete h op urcb w0)"
  unfolding rados_aio_complete_def
  by (auto simp: split_def intro!: adv_async_cb adv_slot_update adv_exec)

lemma adv_aio: "advances w w0 \<Longrightarrow> advances w (snd (rados_aio h op urcb w0))"
  unfolding rados_aio_def by (auto simp: Let_def intro!: adv_emit)

lemma adv_deliver: "advances w w0 \<Longrightarrow> advances w (rados_aio_deliver h p w0)"
  unfolding rados_aio_deliver_def by (auto intro!: adv_complete)

lemma adv_progress: "advances w w0 \<Longrightarrow> advances w (rados_aio_progress h urcb w0)"
  unfolding rados_aio_progress_def by (auto split: option.split intro!: adv_deliver)

lemma adv_wait_completion:
  "advances w w0 \<Longrightarrow> advances w (snd (uwsgi_rados_wait_completion h ret urcb tmo w0))"
  unfolding uwsgi_rados_wait_completion_def
  by (auto simp: Let_def split_def split: option.split
        intro!: adv_free_cb adv_release adv_emit adv_sys_read adv_wait_read_hook adv_progress)

lemma set_completion_step:
  assumes "aid < length (urio w0)"
  shows "\<exists>evs. trace (world_of (uwsgi_rados_set_completion h aid w0)) = trace w0 @ evs \<and>
           length (urio (world_of (uwsgi_rados_set_completion h aid w0))) = length (urio w0) \<and>
           (\<forall>i < length (urio w0).
              rid (urio (world_of (uwsgi_rados_set_completion h aid w0)) ! i) =
                rid (urio w0 ! i) + (if i = aid then 1 else 0)) \<and>
           (\<forall>i. armed i evs = (if i = aid then 1 else 0))"
  using assms
  by (auto simp: uwsgi_rados_set_completion_def Let_def slot_update_def free_cb_def nth_list_update)

lemma adv_set_completion:
  assumes "advances w w0"
  shows "advances w (world_of (uwsgi_rados_set_completion h aid w0))"
proof (cases "aid < length (urio w0)")
  case False
  then show ?thesis using assms by (simp add: uwsgi_rados_set_completion_def)
next
  case True
  from set_completion_step [OF True, of h]
  have "advances w0 (world_of (uwsgi_rados_set_completion h aid w0))"
    unfolding advances_def by (elim exE conjE, intro exI conjI) auto
  with assms show ?thesis by (rule advances_trans)
qed

lemma adv_body_read: "advances w w0 \<Longrightarrow> advances w (snd (uwsgi_request_body_read h hint w0))"
  unfolding uwsgi_request_body_read_def by (auto simp: Let_def intro!: adv_emit)

lemma adv_resp: "advances w w0 \<Longrightarrow> advances w (snd (resp h c w0))"
  unfolding resp_def by (auto intro!: adv_emit)

lemma adv_delete:
  "advances w w0 \<Longrightarrow> advances w (world_of (uwsgi_rados_delete h req ctx key tmo w0))"
  unfolding uwsgi_rados_delete_def
  by (auto simp: split_def outcome_case_proj split: option.split
        intro!: adv_sync adv_set_completion adv_wait_completion adv_aio)

lemma adv_async_stat:
  "advances w w0 \<Longrightarrow> advances w (world_of (uwsgi_rados_async_stat h aid ctx key tmo w0))"
  unfolding uwsgi_rados_async_stat_def
  by (auto simp: split_def outcome_case_proj split: option.split
        intro!: adv_set_completion adv_wait_completion adv_aio)

lemma adv_stat_either:
  "advances w w0 \<Longrightarrow> advances w (world_of (stat_either h aid ctx key tmo w0))"
  unfolding stat_either_def
  by (auto simp: split_def intro!: adv_async_stat adv_sync)

lemma adv_body_read_eq:
  "uwsgi_request_body_read h hint w0 = (x, w1) \<Longrightarrow> advances w w0 \<Longrightarrow> advances w w1"
  using adv_body_read [of w w0 h hint] by simp

lemma adv_sync_eq: "rados_sync h op w0 = (x, w1) \<Longrightarrow> advances w w0 \<Longrightarrow> advances w w1"
  using adv_sync [of w w0 h op] by simp

lemma adv_set_completion_eq:
  "uwsgi_rados_set_completion h aid w0 = Returned x w1 \<Longrightarrow> advances w w0 \<Longrightarrow> advances w w1"
  "uwsgi_rados_set_completion h aid w0 = Crashed w1 \<Longrightarrow> advances w w0 \<Longrightarrow> advances w w1"
  using adv_set_completion [of w w0 h aid] by simp_all

lemma adv_aio_eq: "rados_aio h op urcb w0 = (x, w1) \<Longrightarrow> advances w w0 \<Longrightarrow> advances w w1"
  using adv_aio [of w w0 h op urcb] by simp

lemma adv_wait_completion_eq:
  "uwsgi_rados_wait_completion h ret urcb tmo w0 = (x, w1) \<Longrightarrow> advances w w0 \<Longrightarrow> advances w w1"
  using adv_wait_completion [of w w0 h ret urcb tmo] by simp

lemma adv_resp_eq: "resp h c w0 = (x, w1) \<Longrightarrow> advances w w0 \<Longrightarrow> advances w w1"
  using adv_resp [of w w0 h c] by simp

lemma adv_stat_either_eq:
  "stat_either h aid ctx key tmo w0 = Returned x w1 \<Longrightarrow> advances w w0 \<Longrightarrow> advances w w1"
  "stat_either h aid ctx key tmo w0 = Crashed w1 \<Longrightarrow> advances w w0 \<Longrightarrow> advances w w1"
  using adv_stat_either [of w w0 h aid ctx key tmo] by simp_all

lemmas adv_eqs = adv_body_read_eq adv_sync_eq adv_set_completion_eq adv_aio_eq
  adv_wait_completion_eq adv_resp_eq adv_stat_either_eq

lemma adv_put_loop:
  "advances w w0 \<Longrightarrow>
   advances w (world_of (uwsgi_rados_put_loop h req ctx key tmo remains off w0))"
proof (induction h req ctx key tmo remains off w0 rule: uwsgi_rados_put_loop.induct)
  case (1 h req ctx key tmo remains off w0)
  note simps = uwsgi_rados_put_loop.simps [of h req ctx key tmo remains off w0]
  show ?case
  proof (cases "0 < remains")
    case False
    with "1.prems" show ?thesis by (subst simps) simp
  next
    case pos: True
    obtain x1 w1 where br: "uwsgi_request_body_read h (UMIN remains 32768) w0 = (x1, w1)"
      by fastforce
    have a1: "advances w w1" using br "1.prems" by (rule adv_body_read_eq)
    show ?thesis
    proof (cases x1)
      case Body_null
      with pos br a1 show ?thesis by (subst simps) simp
    next
      case Body_empty
      with pos br a1 show ?thesis by (subst simps) simp
    next
      case (Body_chunk body)
      show ?thesis
      proof (cases "async (uwsgi h) < 1")
        case sync: True
        obtain rep w2 where rs: "rados_sync h (Op_write_full ctx key body) w1 = (rep, w2)"
          by fastforce
        have a2: "advances w w2" using rs a1 by (rule adv_sync_eq)
        show ?thesis
        proof (cases "reply_ret rep < 0")
          case True
          with pos br Body_chunk sync rs a2 show ?thesis by (subst simps) simp
        next
          case False
          from "1.IH"(1) [OF pos br [symmetric] Body_chunk sync rs [symmetric] False a2]
          show ?thesis using pos br Body_chunk sync rs False by (subst simps) simp
        qed
      next
        case async: False
        show ?thesis
        proof (cases "uwsgi_rados_set_completion h (async_id req) w1")
          case (Crashed w2)
          with a1 have "advances w w2" by (blast intro: adv_set_completion_eq)
          with pos br Body_chunk async Crashed show ?thesis by (subst simps) simp
        next
          case (Returned o2 w2)
          with a1 have a2: "advances w w2" by (blast intro: adv_set_completion_eq)
          show ?thesis
          proof (cases o2)
            case None
            with pos br Body_chunk async Returned a2 show ?thesis by (subst simps) simp
          next
            case (Some urcb)
            obtain r w3 where ai: "rados_aio h (Op_write_full ctx key body) urcb w2 = (r, w3)"
              by fastforce
            have a3: "advances w w3" using ai a2 by (rule adv_aio_eq)
            obtain ret rep w4 where wc: "uwsgi_rados_wait_completion h r urcb tmo w3 = ((ret, rep), w4)"
              by (metis surj_pair)
            have a4: "advances w w4" using wc a3 by (rule adv_wait_completion_eq)
            show ?thesis
            proof (cases "ret < 0")
              case True
              with pos br Body_chunk async Returned Some ai wc a4 show ?thesis
                by (subst simps) simp
            next
              case False
              have e4: "(ret, rep) = (ret, rep)" by simp
              from "1.IH"(2) [OF pos br [symmetric] Body_chunk async Returned Some ai [symmetric]
                  wc [symmetric] e4 False a4]
              show ?thesis using pos br Body_chunk async Returned Some ai wc False
                by (subst simps) simp
            qed
          qed
        qed
      qed
    qed
  qed
qed

lemma adv_read_sync:
  "advances w w0 \<Longrightarrow> advances w (snd (uwsgi_rados_read_sync h ctx key remains off w0))"
proof (induction h ctx key remains off w0 rule: uwsgi_rados_read_sync.induct)
  case (1 h ctx key remains off w0)
  note simps = uwsgi_rados_read_sync.simps [of h ctx key remains off w0]
  show ?case
  proof (cases "0 < remains")
    case False
    with "1.prems" show ?thesis by (subst simps) simp
  next
    case pos: True
    obtain rep w1 where rs:
      "rados_sync h (Op_read ctx key (UMIN remains 8192) (unat off)) w0 = (rep, w1)"
      by fastforce
    have a1: "advances w w1" using rs "1.prems" by (rule adv_sync_eq)
    show ?thesis
    proof (cases "reply_ret rep \<le> 0")
      case True
      with pos rs a1 show ?thesis by (subst simps) simp
    next
      case ok: False
      obtain e w2 where rp: "resp h (Write_body (reply_data rep)) w1 = (e, w2)" by fastforce
      have a2: "advances w w2" using rp a1 by (rule adv_resp_eq)
      show ?thesis
      proof (cases "e \<noteq> 0")
        case True
        with pos rs ok rp a2 show ?thesis by (subst simps) simp
      next
        case False
        from "1.IH" [OF pos rs [symmetric] ok rp [symmetric] False a2]
        show ?thesis using pos rs ok rp False by (subst simps) simp
      qed
    qed
  qed
qed

lemma adv_read_async:
  "advances w w0 \<Longrightarrow>
   advances w (world_of (uwsgi_rados_read_async h aid ctx key tmo remains off w0))"
proof (induction h aid ctx key tmo remains off w0 rule: uwsgi_rados_read_async.induct)
  case (1 h aid ctx key tmo remains off w0)
  note simps = uwsgi_rados_read_async.simps [of h aid ctx key tmo remains off w0]
  show ?case
  proof (cases "0 < remains")
    case False
    with "1.prems" show ?thesis by (subst simps) simp
  next
    case pos: True
    show ?thesis
    proof (cases "uwsgi_rados_set_completion h aid w0")
      case (Crashed w1)
      with "1.prems" have "advances w w1" by (blast intro: adv_set_completion_eq)
      with pos Crashed show ?thesis by (subst simps) simp
    next
      case (Returned o1 w1)
      with "1.prems" have a1: "advances w w1" by (blast intro: adv_set_completion_eq)
      show ?thesis
      proof (cases o1)
        case None
        with pos Returned a1 show ?thesis by (subst simps) simp
      next
        case (Some urcb)
        obtain r w2 where ai:
          "rados_aio h (Op_read ctx key (UMIN remains 8192) (unat off)) urcb w1 = (r, w2)"
          by fastforce
        have a2: "advances w w2" using ai a1 by (rule adv_aio_eq)
        obtain rlen rep w3 where wc:
          "uwsgi_rados_wait_completion h r urcb tmo w2 = ((rlen, rep), w3)"
          by (metis surj_pair)
        have a3: "advances w w3" using wc a2 by (rule adv_wait_completion_eq)
        show ?thesis
        proof (cases "rlen \<le> 0")
          case True
          with pos Returned Some ai wc a3 show ?thesis by (subst simps) simp
        next
          case ok: False
          obtain e w4 where rp: "resp h (Write_body (reply_data rep)) w3 = (e, w4)" by fastforce
          have a4: "advances w w4" using rp a3 by (rule adv_resp_eq)
          show ?thesis
          proof (cases "e \<noteq> 0")
            case True
            with pos Returned Some ai wc ok rp a4 show ?thesis by (subst simps) simp
          next
            case False
            have e3: "(rlen, rep) = (rlen, rep)" by simp
            from "1.IH" [OF pos Returned Some ai [symmetric] wc [symmetric] e3 ok
                rp [symmetric] False a4]
            show ?thesis using pos Returned Some ai wc ok rp False by (subst simps) simp
          qed
        qed
      qed
    qed
  qed
qed

lemma adv_read:
  "advances w w0 \<Longrightarrow> advances w (world_of (uwsgi_rados_read h req ctx key remains tmo w0))"
  unfolding uwsgi_rados_read_def
  by (auto simp: split_def intro!: adv_read_sync adv_read_async)

lemma adv_consume_body:
  "advances w w0 \<Longrightarrow> advances w (propfind_consume_body h remains w0)"
proof (induction h remains w0 rule: propfind_consume_body.induct)
  case (1 h remains w0)
  note simps = propfind_consume_body.simps [of h remains w0]
  show ?case
  proof (cases "0 < remains")
    case False
    with "1.prems" show ?thesis by (subst simps) simp
  next
    case pos: True
    obtain x1 w1 where br: "uwsgi_request_body_read h (UMIN remains 32768) w0 = (x1, w1)"
      by fastforce
    have a1: "advances w w1" using br "1.prems" by (rule adv_body_read_eq)
    show ?thesis
    proof (cases x1)
      case Body_null
      with pos br a1 show ?thesis by (subst simps) simp
    next
      case Body_empty
      with pos br a1 show ?thesis by (subst simps) simp
    next
      case (Body_chunk body)
      from "1.IH" [OF pos br [symmetric] Body_chunk a1]
      show ?thesis using pos br Body_chunk by (subst simps) simp
    qed
  qed
qed

lemma adv_propfind_entries:
  "advances w w0 \<Longrightarrow> advances w (world_of (propfind_entries h aid ctx tmo ub es w0))"
proof (induction es arbitrary: ub w0)
  case Nil
  then show ?case by simp
next
  case (Cons entry es)
  show ?case
  proof (cases "stat_either h aid ctx entry tmo w0")
    case (Crashed w1)
    with Cons.prems have "advances w w1" by (blast intro: adv_stat_either_eq)
    with Crashed show ?thesis by simp
  next
    case (Returned res w1)
    with Cons.prems have a1: "advances w w1" by (blast intro: adv_stat_either_eq)
    obtain ret rep where res: "res = (ret, rep)" by fastforce
    show ?thesis
    proof (cases "ret < 0")
      case True
      with Returned res a1 show ?thesis by simp
    next
      case ok: False
      show ?thesis
      proof (cases "propfind_item_add h ub (''/'' @ entry) (reply_size rep) (reply_mtime rep)
                      (get_mime_type h entry)")
        case None
        with Returned res ok a1 show ?thesis by simp
      next
        case (Some ub1)
        obtain e w2 where rp: "resp h (Write_body ub1) w1 = (e, w2)" by fastforce
        have a2: "advances w w2" using rp a1 by (rule adv_resp_eq)
        show ?thesis
        proof (cases "e \<noteq> 0")
          case True
          with Returned res ok Some rp a2 show ?thesis by simp
        next
          case False
          from Cons.IH [OF a2, of "[]"]
          show ?thesis using Returned res ok Some rp False by simp
        qed
      qed
    qed
  qed
qed

lemma adv_list_open: "advances w w0 \<Longrightarrow> advances w (snd (rados_objects_list_open h ctx w0))"
  unfolding rados_objects_list_open_def by (auto simp: Let_def intro!: adv_emit)

lemma adv_propfind_finish: "advances w w0 \<Longrightarrow> advances w (propfind_finish h ub w0)"
  unfolding propfind_finish_def by (auto split: option.split intro!: adv_resp)

lemma adv_propfind_key: "advances w w0 \<Longrightarrow> advances w (propfind_key h k sz mtime ub w0)"
  unfolding propfind_key_def by (auto split: option.split intro!: adv_propfind_finish)

lemma adv_propfind_root:
  "advances w w0 \<Longrightarrow> advances w (world_of (propfind_root h req ctx tmo ub w0))"
  unfolding propfind_root_def
  by (auto simp: Let_def split_def outcome_case_proj split: option.split
        intro!: adv_propfind_finish adv_propfind_entries adv_list_open)

lemma adv_propfind:
  "advances w w0 \<Longrightarrow>
   advances w (world_of (uwsgi_rados_propfind h req ctx key sz mtime tmo w0))"
  unfolding uwsgi_rados_propfind_def
  by (auto simp: Let_def split_def split: option.split
        intro!: adv_resp adv_consume_body adv_propfind_key adv_propfind_root)

lemma adv_request_pipe: "advances w w0 \<Longrightarrow> advances w (world_of (request_pipe h req w0))"
  unfolding request_pipe_def
  by (auto simp: split_def split: option.split intro!: adv_emit adv_slot_update adv_sys_pipe)

lemma adv_request_options: "advances w w0 \<Longrightarrow> advances w (request_options h urmp w0)"
  unfolding request_options_def
  by (auto simp: split_def split: option.split intro!: adv_resp)

lemma adv_pool_create: "advances w w0 \<Longrightarrow> advances w (snd (rados_pool_create h cl name w0))"
  unfolding rados_pool_create_def by (auto simp: Let_def intro!: adv_emit)

lemma adv_uwsgi_40x:
  "advances w w0 \<Longrightarrow> advances w (uwsgi_403 w0)"
  "advances w w0 \<Longrightarrow> advances w (uwsgi_404 w0)"
  "advances w w0 \<Longrightarrow> advances w (uwsgi_405 w0)"
  "advances w w0 \<Longrightarrow> advances w (uwsgi_500 w0)"
  unfolding uwsgi_403_def uwsgi_404_def uwsgi_405_def uwsgi_500_def
  by (auto intro!: adv_emit)

lemma adv_request_get:
  "advances w w0 \<Longrightarrow> advances w (leave_world (request_get h req ctx filename tmo st w0))"
  unfolding request_get_def
  by (auto simp: split_def outcome_case_proj split: option.split
        intro!: adv_resp adv_read)

lemma adv_request_put:
  "advances w w0 \<Longrightarrow> advances w (leave_world (request_put h req ctx filename tmo w0))"
  unfolding request_put_def uwsgi_rados_put_def
  by (auto simp: split_def outcome_case_proj split: option.split
        intro!: adv_resp adv_put_loop adv_uwsgi_40x)

lemma adv_request_after_stat:
  "advances w w0 \<Longrightarrow>
   advances w (leave_world (request_after_stat h req urmp ctx filename tmo ret st w0))"
  unfolding request_after_stat_def
  by (simp add: split_def outcome_case_proj adv_resp adv_uwsgi_40x adv_delete adv_request_put
        adv_request_get adv_propfind split: option.split)

lemma adv_request_dispatch:
  "advances w w0 \<Longrightarrow>
   advances w (leave_world (request_dispatch h req urmp ctx filename tmo w0))"
  unfolding request_dispatch_def
  by (simp add: split_def outcome_case_proj adv_resp adv_uwsgi_40x adv_request_options
        adv_propfind adv_pool_create adv_request_after_stat adv_stat_either split: option.split)

lemma adv_request_end: "advances w w0 \<Longrightarrow> advances w (request_end h req w0)"
  unfolding request_end_def by (auto intro!: adv_sys_close)

lemma adv_request: "advances w w0 \<Longrightarrow> advances w (world_of (uwsgi_rados_request h req w0))"
proof -
  assume a: "advances w w0"
  have d: "advances w (world_of (case request_dispatch h req urmp ctx filename tmo w1 of
                    Crash_at w2 \<Rightarrow> Crashed w2
                  | Return_now r w2 \<Rightarrow> Returned r w2
                  | Goto_end w2 \<Rightarrow> Returned UWSGI_OK (request_end h req w2)))"
    if "advances w w1" for urmp ctx filename tmo w1
    using adv_request_dispatch [OF that, of h req urmp ctx filename tmo]
    by (cases "request_dispatch h req urmp ctx filename tmo w1") (auto intro!: adv_request_end)
  have p: "advances w (world_of (case request_pipe h req w0 of
                             Crashed w1 \<Rightarrow> Crashed w1
                           | Returned False w1 \<Rightarrow> Returned UWSGI_OK (uwsgi_500 w1)
                           | Returned True w1 \<Rightarrow>
                               (case request_dispatch h req urmp ctx filename tmo w1 of
                                     Crash_at w2 \<Rightarrow> Crashed w2
                                   | Return_now r w2 \<Rightarrow> Returned r w2
                                   | Goto_end w2 \<Rightarrow> Returned UWSGI_OK (request_end h req w2))))"
    for urmp ctx filename tmo
    using adv_request_pipe [OF a, of h req]
    by (cases "request_pipe h req w0") (auto intro!: d adv_uwsgi_40x split: bool.split)
  show ?thesis
    unfolding uwsgi_rados_request_def Let_def
    using a p
    by (auto split: option.split intro!: adv_emit adv_uwsgi_40x)
qed

lemma adv_do_step: "advances w w0 \<Longrightarrow> advances w (do_step h s w0)"
  by (cases s)
     (simp_all add: adv_request adv_delete adv_put_loop uwsgi_rados_put_def adv_async_stat adv_read
        adv_set_completion adv_async_cb adv_deliver)

lemma adv_run_steps: "advances w w0 \<Longrightarrow> advances w (run_steps h ss w0)"
  by (induction ss arbitrary: w0) (simp_all add: adv_do_step)

lemma unat_add_of_nat:
  fixes a :: u64
  assumes "unat a + n < 2 ^ 64"
  shows "unat (a + of_nat n) = unat a + n"
  using assms by (simp add: unat_word_ariths unat_of_nat)

section \<open>The I/O context of the store calls\<close>

lemma uses_only_refl [simp]: "uses_only ctx w w"
  by (simp add: uses_only_def)

lemma uses_only_events:
  assumes u: "uses_only ctx w w'" and e: "e \<in> set (new_events w w')" and c: "event_ctx e = Some c"
  shows "c = ctx"
proof -
  from u obtain evs where t: "trace w' = trace w @ evs"
    and a: "\<forall>e \<in> set evs. event_ctx e = None \<or> event_ctx e = Some ctx"
    unfolding uses_only_def by blast
  from t e have "e \<in> set evs" by (simp add: new_events_def)
  with a have "event_ctx e = None \<or> event_ctx e = Some ctx" by blast
  with c show ?thesis by simp
qed

lemma uses_only_fields [simp]:
  "uses_only ctx w (w0\<lparr>urio := u\<rparr>) = uses_only ctx w w0"
  "uses_only ctx w (w0\<lparr>heap := a\<rparr>) = uses_only ctx w w0"
  "uses_only ctx w (w0\<lparr>in_flight := b\<rparr>) = uses_only ctx w w0"
  "uses_only ctx w (w0\<lparr>objects := c\<rparr>) = uses_only ctx w w0"
  "uses_only ctx w (w0\<lparr>pools := d\<rparr>) = uses_only ctx w w0"
  "uses_only ctx w (w0\<lparr>open_fds := e\<rparr>) = uses_only ctx w w0"
  "uses_only ctx w (w0\<lparr>kpipes := f\<rparr>) = uses_only ctx w w0"
  "uses_only ctx w (w0\<lparr>req_body := g\<rparr>) = uses_only ctx w w0"
  "uses_only ctx w (w0\<lparr>now := k\<rparr>) = uses_only ctx w w0"
  "uses_only ctx w (w0\<lparr>uwsgi_apps := l\<rparr>) = uses_only ctx w w0"
  "uses_only ctx w (w0\<lparr>next_ioctx := m\<rparr>) = uses_only ctx w w0"
  by (simp_all add: uses_only_def)

lemma uo_emit:
  "uses_only ctx w w0 \<Longrightarrow> event_ctx e = None \<or> event_ctx e = Some ctx \<Longrightarrow>
   uses_only ctx w (emit e w0)"
  unfolding uses_only_def
  apply (elim exE conjE)
  subgoal for evs by (rule exI [of _ "evs @ [e]"]) auto
  done

lemma uo_slot_update: "uses_only ctx w w0 \<Longrightarrow> uses_only ctx w (slot_update i f w0)"
  by (simp add: slot_update_def)

lemma uo_exec: "uses_only ctx w w0 \<Longrightarrow> uses_only ctx w (snd (rados_exec op w0))"
  by (cases op) (auto simp: Let_def split: option.split)

lemma uo_sync:
  "uses_only ctx w w0 \<Longrightarrow> op_ctx op = ctx \<Longrightarrow> uses_only ctx w (snd (rados_sync h op w0))"
  unfolding rados_sync_def by (auto simp: Let_def intro!: uo_emit uo_exec)

lemma uo_aio:
  "uses_only ctx w w0 \<Longrightarrow> op_ctx op = ctx \<Longrightarrow> uses_only ctx w (snd (rados_aio h op urcb w0))"
  unfolding rados_aio_def by (auto simp: Let_def intro!: uo_emit)

lemma uo_list_open:
  "uses_only ctx w w0 \<Longrightarrow> uses_only ctx w (snd (rados_objects_list_open h ctx w0))"
  unfolding rados_objects_list_open_def by (auto simp: Let_def intro!: uo_emit)

lemma uo_set_completion:
  "uses_only ctx w w0 \<Longrightarrow> uses_only ctx w (world_of (uwsgi_rados_set_completion h aid w0))"
  unfolding uwsgi_rados_set_completion_def free_cb_def
  by (auto simp: Let_def intro!: uo_emit uo_slot_update)

lemma uo_sync_eq:
  "rados_sync h op w0 = (x, w1) \<Longrightarrow> uses_only ctx w w0 \<Longrightarrow> op_ctx op = ctx \<Longrightarrow>
   uses_only ctx w w1"
  using uo_sync [of ctx w w0 op h] by simp

lemma uo_aio_eq:
  "rados_aio h op urcb w0 = (x, w1) \<Longrightarrow> uses_only ctx w w0 \<Longrightarrow> op_ctx op = ctx \<Longrightarrow>
   uses_only ctx w w1"
  using uo_aio [of ctx w w0 op h urcb] by simp

lemma uo_sys_close: "uses_only ctx w w0 \<Longrightarrow> uses_only ctx w (sys_close fd w0)"
  unfolding sys_close_def by (auto intro!: uo_emit)

lemma uo_sys_write: "uses_only ctx w w0 \<Longrightarrow> uses_only ctx w (snd (sys_write fd w0))"
  unfolding sys_write_def by (auto intro!: uo_emit)

lemma uo_sys_read: "uses_only ctx w w0 \<Longrightarrow> uses_only ctx w (snd (sys_read fd w0))"
  unfolding sys_read_def by (auto intro!: uo_emit)

lemma uo_wait_read_hook: "uses_only ctx w w0 \<Longrightarrow> uses_only ctx w (snd (wait_read_hook fd tmo w0))"
  unfolding wait_read_hook_def by (auto simp: Let_def intro!: uo_emit)

lemma uo_sys_pipe: "uses_only ctx w w0 \<Longrightarrow> uses_only ctx w (snd (sys_pipe h w0))"
  unfolding sys_pipe_def by (auto split: option.split intro!: uo_emit)

lemma uo_free_cb: "uses_only ctx w w0 \<Longrightarrow> uses_only ctx w (free_cb urcb w0)"
  unfolding free_cb_def by (auto intro!: uo_emit)

lemma uo_async_cb: "uses_only ctx w w0 \<Longrightarrow> uses_only ctx w (uwsgi_rados_async_cb urcb w0)"
  unfolding uwsgi_rados_async_cb_def Let_def
  by (auto simp: split_def intro!: uo_free_cb uo_emit uo_sys_write)

lemma uo_release: "uses_only ctx w w0 \<Longrightarrow> uses_only ctx w (rados_aio_release i w0)"
  unfolding rados_aio_release_def by (auto intro!: uo_emit uo_slot_update)

lemma uo_complete: "uses_only ctx w w0 \<Longrightarrow> uses_only ctx w (rados_aio_complete h op urcb w0)"
  unfolding rados_aio_complete_def
  by (auto simp: split_def intro!: uo_async_cb uo_slot_update uo_exec)

lemma uo_deliver: "uses_only ctx w w0 \<Longrightarrow> uses_only ctx w (rados_aio_deliver h p w0)"
  unfolding rados_aio_deliver_def by (auto intro!: uo_complete)

lemma uo_progress: "uses_only ctx w w0 \<Longrightarrow> uses_only ctx w (rados_aio_progress h urcb w0)"
  unfolding rados_aio_progress_def by (auto split: option.split intro!: uo_deliver)

lemma uo_wait_completion:
  "uses_only ctx w w0 \<Longrightarrow> uses_only ctx w (snd (uwsgi_rados_wait_completion h ret urcb tmo w0))"
  unfolding uwsgi_rados_wait_completion_def
  by (auto simp: Let_def split_def split: option.split
        intro!: uo_free_cb uo_release uo_emit uo_sys_read uo_wait_read_hook uo_progress)

lemma uo_body_read: "uses_only ctx w w0 \<Longrightarrow> uses_only ctx w (snd (uwsgi_request_body_read h hint w0))"
  unfolding uwsgi_request_body_read_def by (auto simp: Let_def intro!: uo_emit)

lemma uo_resp: "uses_only ctx w w0 \<Longrightarrow> uses_only ctx w (snd (resp h c w0))"
  unfolding resp_def by (auto intro!: uo_emit)

lemma uo_delete:
  "uses_only ctx w w0 \<Longrightarrow> uses_only ctx w (world_of (uwsgi_rados_delete h req ctx key tmo w0))"
  unfolding uwsgi_rados_delete_def
  by (auto simp: split_def outcome_case_proj split: option.split
        intro!: uo_sync uo_set_completion uo_wait_completion uo_aio)

lemma uo_async_stat:
  "uses_only ctx w w0 \<Longrightarrow> uses_only ctx w (world_of (uwsgi_rados_async_stat h aid ctx key tmo w0))"
  unfolding uwsgi_rados_async_stat_def
  by (auto simp: split_def outcome_case_proj split: option.split
        intro!: uo_set_completion uo_wait_completion uo_aio)

lemma uo_stat_either:
  "uses_only ctx w w0 \<Longrightarrow> uses_only ctx w (world_of (stat_either h aid ctx key tmo w0))"
  unfolding stat_either_def
  by (auto simp: split_def intro!: uo_async_stat uo_sync)

lemma uo_body_read_eq:
  "uwsgi_request_body_read h hint w0 = (x, w1) \<Longrightarrow> uses_only ctx w w0 \<Longrightarrow> uses_only ctx w w1"
  using uo_body_read [of ctx w w0 h hint] by simp

lemma uo_set_completion_eq:
  "uwsgi_rados_set_completion h aid w0 = Returned x w1 \<Longrightarrow> uses_only ctx w w0 \<Longrightarrow> uses_only ctx w w1"
  "uwsgi_rados_set_completion h aid w0 = Crashed w1 \<Longrightarrow> uses_only ctx w w0 \<Longrightarrow> uses_only ctx w w1"
  using uo_set_completion [of ctx w w0 h aid] by simp_all

lemma uo_wait_completion_eq:
  "uwsgi_rados_wait_completion h ret urcb tmo w0 = (x, w1) \<Longrightarrow> uses_only ctx w w0 \<Longrightarrow> uses_only ctx w w1"
  using uo_wait_completion [of ctx w w0 h ret urcb tmo] by simp

lemma uo_resp_eq: "resp h c w0 = (x, w1) \<Longrightarrow> uses_only ctx w w0 \<Longrightarrow> uses_only ctx w w1"
  using uo_resp [of ctx w w0 h c] by simp

lemma uo_stat_either_eq:
  "stat_either h aid ctx key tmo w0 = Returned x w1 \<Longrightarrow> uses_only ctx w w0 \<Longrightarrow> uses_only ctx w w1"
  "stat_either h aid ctx key tmo w0 = Crashed w1 \<Longrightarrow> uses_only ctx w w0 \<Longrightarrow> uses_only ctx w w1"
  using uo_stat_either [of ctx w w0 h aid key tmo] by simp_all

lemma uo_put_loop:
  "uses_only ctx w w0 \<Longrightarrow>
   uses_only ctx w (world_of (uwsgi_rados_put_loop h req ctx key tmo remains off w0))"
proof (induction h req ctx key tmo remains off w0 rule: uwsgi_rados_put_loop.induct)
  case (1 h req ctx key tmo remains off w0)
  note simps = uwsgi_rados_put_loop.simps [of h req ctx key tmo remains off w0]
  show ?case
  proof (cases "0 < remains")
    case False
    with "1.prems" show ?thesis by (subst simps) simp
  next
    case pos: True
    obtain x1 w1 where br: "uwsgi_request_body_read h (UMIN remains 32768) w0 = (x1, w1)"
      by fastforce
    have a1: "uses_only ctx w w1" using br "1.prems" by (rule uo_body_read_eq)
    show ?thesis
    proof (cases x1)
      case Body_null
      with pos br a1 show ?thesis by (subst simps) simp
    next
      case Body_empty
      with pos br a1 show ?thesis by (subst simps) simp
    next
      case (Body_chunk body)
      show ?thesis
      proof (cases "async (uwsgi h) < 1")
        case sync: True
        obtain rep w2 where rs: "rados_sync h (Op_write_full ctx key body) w1 = (rep, w2)"
          by fastforce
        have a2: "uses_only ctx w w2" using rs a1 by (rule uo_sync_eq) simp
        show ?thesis
        proof (cases "reply_ret rep < 0")
          case True
          with pos br Body_chunk sync rs a2 show ?thesis by (subst simps) simp
        next
          case False
          from "1.IH"(1) [OF pos br [symmetric] Body_chunk sync rs [symmetric] False a2]
          show ?thesis using pos br Body_chunk sync rs False by (subst simps) simp
        qed
      next
        case async: False
        show ?thesis
        proof (cases "uwsgi_rados_set_completion h (async_id req) w1")
          case (Crashed w2)
          with a1 have "uses_only ctx w w2" by (blast intro: uo_set_completion_eq)
          with pos br Body_chunk async Crashed show ?thesis by (subst simps) simp
        next
          case (Returned o2 w2)
          with a1 have a2: "uses_only ctx w w2" by (blast intro: uo_set_completion_eq)
          show ?thesis
          proof (cases o2)
            case None
            with pos br Body_chunk async Returned a2 show ?thesis by (subst simps) simp
          next
            case (Some urcb)
            obtain r w3 where ai: "rados_aio h (Op_write_full ctx key body) urcb w2 = (r, w3)"
              by fastforce
            have a3: "uses_only ctx w w3" using ai a2 by (rule uo_aio_eq) simp
            obtain ret rep w4 where wc: "uwsgi_rados_wait_completion h r urcb tmo w3 = ((ret, rep), w4)"
              by (metis surj_pair)
            have a4: "uses_only ctx w w4" using wc a3 by (rule uo_wait_completion_eq)
            show ?thesis
            proof (cases "ret < 0")
              case True
              with pos br Body_chunk async Returned Some ai wc a4 show ?thesis
                by (subst simps) simp
            next
              case False
              have e4: "(ret, rep) = (ret, rep)" by simp
              from "1.IH"(2) [OF pos br [symmetric] Body_chunk async Returned Some ai [symmetric]
                  wc [symmetric] e4 False a4]
              show ?thesis using pos br Body_chunk async Returned Some ai wc False
                by (subst simps) simp
            qed
          qed
        qed
      qed
    qed
  qed
qed

lemma uo_read_sync:
  "uses_only ctx w w0 \<Longrightarrow> uses_only ctx w (snd (uwsgi_rados_read_sync h ctx key remains off w0))"
proof (induction h ctx key remains off w0 rule: uwsgi_rados_read_sync.induct)
  case (1 h ctx key remains off w0)
  note simps = uwsgi_rados_read_sync.simps [of h ctx key remains off w0]
  show ?case
  proof (cases "0 < remains")
    case False
    with "1.prems" show ?thesis by (subst simps) simp
  next
    case pos: True
    obtain rep w1 where rs:
      "rados_sync h (Op_read ctx key (UMIN remains 8192) (unat off)) w0 = (rep, w1)"
      by fastforce
    have a1: "uses_only ctx w w1" using rs "1.prems" by (rule uo_sync_eq) simp
    show ?thesis
    proof (cases "reply_ret rep \<le> 0")
      case True
      with pos rs a1 show ?thesis by (subst simps) simp
    next
      case ok: False
      obtain e w2 where rp: "resp h (Write_body (reply_data rep)) w1 = (e, w2)" by fastforce
      have a2: "uses_only ctx w w2" using rp a1 by (rule uo_resp_eq)
      show ?thesis
      proof (cases "e \<noteq> 0")
        case True
        with pos rs ok rp a2 show ?thesis by (subst simps) simp
      next
        case False
        from "1.IH" [OF pos rs [symmetric] ok rp [symmetric] False a2]
        show ?thesis using pos rs ok rp False by (subst simps) simp
      qed
    qed
  qed
qed

lemma uo_read_async:
  "uses_only ctx w w0 \<Longrightarrow>
   uses_only ctx w (world_of (uwsgi_rados_read_async h aid ctx key tmo remains off w0))"
proof (induction h aid ctx key tmo remains off w0 rule: uwsgi_rados_read_async.induct)
  case (1 h aid ctx key tmo remains off w0)
  note simps = uwsgi_rados_read_async.simps [of h aid ctx key tmo remains off w0]
  show ?case
  proof (cases "0 < remains")
    case False
    with "1.prems" show ?thesis by (subst simps) simp
  next
    case pos: True
    show ?thesis
    proof (cases "uwsgi_rados_set_completion h aid w0")
      case (Crashed w1)
      with "1.prems" have "uses_only ctx w w1" by (blast intro: uo_set_completion_eq)
      with pos Crashed show ?thesis by (subst simps) simp
    next
      case (Returned o1 w1)
      with "1.prems" have a1: "uses_only ctx w w1" by (blast intro: uo_set_completion_eq)
      show ?thesis
      proof (cases o1)
        case None
        with pos Returned a1 show ?thesis by (subst simps) simp
      next
        case (Some urcb)
        obtain r w2 where ai:
          "rados_aio h (Op_read ctx key (UMIN remains 8192) (unat off)) urcb w1 = (r, w2)"
          by fastforce
        have a2: "uses_only ctx w w2" using ai a1 by (rule uo_aio_eq) simp
        obtain rlen rep w3 where wc:
          "uwsgi_rados_wait_completion h r urcb tmo w2 = ((rlen, rep), w3)"
          by (metis surj_pair)
        have a3: "uses_only ctx w w3" using wc a2 by (rule uo_wait_completion_eq)
        show ?thesis
        proof (cases "rlen \<le> 0")
          case True
          with pos Returned Some ai wc a3 show ?thesis by (subst simps) simp
        next
          case ok: False
          obtain e w4 where rp: "resp h (Write_body (reply_data rep)) w3 = (e, w4)" by fastforce
          have a4: "uses_only ctx w w4" using rp a3 by (rule uo_resp_eq)
          show ?thesis
          proof (cases "e \<noteq> 0")
            case True
            with pos Returned Some ai wc ok rp a4 show ?thesis by (subst simps) simp
          next
            case False
            have e3: "(rlen, rep) = (rlen, rep)" by simp
            from "1.IH" [OF pos Returned Some ai [symmetric] wc [symmetric] e3 ok
                rp [symmetric] False a4]
            show ?thesis using pos Returned Some ai wc ok rp False by (subst simps) simp
          qed
        qed
      qed
    qed
  qed
qed

lemma uo_read:
  "uses_only ctx w w0 \<Longrightarrow> uses_only ctx w (world_of (uwsgi_rados_read h req ctx key remains tmo w0))"
  unfolding uwsgi_rados_read_def
  by (auto simp: split_def intro!: uo_read_sync uo_read_async)

lemma uo_consume_body:
  "uses_only ctx w w0 \<Longrightarrow> uses_only ctx w (propfind_consume_body h remains w0)"
proof (induction h remains w0 rule: propfind_consume_body.induct)
  case (1 h remains w0)
  note simps = propfind_consume_body.simps [of h remains w0]
  show ?case
  proof (cases "0 < remains")
    case False
    with "1.prems" show ?thesis by (subst simps) simp
  next
    case pos: True
    obtain x1 w1 where br: "uwsgi_request_body_read h (UMIN remains 32768) w0 = (x1, w1)"
      by fastforce
    have a1: "uses_only ctx w w1" using br "1.prems" by (rule uo_body_read_eq)
    show ?thesis
    proof (cases x1)
      case Body_null
      with pos br a1 show ?thesis by (subst simps) simp
    next
      case Body_empty
      with pos br a1 show ?thesis by (subst simps) simp
    next
      case (Body_chunk body)
      from "1.IH" [OF pos br [symmetric] Body_chunk a1]
      show ?thesis using pos br Body_chunk by (subst simps) simp
    qed
  qed
qed

lemma uo_propfind_entries:
  "uses_only ctx w w0 \<Longrightarrow> uses_only ctx w (world_of (propfind_entries h aid ctx tmo ub es w0))"
proof (induction es arbitrary: ub w0)
  case Nil
  then show ?case by simp
next
  case (Cons entry es)
  show ?case
  proof (cases "stat_either h aid ctx entry tmo w0")
    case (Crashed w1)
    with Cons.prems have "uses_only ctx w w1" by (blast intro: uo_stat_either_eq)
    with Crashed show ?thesis by simp
  next
    case (Returned res w1)
    with Cons.prems have a1: "uses_only ctx w w1" by (blast intro: uo_stat_either_eq)
    obtain ret rep where res: "res = (ret, rep)" by fastforce
    show ?thesis
    proof (cases "ret < 0")
      case True
      with Returned res a1 show ?thesis by simp
    next
      case ok: False
      show ?thesis
      proof (cases "propfind_item_add h ub (''/'' @ entry) (reply_size rep) (reply_mtime rep)
                      (get_mime_type h entry)")
        case None
        with Returned res ok a1 show ?thesis by simp
      next
        case (Some ub1)
        obtain e w2 where rp: "resp h (Write_body ub1) w1 = (e, w2)" by fastforce
        have a2: "uses_only ctx w w2" using rp a1 by (rule uo_resp_eq)
        show ?thesis
        proof (cases "e \<noteq> 0")
          case True
          with Returned res ok Some rp a2 show ?thesis by simp
        next
          case False
          from Cons.IH [OF a2, of "[]"]
          show ?thesis using Returned res ok Some rp False by simp
        qed
      qed
    qed
  qed
qed

lemma uo_propfind_finish: "uses_only ctx w w0 \<Longrightarrow> uses_only ctx w (propfind_finish h ub w0)"
  unfolding propfind_finish_def by (auto split: option.split intro!: uo_resp)

lemma uo_propfind_key: "uses_only ctx w w0 \<Longrightarrow> uses_only ctx w (propfind_key h k sz mtime ub w0)"
  unfolding propfind_key_def by (auto split: option.split intro!: uo_propfind_finish)

lemma uo_propfind_root:
  "uses_only ctx w w0 \<Longrightarrow> uses_only ctx w (world_of (propfind_root h req ctx tmo ub w0))"
  unfolding propfind_root_def
  by (auto simp: Let_def split_def outcome_case_proj split: option.split
        intro!: uo_propfind_finish uo_propfind_entries uo_list_open)

lemma uo_propfind:
  "uses_only ctx w w0 \<Longrightarrow>
   uses_only ctx w (world_of (uwsgi_rados_propfind h req ctx key sz mtime tmo w0))"
  unfolding uwsgi_rados_propfind_def
  by (auto simp: Let_def split_def split: option.split
        intro!: uo_resp uo_consume_body uo_propfind_key uo_propfind_root)

lemma uo_request_pipe: "uses_only ctx w w0 \<Longrightarrow> uses_only ctx w (world_of (request_pipe h req w0))"
  unfolding request_pipe_def
  by (auto simp: split_def split: option.split intro!: uo_emit uo_slot_update uo_sys_pipe)

lemma uo_request_options: "uses_only ctx w w0 \<Longrightarrow> uses_only ctx w (request_options h urmp w0)"
  unfolding request_options_def
  by (auto simp: split_def split: option.split intro!: uo_resp)

lemma uo_pool_create: "uses_only ctx w w0 \<Longrightarrow> uses_only ctx w (snd (rados_pool_create h cl name w0))"
  unfolding rados_pool_create_def by (auto simp: Let_def intro!: uo_emit)

lemma uo_uwsgi_40x:
  "uses_only ctx w w0 \<Longrightarrow> uses_only ctx w (uwsgi_403 w0)"
  "uses_only ctx w w0 \<Longrightarrow> uses_only ctx w (uwsgi_404 w0)"
  "uses_only ctx w w0 \<Longrightarrow> uses_only ctx w (uwsgi_405 w0)"
  "uses_only ctx w w0 \<Longrightarrow> uses_only ctx w (uwsgi_500 w0)"
  unfolding uwsgi_403_def uwsgi_404_def uwsgi_405_def uwsgi_500_def
  by (auto intro!: uo_emit)

lemma uo_request_get:
  "uses_only ctx w w0 \<Longrightarrow> uses_only ctx w (leave_world (request_get h req ctx filename tmo st w0))"
  unfolding request_get_def
  by (auto simp: split_def outcome_case_proj split: option.split
        intro!: uo_resp uo_read)

lemma uo_request_put:
  "uses_only ctx w w0 \<Longrightarrow> uses_only ctx w (leave_world (request_put h req ctx filename tmo w0))"
  unfolding request_put_def uwsgi_rados_put_def
  by (auto simp: split_def outcome_case_proj split: option.split
        intro!: uo_resp uo_put_loop uo_uwsgi_40x)

lemma uo_request_after_stat:
  "uses_only ctx w w0 \<Longrightarrow>
   uses_only ctx w (leave_world (request_after_stat h req urmp ctx filename tmo ret st w0))"
  unfolding request_after_stat_def
  by (simp add: split_def outcome_case_proj uo_resp uo_uwsgi_40x uo_delete uo_request_put
        uo_request_get uo_propfind split: option.split)

lemma uo_request_dispatch:
  "uses_only ctx w w0 \<Longrightarrow>
   uses_only ctx w (leave_world (request_dispatch h req urmp ctx filename tmo w0))"
  unfolding request_dispatch_def
  by (simp add: split_def outcome_case_proj uo_resp uo_uwsgi_40x uo_request_options
        uo_propfind uo_pool_create uo_request_after_stat uo_stat_either split: option.split)

lemma uo_request_end: "uses_only ctx w w0 \<Longrightarrow> uses_only ctx w (request_end h req w0)"
  unfolding request_end_def by (auto intro!: uo_sys_close)

lemma uo_request:
  assumes "routed h req w a ctx wp"
  shows "uses_only ctx w (world_of (uwsgi_rados_request h req w))"
proof -
  from assms have "request_pipe h req w = Returned True wp" by (simp add: routed_def)
  with uo_request_pipe [of ctx w w h req] have p: "uses_only ctx w wp" by simp
  show ?thesis
    using uo_request_dispatch [OF p, of h req "responder1 (uwsgi_apps w ! a)"
        "request_filename req (uwsgi_apps w ! a)"
        "request_timeout h (responder1 (uwsgi_apps w ! a))"]
    unfolding request_routed [OF assms]
    by (cases "request_dispatch h req (responder1 (uwsgi_apps w ! a)) ctx
                 (request_filename req (uwsgi_apps w ! a))
                 (request_timeout h (responder1 (uwsgi_apps w ! a))) wp")
       (auto intro!: uo_request_end)
qed

lemma stat_either_crashed:
  assumes "stat_either h aid ctx key tmo w = Crashed wc"
  shows "0 < async (uwsgi h) \<and>
         (length (urio w) \<le> aid \<or>
          create_completion_ret h \<lparr>cb_rid = rid (urio w ! aid) + 1, cb_urio = aid\<rparr> < 0)"
  using assms
  by (auto simp: stat_either_def uwsgi_rados_async_stat_def uwsgi_rados_set_completion_def
        Let_def slot_update_def split: if_splits prod.splits)

lemma stat_is_first_store_op:
  assumes rt: "routed h req w a ctx wp"
    and m: "req_method req \<noteq> ''OPTIONS''" "req_method req \<noteq> ''MKCOL''" "path_info req \<noteq> ''/''"
  shows "(0 < async (uwsgi h) \<and>
          create_completion_ret h
            \<lparr>cb_rid = rid (urio wp ! async_id req) + 1, cb_urio = async_id req\<rparr> < 0 \<and>
          (\<exists>w'. uwsgi_rados_request h req w = Crashed w')) \<or>
         (\<exists>e es. store_ops (new_events w (world_of (uwsgi_rados_request h req w))) = e # es \<and>
                  is_stat_of ctx (request_filename req (uwsgi_apps w ! a)) e)"
proof -
  let ?fn = "request_filename req (uwsgi_apps w ! a)"
  let ?urmp = "responder1 (uwsgi_apps w ! a)"
  let ?tmo = "request_timeout h ?urmp"
  show ?thesis
  proof (cases "stat_either h (async_id req) ctx ?fn ?tmo wp")
    case (Crashed wc)
    then have c: "uwsgi_rados_request h req w = Crashed wc"
      using m by (simp add: request_routed [OF rt] request_dispatch_def uwsgi_strncmp_def)
    from stat_either_crashed [OF Crashed] routed_ready [OF rt]
    have "0 < async (uwsgi h) \<and>
          create_completion_ret h
            \<lparr>cb_rid = rid (urio wp ! async_id req) + 1, cb_urio = async_id req\<rparr> < 0"
      by (auto simp: slot_ready_def pipe_ready_def)
    with c show ?thesis by blast
  next
    case (Returned res ws)
    obtain ret st where res: "res = (ret, st)" by fastforce
    from stat_either_frame [OF Returned] obtain e where
      e: "store_ops (trace ws) = store_ops (trace wp) @ [e]" "is_stat_of ctx ?fn e"
      by blast
    from rt have f0: "store_ops (trace wp) = store_ops (trace w)"
      using routed_frame by (simp add: same_store_def)
    define wl where "wl = leave_world (request_after_stat h req ?urmp ctx ?fn ?tmo ret st ws)"
    define wf where "wf = world_of (uwsgi_rados_request h req w)"
    from rt have "request_pipe h req w = Returned True wp" by (simp add: routed_def)
    with uo_request_pipe [of ctx w w h req] have u0: "uses_only ctx w wp" by simp
    from Returned u0 have u1: "uses_only ctx w ws" by (rule uo_stat_either_eq(1))
    have u2: "uses_only ctx ws wl" unfolding wl_def by (rule uo_request_after_stat) simp
    have "wf = wl \<or> wf = request_end h req wl"
      unfolding wf_def wl_def using Returned res m
      by (simp add: request_routed [OF rt] request_dispatch_def uwsgi_strncmp_def
            split: leave.split)
    with u2 uo_request_end [OF u2, of h req] have u3: "uses_only ctx ws wf" by auto
    from u1 obtain evs1 where t1: "trace ws = trace w @ evs1" unfolding uses_only_def by blast
    from u3 obtain evs2 where t2: "trace wf = trace ws @ evs2" unfolding uses_only_def by blast
    have s1: "store_ops evs1 = [e]" using e(1) f0 t1 by simp
    have "new_events w wf = evs1 @ evs2" by (simp add: new_events_def t1 t2)
    then have "store_ops (new_events w wf) = e # store_ops evs2" by (simp add: s1)
    with e(2) show ?thesis unfolding wf_def by blast
  qed
qed

section \<open>A PUT with no body\<close>

lemma put_empty_works:
  assumes cl: "post_cl req = 0" and rt: "routed h req w a ctx wp"
    and put: "req_method req = ''PUT''"
    and perm: "allow_put (responder1 (uwsgi_apps w ! a)) \<noteq> None"
    and path: "path_info req \<noteq> ''/''" and wk: "store_works h"
  shows "\<exists>w' es. uwsgi_rados_request h req w = Returned UWSGI_OK w' \<and>
             answers (trace w') = answers (trace w) @ [Prepare_headers ''201 Created''] \<and>
             store_ops (trace w') = store_ops (trace w) @ es \<and>
             (case map_of (objects w) (ioctx_pool ctx, request_filename req (uwsgi_apps w ! a)) of
                None \<Rightarrow> \<exists>e. es = [e] \<and> is_stat_of ctx (request_filename req (uwsgi_apps w ! a)) e
              | Some ob \<Rightarrow>
                  \<exists>e d. es = [e, d] \<and> is_stat_of ctx (request_filename req (uwsgi_apps w ! a)) e \<and>
                        is_remove_of ctx (request_filename req (uwsgi_apps w ! a)) d) \<and>
             map_of (objects w') (ioctx_pool ctx, request_filename req (uwsgi_apps w ! a)) = None \<and>
             (\<forall>req2 a2 ctx2 wp2.
                routed h req2 w' a2 ctx2 wp2 \<and> req_method req2 = ''GET'' \<and> path_info req2 \<noteq> ''/'' \<and>
                ioctx_pool ctx2 = ioctx_pool ctx \<and>
                request_filename req2 (uwsgi_apps w' ! a2) = request_filename req (uwsgi_apps w ! a) \<longrightarrow>
                answers (trace (world_of (uwsgi_rados_request h req2 w'))) =
                  answers (trace w') @ [Uwsgi_404])"
proof -
  let ?fn = "request_filename req (uwsgi_apps w ! a)"
  let ?urmp = "responder1 (uwsgi_apps w ! a)"
  let ?tmo = "request_timeout h ?urmp"
  from rt have f0: "same_store w wp" by (rule routed_frame)
  from rt have rdy: "slot_ready h (async_id req) wp" by (rule routed_ready)
  from perm obtain ap where ap: "allow_put ?urmp = Some ap" by auto
  have f2: "\<And>x. same_store x (request_end h req x)" by (rule request_end_frame)
  have pb: "\<And>x. request_put h req ctx ?fn ?tmo x = Goto_end (emit (Resp (Prepare_headers ''201 Created'')) x)"
    by (simp add: request_put_def put_no_body [OF cl] resp_def)
  from stat_either_works [OF wk rdy, of ctx ?fn ?tmo] obtain ws e where
    st: "stat_either h (async_id req) ctx ?fn ?tmo wp =
           Returned (case map_of (objects wp) (ioctx_pool ctx, ?fn) of
                       None \<Rightarrow> (- ENOENT, reply (- ENOENT))
                     | Some ob \<Rightarrow> (0, \<lparr>reply_ret = 0, reply_size = length (obj_data ob),
                                        reply_mtime = obj_mtime ob, reply_data = []\<rparr>)) ws"
    and fs: "objects ws = objects wp" "answers (trace ws) = answers (trace wp)"
      "store_ops (trace ws) = store_ops (trace wp) @ [e]" "is_stat_of ctx ?fn e"
      "slot_ready h (async_id req) ws"
    by blast
  define w' where "w' = world_of (uwsgi_rados_request h req w)"
  have main: "\<exists>es. uwsgi_rados_request h req w = Returned UWSGI_OK w' \<and>
             answers (trace w') = answers (trace w) @ [Prepare_headers ''201 Created''] \<and>
             store_ops (trace w') = store_ops (trace w) @ es \<and>
             (case map_of (objects w) (ioctx_pool ctx, ?fn) of
                None \<Rightarrow> \<exists>e. es = [e] \<and> is_stat_of ctx ?fn e
              | Some ob \<Rightarrow> \<exists>e d. es = [e, d] \<and> is_stat_of ctx ?fn e \<and> is_remove_of ctx ?fn d) \<and>
             map_of (objects w') (ioctx_pool ctx, ?fn) = None"
  proof (cases "map_of (objects w) (ioctx_pool ctx, ?fn)")
    case None
    with f0 have m: "map_of (objects wp) (ioctx_pool ctx, ?fn) = None" by (simp add: same_store_def)
    have eq: "uwsgi_rados_request h req w =
            Returned UWSGI_OK (request_end h req (emit (Resp (Prepare_headers ''201 Created'')) ws))"
      using rt put ap path m st
      by (simp add: request_routed request_dispatch_def uwsgi_strncmp_def
            request_after_stat_def pb ENOENT_def)
    show ?thesis
      apply (rule exI [of _ "[e]"])
      using None f0 fs m f2 [of "emit (Resp (Prepare_headers ''201 Created'')) ws"]
      unfolding w'_def eq by (simp add: same_store_def)
  next
    case (Some ob)
    with f0 have m: "map_of (objects wp) (ioctx_pool ctx, ?fn) = Some ob" by (simp add: same_store_def)
    then have m': "map_of (objects ws) (ioctx_pool ctx, ?fn) = Some ob" by (simp add: fs)
    from delete_works [OF wk fs(5) m', of ?tmo] obtain wd d where
      dl: "uwsgi_rados_delete h req ctx ?fn ?tmo ws = Returned 0 wd"
      and fd: "objects wd = filter (\<lambda>p. fst p \<noteq> (ioctx_pool ctx, ?fn)) (objects ws)"
        "answers (trace wd) = answers (trace ws)"
        "store_ops (trace wd) = store_ops (trace ws) @ [d]" "is_remove_of ctx ?fn d"
      by blast
    have eq: "uwsgi_rados_request h req w =
            Returned UWSGI_OK (request_end h req (emit (Resp (Prepare_headers ''201 Created'')) wd))"
      using rt put ap path m st dl
      by (simp add: request_routed request_dispatch_def uwsgi_strncmp_def
            request_after_stat_def pb)
    show ?thesis
      apply (rule exI [of _ "[e, d]"])
      using Some f0 fs fd f2 [of "emit (Resp (Prepare_headers ''201 Created'')) wd"]
      unfolding w'_def eq by (simp add: same_store_def map_of_filter_out)
  qed
  have get: "\<forall>req2 a2 ctx2 wp2.
                routed h req2 w' a2 ctx2 wp2 \<and> req_method req2 = ''GET'' \<and> path_info req2 \<noteq> ''/'' \<and>
                ioctx_pool ctx2 = ioctx_pool ctx \<and>
                request_filename req2 (uwsgi_apps w' ! a2) = ?fn \<longrightarrow>
                answers (trace (world_of (uwsgi_rados_request h req2 w'))) =
                  answers (trace w') @ [Uwsgi_404]"
  proof (intro allI impI)
    fix req2 a2 ctx2 wp2
    assume g: "routed h req2 w' a2 ctx2 wp2 \<and> req_method req2 = ''GET'' \<and> path_info req2 \<noteq> ''/'' \<and>
                ioctx_pool ctx2 = ioctx_pool ctx \<and>
                request_filename req2 (uwsgi_apps w' ! a2) = ?fn"
    with main have "map_of (objects w') (ioctx_pool ctx2, request_filename req2 (uwsgi_apps w' ! a2)) = None"
      by auto
    with g show "answers (trace (world_of (uwsgi_rados_request h req2 w'))) =
                  answers (trace w') @ [Uwsgi_404]"
      using get_missing_works [OF _ _ _ wk] by blast
  qed
  from main get show ?thesis by blast
qed

lemma put_empty_stat_failed:
  assumes cl: "post_cl req = 0" and rt: "routed h req w a ctx wp"
    and put: "req_method req = ''PUT''"
    and perm: "allow_put (responder1 (uwsgi_apps w ! a)) \<noteq> None"
    and path: "path_info req \<noteq> ''/''"
    and st: "stat_either h (async_id req) ctx (request_filename req (uwsgi_apps w ! a))
               (request_timeout h (responder1 (uwsgi_apps w ! a))) wp = Returned (ret, s) ws"
    and ne: "ret \<noteq> 0"
  shows "\<exists>w' e. uwsgi_rados_request h req w = Returned UWSGI_OK w' \<and>
             answers (trace w') = answers (trace w) @ [Prepare_headers ''201 Created''] \<and>
             store_ops (trace w') = store_ops (trace w) @ [e] \<and>
             is_stat_of ctx (request_filename req (uwsgi_apps w ! a)) e \<and>
             objects w' = objects w"
proof -
  let ?fn = "request_filename req (uwsgi_apps w ! a)"
  let ?urmp = "responder1 (uwsgi_apps w ! a)"
  let ?tmo = "request_timeout h ?urmp"
  let ?w' = "request_end h req (emit (Resp (Prepare_headers ''201 Created'')) ws)"
  from rt have f0: "same_store w wp" by (rule routed_frame)
  from perm obtain ap where ap: "allow_put ?urmp = Some ap" by auto
  have pb: "request_put h req ctx ?fn ?tmo ws = Goto_end (emit (Resp (Prepare_headers ''201 Created'')) ws)"
    by (simp add: request_put_def put_no_body [OF cl] resp_def)
  have eq: "uwsgi_rados_request h req w = Returned UWSGI_OK ?w'"
    using rt put ap path st ne
    by (simp add: request_routed request_dispatch_def uwsgi_strncmp_def
          request_after_stat_def pb)
  from stat_either_frame [OF st] obtain e where
    fs: "objects ws = objects wp" "answers (trace ws) = answers (trace wp)"
      "store_ops (trace ws) = store_ops (trace wp) @ [e]" "is_stat_of ctx ?fn e"
    by blast
  have f2: "same_store (emit (Resp (Prepare_headers ''201 Created'')) ws) ?w'"
    by (rule request_end_frame)
  show ?thesis
    apply (rule exI [of _ ?w'], rule exI [of _ e])
    using eq f0 fs f2 by (simp add: same_store_def)
qed

lemma put_root_refused:
  assumes rt: "routed h req w a ctx wp" and put: "req_method req = ''PUT''"
    and path: "path_info req = ''/''"
  shows "\<exists>w'. uwsgi_rados_request h req w = Returned UWSGI_OK w' \<and>
             answers (trace w') = answers (trace w) @ [Uwsgi_405] \<and>
             store_ops (trace w') = store_ops (trace w) \<and> objects w' = objects w"
proof -
  let ?w' = "request_end h req (uwsgi_405 wp)"
  from rt have f0: "same_store w wp" by (rule routed_frame)
  have eq: "uwsgi_rados_request h req w = Returned UWSGI_OK ?w'"
    using rt put path
    by (simp add: request_routed request_dispatch_def uwsgi_strncmp_def)
  have f2: "same_store (uwsgi_405 wp) ?w'" by (rule request_end_frame)
  show ?thesis
    apply (rule exI [of _ ?w'])
    using eq f0 f2 by (simp add: same_store_def uwsgi_405_def)
qed

section \<open>The claims\<close>

subsection \<open>C1: a body of more than one chunk\<close>

text \<open>
  C1. \<open>uwsgi_rados_put\<close> reads the body in chunks of at most 32 KiB and issues one
  \<open>rados_write_full\<close> per chunk, but \<open>write_full\<close> takes no offset (the \<open>off\<close> the loop keeps is
  never used): each chunk replaces the object. After the PUT of a body \<open>c1 @ c2\<close> of more
  than 32 KiB has returned 0, the object holds the last chunk \<open>c2\<close> alone, and reading the
  length of the body back from it gives \<open>c2\<close>, not the body
\<close>

theorem put_keeps_only_last_chunk:
  assumes sync: "async (uwsgi h) < 1" and nofault: "\<forall>op. 0 \<le> rados_fault h op"
    and reads: "\<forall>s. \<not> body_read_fails h s"
    and body: "req_body w = c1 @ c2" and c1: "length c1 = 32768"
    and c2: "c2 \<noteq> []" "length c2 \<le> 32768"
    and cl: "post_cl req = length c1 + length c2"
  shows "\<exists>w'. uwsgi_rados_put h req ctx key tmo w = Returned 0 w' \<and>
           map_of (objects w') (ioctx_pool ctx, key) = Some \<lparr>obj_data = c2, obj_mtime = now w\<rparr> \<and>
           store_ops (trace w') = store_ops (trace w) @
             [Rados_sync (Op_write_full ctx key c1), Rados_sync (Op_write_full ctx key c2)] \<and>
           reply_data (fst (rados_exec (Op_read ctx key (post_cl req) 0) w')) = c2 \<and>
           c2 \<noteq> c1 @ c2"
proof -
  have u1: "UMIN (32768 + length c2) 32768 = 32768" using c2 by (simp add: UMIN_def)
  have u2: "UMIN (length c2) 32768 = length c2" using c2 by (simp add: UMIN_def)
  have nf: "\<And>op. \<not> rados_fault h op < 0" using nofault by (simp add: not_less)
  have "\<exists>w'. uwsgi_rados_put h req ctx key tmo w = Returned 0 w' \<and>
           map_of (objects w') (ioctx_pool ctx, key) = Some \<lparr>obj_data = c2, obj_mtime = now w\<rparr> \<and>
           store_ops (trace w') = store_ops (trace w) @
             [Rados_sync (Op_write_full ctx key c1), Rados_sync (Op_write_full ctx key c2)]"
    unfolding uwsgi_rados_put_def cl c1
    using sync reads c2
    by (simp add: uwsgi_rados_put_loop.simps uwsgi_request_body_read_def rados_sync_def Let_def
          reply_def u1 u2 body c1 nf)
  then obtain w' where
    p: "uwsgi_rados_put h req ctx key tmo w = Returned 0 w'"
    and m: "map_of (objects w') (ioctx_pool ctx, key) = Some \<lparr>obj_data = c2, obj_mtime = now w\<rparr>"
    and s: "store_ops (trace w') = store_ops (trace w) @
             [Rados_sync (Op_write_full ctx key c1), Rados_sync (Op_write_full ctx key c2)]"
    by blast
  have rd: "reply_data (fst (rados_exec (Op_read ctx key (post_cl req) 0) w')) = c2"
    using m by (simp add: Let_def cl)
  have ne: "c2 \<noteq> c1 @ c2" using c1 by auto
  from p m s rd ne show ?thesis by blast
qed

text \<open>
  C1, witness. A body of 32 KiB of \<open>a\<close> and one \<open>b\<close>: the object is \<open>b\<close>
\<close>

theorem put_keeps_only_last_chunk_witness:
  "\<exists>w'. uwsgi_rados_put host_sync (http_request ''PUT'' ''/r/foo'' 32769) ctx1 ''/foo'' 30
            ((mounted host_sync mount_rw)\<lparr>req_body := big_body\<rparr>) = Returned 0 w' \<and>
         map_of (objects w') (''p1'', ''/foo'') = Some \<lparr>obj_data = ''b'', obj_mtime = 50\<rparr>"
proof -
  let ?req = "http_request ''PUT'' ''/r/foo'' 32769"
  let ?w = "(mounted host_sync mount_rw)\<lparr>req_body := big_body\<rparr>"
  have sync: "async (uwsgi host_sync) < 1" by code_simp
  have nofault: "\<forall>op. 0 \<le> rados_fault host_sync op" by (simp add: host_sync_def)
  have reads: "\<forall>s. \<not> body_read_fails host_sync s" by (simp add: host_sync_def)
  have body: "req_body ?w = replicate 32768 CHR ''a'' @ ''b''" by (simp add: big_body_def)
  have c1: "length (replicate 32768 CHR ''a'') = 32768" by simp
  have c2: "''b'' \<noteq> []" "length ''b'' \<le> 32768" by simp_all
  have cl: "post_cl ?req = length (replicate 32768 CHR ''a'') + length ''b''"
    by (simp add: http_request_def)
  have "now (mounted host_sync mount_rw) = 50" by code_simp
  then have n: "now ?w = 50" by simp
  have p: "ioctx_pool ctx1 = ''p1''" by code_simp
  from put_keeps_only_last_chunk [OF sync nofault reads body c1 c2 cl, of ctx1 "''/foo''" 30]
  show ?thesis unfolding n p by blast
qed

subsection \<open>C2: one I/O context per thread\<close>

text \<open>
  C2. With more than one thread, a mount opens one I/O context per thread, all different.
  A request that resolves to the mount (other mounts may have followed), served by the
  thread \<open>async_id\<close> (the id the host gives the core that handles the request), makes every
  call of \<open>uwsgi_rados_request\<close> to the store that takes an I/O context on the context at
  that index of the array, and none on the context of another thread. The handler does use it: unless the method is OPTIONS
  or MKCOL or the path is \<open>/\<close>, its first call to the store is the stat of the file name on
  that context; the one exception is async mode when the completion of that stat cannot be
  created, where the worker dies on the NULL record before any call
\<close>

theorem thread_ioctx_by_async_id:
  assumes thr: "1 < threads (uwsgi h)"
    and mnt: "uwsgi_rados_add_mountpoint h cl urmp w0 = Inr w1"
    and apps: "uwsgi_apps w = uwsgi_apps w1 @ later"
    and req: "len req \<noteq> 0" "parse_vars h req = 0" "path_info req \<noteq> []"
      "length (path_info req) \<le> PATH_MAX"
    and app: "request_app_id h req w = Some (int (length (uwsgi_apps w0)))"
    and aid: "async_id req < nat (threads (uwsgi h))"
    and pipe: "request_pipe h req w = Returned True wp"
  shows "\<exists>ctxes. responder0 (uwsgi_apps w ! length (uwsgi_apps w0)) = Ctx_array ctxes \<and>
           length ctxes = nat (threads (uwsgi h)) \<and> distinct ctxes \<and>
           (\<forall>e \<in> set (new_events w (world_of (uwsgi_rados_request h req w))).
              \<forall>c. event_ctx e = Some c \<longrightarrow> c = ctxes ! async_id req) \<and>
           (\<forall>j < nat (threads (uwsgi h)). j \<noteq> async_id req \<longrightarrow>
              (\<forall>e \<in> set (new_events w (world_of (uwsgi_rados_request h req w))).
                 event_ctx e \<noteq> Some (ctxes ! j))) \<and>
           (req_method req \<noteq> ''OPTIONS'' \<and> req_method req \<noteq> ''MKCOL'' \<and> path_info req \<noteq> ''/'' \<longrightarrow>
              (0 < async (uwsgi h) \<and>
               create_completion_ret h
                 \<lparr>cb_rid = rid (urio wp ! async_id req) + 1, cb_urio = async_id req\<rparr> < 0 \<and>
               (\<exists>w'. uwsgi_rados_request h req w = Crashed w')) \<or>
              (\<exists>e es. store_ops (new_events w (world_of (uwsgi_rados_request h req w))) = e # es \<and>
                       is_stat_of (ctxes ! async_id req)
                         (request_filename req (uwsgi_apps w ! length (uwsgi_apps w0))) e))"
proof -
  let ?a = "length (uwsgi_apps w0)"
  let ?T = "nat (threads (uwsgi h))"
  let ?wf = "world_of (uwsgi_rados_request h req w)"
  from mnt thr obtain mp p ctxes wm urmp' where
    lp: "ioctx_create_loop h cl p ?T [] w0 = Inr (ctxes, wm)"
    and w1: "w1 = wm\<lparr>uwsgi_apps := uwsgi_apps wm @
                [\<lparr>app_modifier1 = 28, app_mountpoint = mp, responder0 = Ctx_array ctxes,
                  responder1 = urmp'\<rparr>]\<rparr>"
    by (auto simp: uwsgi_rados_add_mountpoint_def Let_def
          split: option.splits if_splits sum.splits prod.splits)
  let ?ua = "\<lparr>app_modifier1 = 28, app_mountpoint = mp, responder0 = Ctx_array ctxes,
               responder1 = urmp'\<rparr>"
  from ioctx_create_loop_result [OF lp] have
    cs: "ctxes = map (\<lambda>i. Ioctx (next_ioctx w0 + i) p) [0..<?T]"
    and ap: "uwsgi_apps wm = uwsgi_apps w0"
    by simp_all
  have len: "length ctxes = ?T" by (simp add: cs)
  have dist: "distinct ctxes" unfolding cs by (rule distinct_ioctx_range)
  have tab: "uwsgi_apps w = uwsgi_apps w0 @ ?ua # later" by (simp add: apps w1 ap)
  have ua: "uwsgi_apps w ! ?a = ?ua" by (simp add: tab)
  have la: "?a < length (uwsgi_apps w)" by (simp add: tab)
  have rc: "request_ctx (uwsgi h) (uwsgi_apps w ! ?a) (async_id req) = Some (ctxes ! async_id req)"
    using thr len aid by (simp add: ua request_ctx_def)
  have rt: "routed h req w ?a (ctxes ! async_id req) wp"
    unfolding routed_def using req app la rc pipe by simp
  have uo: "uses_only (ctxes ! async_id req) w ?wf" using rt by (rule uo_request)
  have own: "\<forall>e \<in> set (new_events w ?wf). \<forall>c. event_ctx e = Some c \<longrightarrow> c = ctxes ! async_id req"
    using uses_only_events [OF uo] by blast
  have other: "\<forall>j < ?T. j \<noteq> async_id req \<longrightarrow>
                 (\<forall>e \<in> set (new_events w ?wf). event_ctx e \<noteq> Some (ctxes ! j))"
  proof (intro allI impI ballI)
    fix j e
    assume j: "j < ?T" "j \<noteq> async_id req" and e: "e \<in> set (new_events w ?wf)"
    from j aid len dist have "ctxes ! j \<noteq> ctxes ! async_id req"
      by (simp add: nth_eq_iff_index_eq)
    with own e show "event_ctx e \<noteq> Some (ctxes ! j)" by blast
  qed
  have first: "req_method req \<noteq> ''OPTIONS'' \<and> req_method req \<noteq> ''MKCOL'' \<and> path_info req \<noteq> ''/'' \<longrightarrow>
              (0 < async (uwsgi h) \<and>
               create_completion_ret h
                 \<lparr>cb_rid = rid (urio wp ! async_id req) + 1, cb_urio = async_id req\<rparr> < 0 \<and>
               (\<exists>w'. uwsgi_rados_request h req w = Crashed w')) \<or>
              (\<exists>e es. store_ops (new_events w ?wf) = e # es \<and>
                       is_stat_of (ctxes ! async_id req) (request_filename req (uwsgi_apps w ! ?a)) e)"
    using stat_is_first_store_op [OF rt] by blast
  show ?thesis
    apply (rule exI [of _ ctxes])
    using ua len dist own other first by simp
qed

text \<open>
  C2, witness. On a host with three threads, a GET served by thread 2 stats on the context
  of index 2
\<close>

theorem thread_ioctx_by_async_id_witness:
  "\<exists>e es. store_ops (new_events (mounted host_threads mount_rw)
              (world_of (uwsgi_rados_request host_threads
                 ((http_request ''GET'' ''/r/foo'' 0)\<lparr>async_id := 2\<rparr>)
                 (mounted host_threads mount_rw)))) = e # es \<and>
          is_stat_of (Ioctx 2 ''p1'') ''/foo'' e"
proof -
  let ?h = "host_threads"
  let ?w = "mounted host_threads mount_rw"
  let ?req = "(http_request ''GET'' ''/r/foo'' 0)\<lparr>async_id := 2\<rparr>"
  have thr: "1 < threads (uwsgi ?h)" by code_simp
  have ok: "case uwsgi_rados_add_mountpoint ?h 0 mount_rw (world_init ?h) of
              Inr w' \<Rightarrow> True | Inl e \<Rightarrow> False"
    by code_simp
  then obtain w1 where
    mnt: "uwsgi_rados_add_mountpoint ?h 0 mount_rw (world_init ?h) = Inr w1"
    by (auto split: sum.splits)
  have apps: "uwsgi_apps ?w = uwsgi_apps w1 @ []" by (simp add: mounted_def mnt)
  have a0: "length (uwsgi_apps (world_init ?h)) = 0" by code_simp
  have req: "len ?req \<noteq> 0" "parse_vars ?h ?req = 0" "path_info ?req \<noteq> []"
    "length (path_info ?req) \<le> PATH_MAX"
    by code_simp+
  have app: "request_app_id ?h ?req ?w = Some (int (length (uwsgi_apps (world_init ?h))))"
    by code_simp
  have aid: "async_id ?req < nat (threads (uwsgi ?h))" by code_simp
  have pipe: "request_pipe ?h ?req ?w = Returned True ?w" by code_simp
  have m: "req_method ?req \<noteq> ''OPTIONS'' \<and> req_method ?req \<noteq> ''MKCOL'' \<and> path_info ?req \<noteq> ''/''"
    by code_simp
  have r0: "responder0 (uwsgi_apps ?w ! 0) =
              Ctx_array [Ioctx 0 ''p1'', Ioctx 1 ''p1'', Ioctx 2 ''p1'']"
    by code_simp
  have fn: "request_filename ?req (uwsgi_apps ?w ! 0) = ''/foo''" by code_simp
  have nc: "\<not> 0 < async (uwsgi ?h)" by code_simp
  from thread_ioctx_by_async_id [OF thr mnt apps req app aid pipe] m
  obtain ctxes where
    c: "responder0 (uwsgi_apps ?w ! length (uwsgi_apps (world_init ?h))) = Ctx_array ctxes"
    and f: "(0 < async (uwsgi ?h) \<and>
             create_completion_ret ?h
               \<lparr>cb_rid = rid (urio ?w ! async_id ?req) + 1, cb_urio = async_id ?req\<rparr> < 0 \<and>
             (\<exists>w'. uwsgi_rados_request ?h ?req ?w = Crashed w')) \<or>
            (\<exists>e es. store_ops (new_events ?w (world_of (uwsgi_rados_request ?h ?req ?w))) = e # es \<and>
                     is_stat_of (ctxes ! async_id ?req)
                       (request_filename ?req (uwsgi_apps ?w ! length (uwsgi_apps (world_init ?h)))) e)"
    by blast
  from c have cx: "ctxes = [Ioctx 0 ''p1'', Ioctx 1 ''p1'', Ioctx 2 ''p1'']"
    unfolding a0 r0 by simp
  have i2: "async_id ?req = 2" by code_simp
  from f nc show ?thesis unfolding a0 fn cx i2 by simp
qed

subsection \<open>C3: refused methods\<close>

text \<open>
  C3 (as amended). A request whose method (PUT, DELETE, MKCOL or PROPFIND) the mount does not
  permit changes nothing in the object store. On the path \<open>/\<close>, and for MKCOL, it is answered
  405 with no call to the store. On any other path PUT, DELETE and PROPFIND first stat the
  key, and that stat is the only call to the store; then PUT is answered 405, DELETE and
  PROPFIND are answered 404 or 403 when the stat failed, and 405 when it succeeded, but for
  a PROPFIND that an \<open>If-Modified-Since\<close> not older than the object turns into a 304
\<close>

theorem refused_method_effect:
  assumes rt: "routed h req w a ctx wp"
    and refused: "method_refused (responder1 (uwsgi_apps w ! a)) (req_method req)"
    and stat: "path_info req \<noteq> ''/'' \<and> req_method req \<noteq> ''MKCOL'' \<longrightarrow>
               stat_either h (async_id req) ctx (request_filename req (uwsgi_apps w ! a))
                 (request_timeout h (responder1 (uwsgi_apps w ! a))) wp = Returned (ret, st) w1"
  shows "\<exists>r w'. uwsgi_rados_request h req w = Returned r w' \<and>
           objects w' = objects w \<and> pools w' = pools w \<and>
           (if path_info req = ''/'' \<or> req_method req = ''MKCOL''
            then store_ops (trace w') = store_ops (trace w)
            else \<exists>e. store_ops (trace w') = store_ops (trace w) @ [e] \<and>
                     is_stat_of ctx (request_filename req (uwsgi_apps w ! a)) e) \<and>
           answers (trace w') = answers (trace w) @
             (if (path_info req = ''/'' \<or> req_method req = ''MKCOL'') \<or> req_method req = ''PUT''
              then [Uwsgi_405]
              else if ret < 0 then [if ret = - ENOENT then Uwsgi_404 else Uwsgi_403]
              else if req_method req = ''DELETE'' then [Uwsgi_405]
              else if if_modified_since req \<noteq> [] \<and>
                      reply_mtime st \<le> parse_http_date h (if_modified_since req)
              then Prepare_headers ''304 Not Modified'' #
                     (if response h (Prepare_headers ''304 Not Modified'') \<noteq> 0 then []
                      else [Write_headers])
              else [Uwsgi_405])"
proof (cases "path_info req = ''/'' \<or> req_method req = ''MKCOL''")
  case True
  from rt have "same_store w wp" by (rule routed_frame)
  moreover have "same_store (uwsgi_405 wp) (request_end h req (uwsgi_405 wp))"
    by (rule request_end_frame)
  ultimately show ?thesis using True rt refused
    by (simp add: request_routed refused_dispatch same_store_def uwsgi_405_def)
next
  case False
  with stat have st1: "stat_either h (async_id req) ctx (request_filename req (uwsgi_apps w ! a))
                 (request_timeout h (responder1 (uwsgi_apps w ! a))) wp = Returned (ret, st) w1"
    by simp
  from rt have f0: "same_store w wp" by (rule routed_frame)
  from stat_either_frame [OF st1] obtain e where
    f1: "objects w1 = objects wp" "pools w1 = pools wp" "answers (trace w1) = answers (trace wp)"
      "store_ops (trace w1) = store_ops (trace wp) @ [e]"
      "is_stat_of ctx (request_filename req (uwsgi_apps w ! a)) e"
    by blast
  have f2: "\<And>x. same_store x (request_end h req x)" by (rule request_end_frame)
  show ?thesis using False rt refused st1 f0 f1
      f2 [of "uwsgi_405 w1"] f2 [of "uwsgi_404 w1"] f2 [of "uwsgi_403 w1"]
    by (simp add: request_routed refused_dispatch same_store_def uwsgi_405_def uwsgi_404_def
          uwsgi_403_def)
qed

text \<open>
  C3, witness. A PUT on a mount that permits neither PUT nor DELETE: 405, the store unchanged
\<close>

theorem refused_method_effect_witness:
  "\<exists>r w'. uwsgi_rados_request host_sync (http_request ''PUT'' ''/r/x'' 2)
              ((mounted host_sync mount_ro)\<lparr>req_body := ''xy''\<rparr>) = Returned r w' \<and>
           objects w' = [] \<and> answers (trace w') = [Uwsgi_405]"
proof -
  let ?req = "http_request ''PUT'' ''/r/x'' 2"
  let ?w = "(mounted host_sync mount_ro)\<lparr>req_body := ''xy''\<rparr>"
  let ?w1 = "emit (Rados_sync (Op_stat ctx1 ''/x'')) ?w"
  have r: "routed host_sync ?req ?w 0 ctx1 ?w" by code_simp
  have m: "method_refused (responder1 (uwsgi_apps ?w ! 0)) (req_method ?req)" by code_simp
  have s: "path_info ?req \<noteq> ''/'' \<and> req_method ?req \<noteq> ''MKCOL'' \<longrightarrow>
           stat_either host_sync (async_id ?req) ctx1 (request_filename ?req (uwsgi_apps ?w ! 0))
             (request_timeout host_sync (responder1 (uwsgi_apps ?w ! 0))) ?w =
           Returned (- 2, reply (- 2)) ?w1"
    by code_simp
  have t0: "trace ?w = []" by code_simp
  have o0: "objects ?w = []" by code_simp
  have mm: "req_method ?req = ''PUT''" by code_simp
  show ?thesis
    using refused_method_effect [OF r m s] by (auto simp: t0 o0 mm)
qed

text \<open>
  C3, counterexample to the claim as stated. The refused PUT has issued \<open>rados_stat\<close> before it is
  answered, and a refused DELETE of a missing key is answered 404, not 405
\<close>

theorem refused_put_stats_first:
  "store_ops (trace (world_of (uwsgi_rados_request host_sync (http_request ''PUT'' ''/r/x'' 2)
       ((mounted host_sync mount_ro)\<lparr>req_body := ''xy''\<rparr>)))) = [Rados_sync (Op_stat ctx1 ''/x'')] \<and>
   answers (trace (world_of (uwsgi_rados_request host_sync (http_request ''DELETE'' ''/r/x'' 0)
       (mounted host_sync mount_ro)))) = [Uwsgi_404]"
  by code_simp

subsection \<open>C4: a completion that cannot be created\<close>

text \<open>
  C4. When \<open>rados_aio_create_completion\<close> fails, \<open>uwsgi_rados_delete\<close> returns \<open>-1\<close> with the
  record freed and no AIO issued, as claimed; \<open>uwsgi_rados_async_stat\<close> and \<open>uwsgi_rados_put\<close>
  read \<open>urcb->urio->comp\<close> through the NULL record instead
\<close>

theorem completion_failure_not_checked:
  assumes "0 < async (uwsgi h)" and "async_id req < length (urio w)"
    and "create_completion_ret h \<lparr>cb_rid = rid (urio w ! async_id req) + 1,
                                   cb_urio = async_id req\<rparr> < 0"
    and "0 < post_cl req" and "req_body w \<noteq> []" and "\<not> body_read_fails h (req_body w)"
  shows "(\<exists>w'. uwsgi_rados_delete h req ctx key tmo w = Returned (- 1) w' \<and> heap w' = heap w \<and>
                store_ops (trace w') = store_ops (trace w)) \<and>
         (\<exists>w'. uwsgi_rados_async_stat h (async_id req) ctx key tmo w = Crashed w') \<and>
         (\<exists>w'. uwsgi_rados_put h req ctx key tmo w = Crashed w')"
proof (intro conjI)
  show "\<exists>w'. uwsgi_rados_delete h req ctx key tmo w = Returned (- 1) w' \<and> heap w' = heap w \<and>
                store_ops (trace w') = store_ops (trace w)"
    using assms
    by (simp add: uwsgi_rados_delete_def uwsgi_rados_set_completion_def Let_def slot_update_def
          free_cb_def)
  show "\<exists>w'. uwsgi_rados_async_stat h (async_id req) ctx key tmo w = Crashed w'"
    using assms
    by (simp add: uwsgi_rados_async_stat_def uwsgi_rados_set_completion_def Let_def slot_update_def)
  show "\<exists>w'. uwsgi_rados_put h req ctx key tmo w = Crashed w'"
    using assms
    by (simp add: uwsgi_rados_put_def uwsgi_rados_put_loop.simps uwsgi_request_body_read_def
          uwsgi_rados_set_completion_def Let_def slot_update_def)
qed

text \<open>
  C4, witness. An async host without memory for a completion
\<close>

theorem completion_failure_not_checked_witness:
  "(\<exists>w'. uwsgi_rados_delete host_nomem (http_request ''PUT'' ''/r/foo'' 5) ctx1 ''/foo'' 30
            ((mounted host_nomem mount_rw)\<lparr>req_body := ''hello''\<rparr>) = Returned (- 1) w') \<and>
   (\<exists>w'. uwsgi_rados_async_stat host_nomem 0 ctx1 ''/foo'' 30
            ((mounted host_nomem mount_rw)\<lparr>req_body := ''hello''\<rparr>) = Crashed w') \<and>
   (\<exists>w'. uwsgi_rados_put host_nomem (http_request ''PUT'' ''/r/foo'' 5) ctx1 ''/foo'' 30
            ((mounted host_nomem mount_rw)\<lparr>req_body := ''hello''\<rparr>) = Crashed w')"
proof -
  let ?req = "http_request ''PUT'' ''/r/foo'' 5"
  let ?w = "(mounted host_nomem mount_rw)\<lparr>req_body := ''hello''\<rparr>"
  have h1: "0 < async (uwsgi host_nomem)" by code_simp
  have h2: "async_id ?req < length (urio ?w)" by code_simp
  have h3: "create_completion_ret host_nomem
              \<lparr>cb_rid = rid (urio ?w ! async_id ?req) + 1, cb_urio = async_id ?req\<rparr> < 0"
    by (simp add: host_nomem_def)
  have h4: "0 < post_cl ?req" by code_simp
  have h5: "req_body ?w \<noteq> []" by simp
  have h6: "\<not> body_read_fails host_nomem (req_body ?w)" by code_simp
  have a: "async_id ?req = 0" by code_simp
  show ?thesis
    using completion_failure_not_checked [OF h1 h2 h3 h4 h5 h6, of ctx1 "''/foo''" 30]
    unfolding a by blast
qed

subsection \<open>C5: the pipe of the slot on the 304 path\<close>

text \<open>
  C5. An async GET of an existing object with an \<open>If-Modified-Since\<close> not older than it
  returns from the handler with both descriptors of the pipe still open: the 304 path
  leaves by \<open>return\<close>, not through the label \<open>end\<close>, and no \<open>close\<close> is in the trace
\<close>

theorem not_modified_leaves_pipe_open:
  "uwsgi_rados_request host_async
     ((http_request ''GET'' ''/r/foo'' 0)\<lparr>if_modified_since := ''Thu, 01 Jan 1970 00:01:40 GMT''\<rparr>)
     ((mounted host_async mount_rw)
        \<lparr>objects := [((''p1'', ''/foo''), \<lparr>obj_data = ''hello'', obj_mtime = 50\<rparr>)]\<rparr>) =
   Returned 0
     ((mounted host_async mount_rw)
        \<lparr>objects := [((''p1'', ''/foo''), \<lparr>obj_data = ''hello'', obj_mtime = 50\<rparr>)],
         urio := [\<lparr>fds = (3, 4), rid = 1,
                   completion = Some \<lparr>comp_arg = \<lparr>cb_rid = 1, cb_urio = 0\<rparr>,
                     comp_reply = \<lparr>reply_ret = 0, reply_size = 5, reply_mtime = 50, reply_data = []\<rparr>,
                     comp_safe_and_cb = True, comp_released = True\<rparr>\<rparr>],
         open_fds := [3, 4], kpipes := [(3, 4, 0)],
         trace := [Sys_pipe (Some (3, 4)), Mutex_lock 0, Mutex_unlock 0,
                   Malloc_cb \<lparr>cb_rid = 1, cb_urio = 0\<rparr>,
                   Rados_aio_create_completion \<lparr>cb_rid = 1, cb_urio = 0\<rparr>,
                   Rados_aio (Op_stat ctx1 ''/foo'') \<lparr>cb_rid = 1, cb_urio = 0\<rparr>,
                   Mutex_lock 0, Sys_write 4 1, Mutex_unlock 0,
                   Free_cb \<lparr>cb_rid = 1, cb_urio = 0\<rparr>, Wait_read_hook 3 30 1, Sys_read 3 1,
                   Rados_aio_release 0, Resp (Prepare_headers ''304 Not Modified''),
                   Resp Write_headers]\<rparr>)"
  by code_simp

subsection \<open>C6: late callbacks\<close>

text \<open>
  C6. A callback whose recorded \<open>rid\<close> differs from the current \<open>rid\<close> of its slot writes
  nothing to the pipe: it takes the mutex, logs that it woke up too late, releases the
  mutex and frees the pending record, and nothing else of the world changes
\<close>

theorem late_callback_writes_nothing:
  assumes "cb_rid urcb \<noteq> rid (urio w ! cb_urio urcb)"
  shows "uwsgi_rados_async_cb urcb w =
           w\<lparr>heap := remove1 urcb (heap w),
             trace := trace w @ [Mutex_lock (cb_urio urcb), Log_too_late (cb_rid urcb),
                                 Mutex_unlock (cb_urio urcb), Free_cb urcb]\<rparr>"
  using assms by (simp add: uwsgi_rados_async_cb_def Let_def emit_def free_cb_def)

text \<open>
  C6, witness. The record of request 3 called back on a slot that has reached 5
\<close>

theorem late_callback_writes_nothing_witness:
  "kpipes (uwsgi_rados_async_cb \<lparr>cb_rid = 3, cb_urio = 0\<rparr> world_late) = [(3, 4, 0)] \<and>
   trace (uwsgi_rados_async_cb \<lparr>cb_rid = 3, cb_urio = 0\<rparr> world_late) =
     [Mutex_lock 0, Log_too_late 3, Mutex_unlock 0, Free_cb \<lparr>cb_rid = 3, cb_urio = 0\<rparr>]"
proof -
  have h: "cb_rid \<lparr>cb_rid = 3, cb_urio = 0\<rparr> \<noteq> rid (urio world_late ! cb_urio \<lparr>cb_rid = 3, cb_urio = 0\<rparr>)"
    by (simp add: world_late_def)
  show ?thesis
    using late_callback_writes_nothing [OF h] by (simp add: world_late_def)
qed

subsection \<open>C7: the request counter of a slot\<close>

text \<open>
  C7. Over any sequence of served requests, primitives, armings, callbacks and late
  completions the trace only grows and the \<open>rid\<close> of each slot advances by exactly the number
  of its armings in between (in 64-bit arithmetic); each arming adds one, between taking and
  releasing the mutex of the slot. So as long as the
  counter does not wrap around (the specification ignores the overflow of the 64 bits) it
  never decreases, and it is strictly greater after any arming
\<close>

theorem rid_strictly_increasing:
  "\<exists>evs. trace (run_steps h ss w) = trace w @ evs \<and>
         length (urio (run_steps h ss w)) = length (urio w) \<and>
         (\<forall>i < length (urio w).
            rid (urio (run_steps h ss w) ! i) = rid (urio w ! i) + of_nat (armed i evs) \<and>
            (unat (rid (urio w ! i)) + armed i evs < 2 ^ 64 \<longrightarrow>
               rid (urio w ! i) \<le> rid (urio (run_steps h ss w) ! i) \<and>
               (0 < armed i evs \<longrightarrow> rid (urio w ! i) < rid (urio (run_steps h ss w) ! i)))) \<and>
         (\<forall>aid < length (urio w).
            rid (urio (do_step h (Arm aid) w) ! aid) = rid (urio w ! aid) + 1 \<and>
            (\<exists>evs'. trace (do_step h (Arm aid) w) =
                      trace w @ Mutex_lock aid # Mutex_unlock aid # evs'))"
proof -
  have "advances w (run_steps h ss w)" by (rule adv_run_steps) simp
  then obtain evs where
    t: "trace (run_steps h ss w) = trace w @ evs"
    and l: "length (urio (run_steps h ss w)) = length (urio w)"
    and r: "\<forall>i < length (urio w).
              rid (urio (run_steps h ss w) ! i) = rid (urio w ! i) + of_nat (armed i evs)"
    unfolding advances_def by blast
  have m: "rid (urio w ! i) \<le> rid (urio (run_steps h ss w) ! i) \<and>
           (0 < armed i evs \<longrightarrow> rid (urio w ! i) < rid (urio (run_steps h ss w) ! i))"
    if "i < length (urio w)" and "unat (rid (urio w ! i)) + armed i evs < 2 ^ 64" for i
  proof -
    from r that(1) have "rid (urio (run_steps h ss w) ! i) = rid (urio w ! i) + of_nat (armed i evs)"
      by simp
    then have "unat (rid (urio (run_steps h ss w) ! i)) = unat (rid (urio w ! i)) + armed i evs"
      using unat_add_of_nat [OF that(2)] by simp
    then show ?thesis by (simp add: word_le_nat_alt word_less_nat_alt)
  qed
  have s: "rid (urio (do_step h (Arm aid) w) ! aid) = rid (urio w ! aid) + 1 \<and>
           (\<exists>evs'. trace (do_step h (Arm aid) w) =
                     trace w @ Mutex_lock aid # Mutex_unlock aid # evs')"
    if "aid < length (urio w)" for aid
    using that
    by (simp add: uwsgi_rados_set_completion_def Let_def slot_update_def free_cb_def)
  from t l r m s show ?thesis by blast
qed

text \<open>
  C7, witness. An async PUT arms the slot twice (the stat, one chunk): from 0 to 2
\<close>

theorem rid_strictly_increasing_witness:
  "rid (urio ((mounted host_async mount_rw)\<lparr>req_body := ''hello''\<rparr>) ! 0) = 0 \<and>
   rid (urio (run_steps host_async [Serve (http_request ''PUT'' ''/r/foo'' 5)]
          ((mounted host_async mount_rw)\<lparr>req_body := ''hello''\<rparr>)) ! 0) = 2 \<and>
   rid (urio ((mounted host_async mount_rw)\<lparr>req_body := ''hello''\<rparr>) ! 0) <
     rid (urio (run_steps host_async [Serve (http_request ''PUT'' ''/r/foo'' 5)]
            ((mounted host_async mount_rw)\<lparr>req_body := ''hello''\<rparr>)) ! 0)"
proof -
  let ?w = "(mounted host_async mount_rw)\<lparr>req_body := ''hello''\<rparr>"
  let ?ss = "[Serve (http_request ''PUT'' ''/r/foo'' 5)]"
  have t0: "trace ?w = []" by code_simp
  have l0: "0 < length (urio ?w)" by code_simp
  have r0: "rid (urio ?w ! 0) = 0" by code_simp
  have ar: "armed 0 (trace (run_steps host_async ?ss ?w)) = 2" by code_simp
  from rid_strictly_increasing [of host_async ?ss ?w] obtain evs where
    t: "trace (run_steps host_async ?ss ?w) = trace ?w @ evs"
    and r: "\<forall>i < length (urio ?w).
              rid (urio (run_steps host_async ?ss ?w) ! i) = rid (urio ?w ! i) + of_nat (armed i evs) \<and>
              (unat (rid (urio ?w ! i)) + armed i evs < 2 ^ 64 \<longrightarrow>
                 rid (urio ?w ! i) \<le> rid (urio (run_steps host_async ?ss ?w) ! i) \<and>
                 (0 < armed i evs \<longrightarrow>
                    rid (urio ?w ! i) < rid (urio (run_steps host_async ?ss ?w) ! i)))"
    by blast
  from t t0 have e: "evs = trace (run_steps host_async ?ss ?w)" by simp
  from r l0 have
    "rid (urio (run_steps host_async ?ss ?w) ! 0) = rid (urio ?w ! 0) + of_nat (armed 0 evs) \<and>
     (unat (rid (urio ?w ! 0)) + armed 0 evs < 2 ^ 64 \<longrightarrow>
        rid (urio ?w ! 0) \<le> rid (urio (run_steps host_async ?ss ?w) ! 0) \<and>
        (0 < armed 0 evs \<longrightarrow> rid (urio ?w ! 0) < rid (urio (run_steps host_async ?ss ?w) ! 0)))"
    by blast
  then show ?thesis unfolding e ar r0 by simp
qed

text \<open>
  Where the hypothesis on the 64 bits stops holding: armed at \<open>2^64 - 1\<close>, the counter of
  the slot is back at 0.
\<close>

lemma arming_wraps_at_64_bits:
  "rid (urio (do_step h (Arm 0)
          (world_late\<lparr>urio := [\<lparr>fds = (3, 4), rid = - 1, completion = None\<rparr>]\<rparr>)) ! 0) = 0"
  by (simp add: uwsgi_rados_set_completion_def Let_def slot_update_def free_cb_def world_late_def)

subsection \<open>C8: a stat that fails\<close>

text \<open>
  C8. A routed request whose method is not PUT (nor OPTIONS, nor MKCOL), on a path other
  than \<open>/\<close>, whose stat fails, is answered 404 when the error is \<open>-ENOENT\<close> and 403 for any
  other error; the handler then cleans up and returns \<open>UWSGI_OK\<close>
\<close>

theorem stat_failure_status:
  assumes "routed h req w a ctx wp"
    and "req_method req \<noteq> ''PUT''" and "req_method req \<noteq> ''OPTIONS''" and "req_method req \<noteq> ''MKCOL''"
    and "path_info req \<noteq> ''/''"
    and "stat_either h (async_id req) ctx (request_filename req (uwsgi_apps w ! a))
           (request_timeout h (responder1 (uwsgi_apps w ! a))) wp = Returned (ret, st) w1"
    and "ret < 0"
  shows "uwsgi_rados_request h req w =
           Returned UWSGI_OK
             (request_end h req (if ret = - ENOENT then uwsgi_404 w1 else uwsgi_403 w1)) \<and>
         answers (trace (request_end h req (if ret = - ENOENT then uwsgi_404 w1 else uwsgi_403 w1))) =
           answers (trace w) @ [if ret = - ENOENT then Uwsgi_404 else Uwsgi_403]"
  using assms by (rule stat_failed_answer)

text \<open>
  C8, witness. A GET of a missing object is answered 404; with a store that fails with
  \<open>-EIO\<close> it is answered 403
\<close>

theorem stat_failure_status_witness:
  "answers (trace (world_of (uwsgi_rados_request host_sync (http_request ''GET'' ''/r/missing'' 0)
       (mounted host_sync mount_rw)))) = [Uwsgi_404] \<and>
   answers (trace (world_of (uwsgi_rados_request host_eio (http_request ''GET'' ''/r/missing'' 0)
       (mounted host_eio mount_rw)))) = [Uwsgi_403]"
proof -
  let ?req = "http_request ''GET'' ''/r/missing'' 0"
  let ?w = "mounted host_sync mount_rw"
  let ?w1 = "emit (Rados_sync (Op_stat ctx1 ''/missing'')) ?w"
  let ?v = "mounted host_eio mount_rw"
  let ?v1 = "emit (Rados_sync (Op_stat ctx1 ''/missing'')) ?v"
  have r: "routed host_sync ?req ?w 0 ctx1 ?w" by code_simp
  have m1: "req_method ?req \<noteq> ''PUT''" by code_simp
  have m2: "req_method ?req \<noteq> ''OPTIONS''" by code_simp
  have m3: "req_method ?req \<noteq> ''MKCOL''" by code_simp
  have p: "path_info ?req \<noteq> ''/''" by code_simp
  have s: "stat_either host_sync (async_id ?req) ctx1 (request_filename ?req (uwsgi_apps ?w ! 0))
             (request_timeout host_sync (responder1 (uwsgi_apps ?w ! 0))) ?w =
           Returned (- 2, reply (- 2)) ?w1"
    by code_simp
  have n: "(- 2 :: int) < 0" by simp
  have r': "routed host_eio ?req ?v 0 ctx1 ?v" by code_simp
  have s': "stat_either host_eio (async_id ?req) ctx1 (request_filename ?req (uwsgi_apps ?v ! 0))
             (request_timeout host_eio (responder1 (uwsgi_apps ?v ! 0))) ?v =
           Returned (- 5, reply (- 5)) ?v1"
    by code_simp
  have n': "(- 5 :: int) < 0" by simp
  have t0: "trace ?w = []" by code_simp
  have t1: "trace ?v = []" by code_simp
  show ?thesis
    using stat_failure_status [OF r m1 m2 m3 p s n] stat_failure_status [OF r' m1 m2 m3 p s' n']
    by (simp add: ENOENT_def t0 t1)
qed

subsection \<open>C9: OPTIONS\<close>

text \<open>
  C9. A routed OPTIONS request never calls the object store, and when the response writer
  of the host accepts the headers it is answered \<open>200 OK\<close> with \<open>Dav: 1\<close> and an \<open>Allow\<close>
  header that is \<open>OPTIONS, GET, HEAD\<close> extended by those of PUT, DELETE, MKCOL, PROPFIND
  that the mount permits, in that order
\<close>

theorem options_answer:
  assumes rt: "routed h req w a ctx wp" and m: "req_method req = ''OPTIONS''"
  shows "\<exists>w'. uwsgi_rados_request h req w = Returned UWSGI_OK w' \<and>
           objects w' = objects w \<and> pools w' = pools w \<and>
           store_ops (trace w') = store_ops (trace w) \<and>
           (response h (Prepare_headers ''200 OK'') = 0 \<and> response h (Add_header ''Dav'' ''1'') = 0 \<and>
            (\<forall>ub s. buffer_append h ub s = 0) \<longrightarrow>
            answers (trace w') =
              answers (trace w) @ [Prepare_headers ''200 OK'', Add_header ''Dav'' ''1'',
                 Add_header ''Allow'' (allow_header (responder1 (uwsgi_apps w ! a)))])"
proof -
  let ?urmp = "responder1 (uwsgi_apps w ! a)"
  let ?w' = "request_end h req (request_options h ?urmp wp)"
  have eq: "uwsgi_rados_request h req w = Returned UWSGI_OK ?w'"
    using rt m by (simp add: request_routed request_dispatch_def uwsgi_strncmp_def)
  have f0: "same_store w wp" using rt by (rule routed_frame)
  have f1: "same_store (request_options h ?urmp wp) ?w'" by (rule request_end_frame)
  have f2: "objects (request_options h ?urmp wp) = objects wp \<and>
            pools (request_options h ?urmp wp) = pools wp \<and>
            store_ops (trace (request_options h ?urmp wp)) = store_ops (trace wp)"
    by (rule request_options_frame)
  show ?thesis using eq f0 f1 f2
    by (auto simp: same_store_def request_options_ok)
qed

text \<open>
  C9, witness. OPTIONS on a mount that permits PUT and DELETE
\<close>

theorem options_answer_witness:
  "\<exists>w'. uwsgi_rados_request host_sync (http_request ''OPTIONS'' ''/r/foo'' 0)
            (mounted host_sync mount_rw) = Returned UWSGI_OK w' \<and>
         store_ops (trace w') = [] \<and>
         answers (trace w') = [Prepare_headers ''200 OK'', Add_header ''Dav'' ''1'',
                               Add_header ''Allow'' ''OPTIONS, GET, HEAD, PUT, DELETE'']"
proof -
  let ?req = "http_request ''OPTIONS'' ''/r/foo'' 0"
  let ?w = "mounted host_sync mount_rw"
  have r: "routed host_sync ?req ?w 0 ctx1 ?w" by code_simp
  have m: "req_method ?req = ''OPTIONS''" by code_simp
  have t0: "trace ?w = []" by code_simp
  have ok: "response host_sync (Prepare_headers ''200 OK'') = 0 \<and>
            response host_sync (Add_header ''Dav'' ''1'') = 0 \<and>
            (\<forall>ub s. buffer_append host_sync ub s = 0)"
    by (simp add: host_sync_def)
  have al: "allow_header (responder1 (uwsgi_apps ?w ! 0)) = ''OPTIONS, GET, HEAD, PUT, DELETE''"
    by code_simp
  show ?thesis
    using options_answer [OF r m] ok by (auto simp: t0 al)
qed

subsection \<open>C10: a PUT with no body\<close>

text \<open>
  C10 (as amended). With \<open>Content-Length\<close> 0 \<open>uwsgi_rados_put\<close> returns 0 and leaves the world
  as it is: no write. On a path other than \<open>/\<close>, on a mount that permits PUT:

  \<^item> in either mode, on a store that works (no operation fails by fault and, with async on,
    the bridge delivers), the request is answered \<open>201 Created\<close>; the only calls to the store
    are the stat and, when the object existed, its removal; no object is left under the key,
    and a GET of the key that follows is answered 404;

  \<^item> whenever the stat returns anything but 0 (the object is missing, the stat fails or
    times out), the request is answered \<open>201 Created\<close>, the stat is the only call to the
    store and the objects stay as they were.

  On the path \<open>/\<close> a PUT is answered 405, whatever the mount permits, with no call to the store
\<close>

theorem put_empty_body:
  assumes cl: "post_cl req = 0"
  shows "uwsgi_rados_put h req ctx key tmo wx = Returned 0 wx \<and>
         (routed h req w a ctx wp \<and> req_method req = ''PUT'' \<and>
          allow_put (responder1 (uwsgi_apps w ! a)) \<noteq> None \<and> path_info req \<noteq> ''/'' \<and>
          store_works h \<longrightarrow>
          (\<exists>w' es. uwsgi_rados_request h req w = Returned UWSGI_OK w' \<and>
             answers (trace w') = answers (trace w) @ [Prepare_headers ''201 Created''] \<and>
             store_ops (trace w') = store_ops (trace w) @ es \<and>
             (case map_of (objects w) (ioctx_pool ctx, request_filename req (uwsgi_apps w ! a)) of
                None \<Rightarrow> \<exists>e. es = [e] \<and> is_stat_of ctx (request_filename req (uwsgi_apps w ! a)) e
              | Some ob \<Rightarrow>
                  \<exists>e d. es = [e, d] \<and> is_stat_of ctx (request_filename req (uwsgi_apps w ! a)) e \<and>
                        is_remove_of ctx (request_filename req (uwsgi_apps w ! a)) d) \<and>
             map_of (objects w') (ioctx_pool ctx, request_filename req (uwsgi_apps w ! a)) = None \<and>
             (\<forall>req2 a2 ctx2 wp2.
                routed h req2 w' a2 ctx2 wp2 \<and> req_method req2 = ''GET'' \<and> path_info req2 \<noteq> ''/'' \<and>
                ioctx_pool ctx2 = ioctx_pool ctx \<and>
                request_filename req2 (uwsgi_apps w' ! a2) = request_filename req (uwsgi_apps w ! a) \<longrightarrow>
                answers (trace (world_of (uwsgi_rados_request h req2 w'))) =
                  answers (trace w') @ [Uwsgi_404]))) \<and>
         (routed h req w a ctx wp \<and> req_method req = ''PUT'' \<and>
          allow_put (responder1 (uwsgi_apps w ! a)) \<noteq> None \<and> path_info req \<noteq> ''/'' \<and>
          stat_either h (async_id req) ctx (request_filename req (uwsgi_apps w ! a))
            (request_timeout h (responder1 (uwsgi_apps w ! a))) wp = Returned (ret, s) ws \<and>
          ret \<noteq> 0 \<longrightarrow>
          (\<exists>w' e. uwsgi_rados_request h req w = Returned UWSGI_OK w' \<and>
             answers (trace w') = answers (trace w) @ [Prepare_headers ''201 Created''] \<and>
             store_ops (trace w') = store_ops (trace w) @ [e] \<and>
             is_stat_of ctx (request_filename req (uwsgi_apps w ! a)) e \<and>
             objects w' = objects w)) \<and>
         (routed h req w a ctx wp \<and> req_method req = ''PUT'' \<and> path_info req = ''/'' \<longrightarrow>
          (\<exists>w'. uwsgi_rados_request h req w = Returned UWSGI_OK w' \<and>
             answers (trace w') = answers (trace w) @ [Uwsgi_405] \<and>
             store_ops (trace w') = store_ops (trace w) \<and> objects w' = objects w))"
proof (intro conjI impI)
  show "uwsgi_rados_put h req ctx key tmo wx = Returned 0 wx" using cl by (rule put_no_body)
next
  assume "routed h req w a ctx wp \<and> req_method req = ''PUT'' \<and>
          allow_put (responder1 (uwsgi_apps w ! a)) \<noteq> None \<and> path_info req \<noteq> ''/'' \<and>
          store_works h"
  then show "\<exists>w' es. uwsgi_rados_request h req w = Returned UWSGI_OK w' \<and>
             answers (trace w') = answers (trace w) @ [Prepare_headers ''201 Created''] \<and>
             store_ops (trace w') = store_ops (trace w) @ es \<and>
             (case map_of (objects w) (ioctx_pool ctx, request_filename req (uwsgi_apps w ! a)) of
                None \<Rightarrow> \<exists>e. es = [e] \<and> is_stat_of ctx (request_filename req (uwsgi_apps w ! a)) e
              | Some ob \<Rightarrow>
                  \<exists>e d. es = [e, d] \<and> is_stat_of ctx (request_filename req (uwsgi_apps w ! a)) e \<and>
                        is_remove_of ctx (request_filename req (uwsgi_apps w ! a)) d) \<and>
             map_of (objects w') (ioctx_pool ctx, request_filename req (uwsgi_apps w ! a)) = None \<and>
             (\<forall>req2 a2 ctx2 wp2.
                routed h req2 w' a2 ctx2 wp2 \<and> req_method req2 = ''GET'' \<and> path_info req2 \<noteq> ''/'' \<and>
                ioctx_pool ctx2 = ioctx_pool ctx \<and>
                request_filename req2 (uwsgi_apps w' ! a2) = request_filename req (uwsgi_apps w ! a) \<longrightarrow>
                answers (trace (world_of (uwsgi_rados_request h req2 w'))) =
                  answers (trace w') @ [Uwsgi_404])"
    using put_empty_works [OF cl] by blast
next
  assume "routed h req w a ctx wp \<and> req_method req = ''PUT'' \<and>
          allow_put (responder1 (uwsgi_apps w ! a)) \<noteq> None \<and> path_info req \<noteq> ''/'' \<and>
          stat_either h (async_id req) ctx (request_filename req (uwsgi_apps w ! a))
            (request_timeout h (responder1 (uwsgi_apps w ! a))) wp = Returned (ret, s) ws \<and>
          ret \<noteq> 0"
  then show "\<exists>w' e. uwsgi_rados_request h req w = Returned UWSGI_OK w' \<and>
             answers (trace w') = answers (trace w) @ [Prepare_headers ''201 Created''] \<and>
             store_ops (trace w') = store_ops (trace w) @ [e] \<and>
             is_stat_of ctx (request_filename req (uwsgi_apps w ! a)) e \<and>
             objects w' = objects w"
    using put_empty_stat_failed [OF cl] by blast
next
  assume "routed h req w a ctx wp \<and> req_method req = ''PUT'' \<and> path_info req = ''/''"
  then show "\<exists>w'. uwsgi_rados_request h req w = Returned UWSGI_OK w' \<and>
             answers (trace w') = answers (trace w) @ [Uwsgi_405] \<and>
             store_ops (trace w') = store_ops (trace w) \<and> objects w' = objects w"
    using put_root_refused by blast
qed

text \<open>
  C10, witness. An async PUT with no body over an existing object, then a GET; the same PUT
  on a store that answers no stat in time; a PUT of \<open>/\<close>
\<close>

theorem put_empty_body_witness:
  "answers (trace (world_of (uwsgi_rados_request host_async (http_request ''PUT'' ''/r/foo'' 0)
      ((mounted host_async mount_rw)
         \<lparr>objects := [((''p1'', ''/foo''), \<lparr>obj_data = ''hello'', obj_mtime = 50\<rparr>)]\<rparr>)))) =
     [Prepare_headers ''201 Created''] \<and>
   answers (trace (world_of (uwsgi_rados_request host_async (http_request ''GET'' ''/r/foo'' 0)
      (world_of (uwsgi_rados_request host_async (http_request ''PUT'' ''/r/foo'' 0)
         ((mounted host_async mount_rw)
            \<lparr>objects := [((''p1'', ''/foo''), \<lparr>obj_data = ''hello'', obj_mtime = 50\<rparr>)]\<rparr>)))))) =
     [Prepare_headers ''201 Created'', Uwsgi_404] \<and>
   answers (trace (world_of (uwsgi_rados_request host_slow (http_request ''PUT'' ''/r/foo'' 0)
      ((mounted host_slow mount_rw)\<lparr>objects := [((''p1'', ''/foo''), \<lparr>obj_data = ''hello'', obj_mtime = 50\<rparr>)]\<rparr>)))) =
     [Prepare_headers ''201 Created''] \<and>
   objects (world_of (uwsgi_rados_request host_slow (http_request ''PUT'' ''/r/foo'' 0)
      ((mounted host_slow mount_rw)\<lparr>objects := [((''p1'', ''/foo''), \<lparr>obj_data = ''hello'', obj_mtime = 50\<rparr>)]\<rparr>))) = [((''p1'', ''/foo''), \<lparr>obj_data = ''hello'', obj_mtime = 50\<rparr>)] \<and>
   answers (trace (world_of (uwsgi_rados_request host_async (http_request ''PUT'' ''/'' 0)
      (mounted host_async mount_rw)))) = [Uwsgi_405]"
proof -
  have works: "answers (trace (world_of (uwsgi_rados_request host_async (http_request ''PUT'' ''/r/foo'' 0)
      ((mounted host_async mount_rw)
         \<lparr>objects := [((''p1'', ''/foo''), \<lparr>obj_data = ''hello'', obj_mtime = 50\<rparr>)]\<rparr>)))) =
     [Prepare_headers ''201 Created''] \<and>
   answers (trace (world_of (uwsgi_rados_request host_async (http_request ''GET'' ''/r/foo'' 0)
      (world_of (uwsgi_rados_request host_async (http_request ''PUT'' ''/r/foo'' 0)
         ((mounted host_async mount_rw)
            \<lparr>objects := [((''p1'', ''/foo''), \<lparr>obj_data = ''hello'', obj_mtime = 50\<rparr>)]\<rparr>)))))) =
     [Prepare_headers ''201 Created'', Uwsgi_404]"
  proof -
    let ?req = "http_request ''PUT'' ''/r/foo'' 0"
    let ?get = "http_request ''GET'' ''/r/foo'' 0"
    let ?w = "(mounted host_async mount_rw)
                \<lparr>objects := [((''p1'', ''/foo''), \<lparr>obj_data = ''hello'', obj_mtime = 50\<rparr>)]\<rparr>"
    let ?wp = "world_of (request_pipe host_async ?req ?w)"
    let ?W = "world_of (uwsgi_rados_request host_async ?req ?w)"
    let ?Wp = "world_of (request_pipe host_async ?get ?W)"
    have cl: "post_cl ?req = 0" by code_simp
    have wk: "store_works host_async"
      by (simp add: store_works_def bridge_delivers_def host_async_def host_sync_def)
    have hyp: "routed host_async ?req ?w 0 ctx1 ?wp \<and> req_method ?req = ''PUT'' \<and>
            allow_put (responder1 (uwsgi_apps ?w ! 0)) \<noteq> None \<and> path_info ?req \<noteq> ''/'' \<and>
            store_works host_async"
    proof (intro conjI)
      show "routed host_async ?req ?w 0 ctx1 ?wp" by code_simp
      show "req_method ?req = ''PUT''" by code_simp
      show "allow_put (responder1 (uwsgi_apps ?w ! 0)) \<noteq> None" by code_simp
      show "path_info ?req \<noteq> ''/''" by code_simp
      show "store_works host_async" by (rule wk)
    qed
    have t0: "trace ?w = []" by code_simp
    have g: "routed host_async ?get ?W 0 ctx1 ?Wp \<and> req_method ?get = ''GET'' \<and> path_info ?get \<noteq> ''/'' \<and>
             ioctx_pool ctx1 = ioctx_pool ctx1 \<and>
             request_filename ?get (uwsgi_apps ?W ! 0) = request_filename ?req (uwsgi_apps ?w ! 0)"
      by code_simp
    from put_empty_body [OF cl, of host_async ctx1 "''/foo''" 30 ?w ?w 0 ?wp,
        THEN conjunct2, THEN conjunct1, THEN mp, OF hyp]
    obtain w' where
      r: "uwsgi_rados_request host_async ?req ?w = Returned UWSGI_OK w'"
      and a: "answers (trace w') = answers (trace ?w) @ [Prepare_headers ''201 Created'']"
      and gg: "\<forall>req2 a2 ctx2 wp2.
                  routed host_async req2 w' a2 ctx2 wp2 \<and> req_method req2 = ''GET'' \<and>
                  path_info req2 \<noteq> ''/'' \<and> ioctx_pool ctx2 = ioctx_pool ctx1 \<and>
                  request_filename req2 (uwsgi_apps w' ! a2) = request_filename ?req (uwsgi_apps ?w ! 0) \<longrightarrow>
                  answers (trace (world_of (uwsgi_rados_request host_async req2 w'))) =
                    answers (trace w') @ [Uwsgi_404]"
      by blast
    from r have W: "?W = w'" by simp
    from gg g have "answers (trace (world_of (uwsgi_rados_request host_async ?get ?W))) =
                    answers (trace ?W) @ [Uwsgi_404]"
      unfolding W by blast
    with a show ?thesis unfolding W [symmetric] t0 by simp
  qed
  have failed: "answers (trace (world_of (uwsgi_rados_request host_slow (http_request ''PUT'' ''/r/foo'' 0)
        ((mounted host_slow mount_rw)\<lparr>objects := [((''p1'', ''/foo''), \<lparr>obj_data = ''hello'', obj_mtime = 50\<rparr>)]\<rparr>)))) =
       [Prepare_headers ''201 Created''] \<and>
     objects (world_of (uwsgi_rados_request host_slow (http_request ''PUT'' ''/r/foo'' 0)
        ((mounted host_slow mount_rw)\<lparr>objects := [((''p1'', ''/foo''), \<lparr>obj_data = ''hello'', obj_mtime = 50\<rparr>)]\<rparr>))) = [((''p1'', ''/foo''), \<lparr>obj_data = ''hello'', obj_mtime = 50\<rparr>)]"
  proof -
    let ?req = "http_request ''PUT'' ''/r/foo'' 0"
    let ?w = "(mounted host_slow mount_rw)\<lparr>objects := [((''p1'', ''/foo''), \<lparr>obj_data = ''hello'', obj_mtime = 50\<rparr>)]\<rparr>"
    let ?wp = "world_of (request_pipe host_slow ?req ?w)"
    let ?ws = "world_of (stat_either host_slow (async_id ?req) ctx1
                 (request_filename ?req (uwsgi_apps ?w ! 0))
                 (request_timeout host_slow (responder1 (uwsgi_apps ?w ! 0))) ?wp)"
    have cl: "post_cl ?req = 0" by code_simp
    have hyp: "routed host_slow ?req ?w 0 ctx1 ?wp \<and> req_method ?req = ''PUT'' \<and>
          allow_put (responder1 (uwsgi_apps ?w ! 0)) \<noteq> None \<and> path_info ?req \<noteq> ''/'' \<and>
          stat_either host_slow (async_id ?req) ctx1 (request_filename ?req (uwsgi_apps ?w ! 0))
            (request_timeout host_slow (responder1 (uwsgi_apps ?w ! 0))) ?wp =
            Returned (- 1, reply (- 1)) ?ws \<and>
          (- 1 :: int) \<noteq> 0"
      by code_simp
    have t0: "trace ?w = []" "objects ?w = [((''p1'', ''/foo''), \<lparr>obj_data = ''hello'', obj_mtime = 50\<rparr>)]" by code_simp+
    from put_empty_body [OF cl, of host_slow ctx1 "''/foo''" 30 ?w ?w 0 ?wp,
        THEN conjunct2, THEN conjunct2, THEN conjunct1, THEN mp, OF hyp]
    obtain w' where
      r: "uwsgi_rados_request host_slow ?req ?w = Returned UWSGI_OK w'"
      and a: "answers (trace w') = answers (trace ?w) @ [Prepare_headers ''201 Created'']"
      and o: "objects w' = objects ?w"
      by blast
    from r have W: "world_of (uwsgi_rados_request host_slow ?req ?w) = w'" by simp
    from a o show ?thesis unfolding W t0 by simp
  qed
  have root: "answers (trace (world_of (uwsgi_rados_request host_async (http_request ''PUT'' ''/'' 0)
                (mounted host_async mount_rw)))) = [Uwsgi_405]"
  proof -
    let ?req = "http_request ''PUT'' ''/'' 0"
    let ?w = "mounted host_async mount_rw"
    let ?wp = "world_of (request_pipe host_async ?req ?w)"
    have cl: "post_cl ?req = 0" by code_simp
    have hyp: "routed host_async ?req ?w 0 ctx1 ?wp \<and> req_method ?req = ''PUT'' \<and>
                 path_info ?req = ''/''"
      by code_simp
    have t0: "trace ?w = []" by code_simp
    from put_empty_body [OF cl, of host_async ctx1 "''/''" 30 ?w ?w 0 ?wp,
        THEN conjunct2, THEN conjunct2, THEN conjunct2, THEN mp, OF hyp]
    obtain w' where
      r: "uwsgi_rados_request host_async ?req ?w = Returned UWSGI_OK w'"
      and a: "answers (trace w') = answers (trace ?w) @ [Uwsgi_405]"
      by blast
    from r have W: "world_of (uwsgi_rados_request host_async ?req ?w) = w'" by simp
    from a show ?thesis unfolding W t0 by simp
  qed
  from works failed root show ?thesis by simp
qed

text \<open>
  C10 as first stated fails on the path \<open>/\<close>: a PUT with \<open>Content-Length\<close> 0 on a mount that
  permits PUT is answered 405, not \<open>201 Created\<close>
\<close>

theorem put_empty_body_on_root:
  "post_cl (http_request ''PUT'' ''/'' 0) = 0 \<and>
   allow_put (responder1 (uwsgi_apps (mounted host_sync mount_rw) ! 0)) = Some ''1'' \<and>
   uwsgi_rados_request host_sync (http_request ''PUT'' ''/'' 0) (mounted host_sync mount_rw) =
     Returned UWSGI_OK ((mounted host_sync mount_rw)\<lparr>trace := [Resp Uwsgi_405]\<rparr>)"
  by code_simp

end
